theory Spec2Isabelle
  imports Complex_Main
begin

section \<open>Soundness estimates of the RISC Zero notebooks\<close>

text \<open>
  The two notebooks (\<^verbatim>\<open>risc0-security-analysis.ipynb\<close> and
  \<^verbatim>\<open>risc0-security-analysis-UDR.ipynb\<close>) are straight-line Python scripts over a handful
  of constants. Each assignment of the notebooks becomes a definition below, a function of the
  constants it reads; each run of a notebook becomes a function that returns either the
  exception that stops it or the values it displays.

  Python integers are modelled as \<^typ>\<open>nat\<close> and \<^typ>\<open>int\<close>, with exact arithmetic. A
  Python float is modelled as the real number it stands for, and every float operation as the
  exact operation followed by the rounding \<open>fl\<close> to the nearest binary64 value (ties to even,
  with gradual underflow): this is what IEEE 754 prescribes for \<open>+\<close>, \<open>-\<close>, \<open>*\<close>, \<open>/\<close>, the
  square root and the conversion of an integer. The functions \<^verbatim>\<open>math.pow\<close>, \<^verbatim>\<open>math.log\<close>
  and \<^verbatim>\<open>np.log2\<close> come from the C library, whose results can miss the nearest binary64
  value by one unit in the last place; they are modelled as correctly rounded as well.

  \<^verbatim>\<open>math.pow\<close> raises \<^verbatim>\<open>OverflowError\<close> when its result is beyond the binary64 range, and so
  does the conversion of \<^verbatim>\<open>H\<close> in \<^verbatim>\<open>H / rho\<close>; these are branches of the model. Everywhere
  else a result of magnitude \<open>2 ^ 1024\<close> and more is outside the model: it has no infinities,
  and the conversion of another integer of that size is not a branch of it.
\<close>

subsection \<open>Exceptions\<close>

text \<open>The exceptions of the model; a bare \<^verbatim>\<open>assert\<close> carries an empty message.\<close>

datatype exn = AssertionError string | ZeroDivisionError | ValueError | OverflowError

subsection \<open>Binary64 floats\<close>

text \<open>Rounding a real number to an integer, to nearest, ties to the even integer.\<close>

definition round_half_even :: "real \<Rightarrow> int" where
  "round_half_even z =
     (let f = \<lfloor>z\<rfloor>; d = z - real_of_int f in
      if d < 1 / 2 then f else if 1 / 2 < d then f + 1 else if even f then f else f + 1)"

text \<open>
  The exponent of the unit in the last place of the binary64 values around \<open>x\<close>: 53 significant
  bits, and \<open>2 powi (- 1074)\<close> as the least spacing (the subnormal range).
\<close>

definition ulp_exponent :: "real \<Rightarrow> int" where
  "ulp_exponent x = max (\<lfloor>log 2 \<bar>x\<bar>\<rfloor> - 52) (- 1074)"

text \<open>The binary64 value nearest to a real number.\<close>

definition fl :: "real \<Rightarrow> real" where
  "fl x =
     (if x = 0 then 0
      else real_of_int (round_half_even (x / 2 powi ulp_exponent x)) * 2 powi ulp_exponent x)"

text \<open>
  A real number whose nearest binary64 value would be beyond the largest one,
  \<open>2 ^ 1024 - 2 ^ 971\<close>: from half a unit in the last place above it on.
\<close>

definition overflows :: "real \<Rightarrow> bool" where
  "overflows x \<longleftrightarrow> 2 ^ 1024 - 2 ^ 970 \<le> \<bar>x\<bar>"

text \<open>\<^verbatim>\<open>float(n)\<close>, the conversion of a Python integer in a mixed operation.\<close>

definition int_float :: "int \<Rightarrow> real" where
  "int_float n = fl (real_of_int n)"

text \<open>\<^verbatim>\<open>a / b\<close> on two Python integers: the correctly rounded quotient.\<close>

definition int_div :: "int \<Rightarrow> int \<Rightarrow> real" where
  "int_div a b = fl (real_of_int a / real_of_int b)"

text \<open>\<^verbatim>\<open>math.sqrt(x)\<close>\<close>

definition math_sqrt :: "real \<Rightarrow> real" where
  "math_sqrt x = fl (sqrt x)"

text \<open>
  \<^verbatim>\<open>math.pow(x, n)\<close> for a float \<open>x\<close> and a non-negative Python integer \<open>n\<close> (below
  \<open>2 ^ 53\<close>, so that its conversion to a float is exact): the value it returns, and the
  condition under which it raises \<^verbatim>\<open>OverflowError\<close> instead, in the conversion of \<open>n\<close> or
  for the size of the power.
\<close>

definition math_pow :: "real \<Rightarrow> nat \<Rightarrow> real" where
  "math_pow x n = fl (x ^ n)"

definition math_pow_raises :: "real \<Rightarrow> nat \<Rightarrow> bool" where
  "math_pow_raises x n \<longleftrightarrow> overflows (real n) \<or> overflows (x ^ n)"

text \<open>
  \<^verbatim>\<open>math.pow(x, y)\<close> for a float \<open>x\<close> from 0 to 1 and a positive float \<open>y\<close> that is not an
  integer: it does not raise.
\<close>

definition math_pow_float :: "real \<Rightarrow> real \<Rightarrow> real" where
  "math_pow_float x y = fl (x powr y)"

text \<open>
  \<^verbatim>\<open>math.log(x, b)\<close> for positive \<open>x\<close>: the quotient of the two natural logarithms, as
  CPython computes it.
\<close>

definition math_log :: "real \<Rightarrow> real \<Rightarrow> real" where
  "math_log x b = fl (fl (ln x) / fl (ln b))"

text \<open>\<^verbatim>\<open>np.log2(x)\<close> for positive \<open>x\<close>, the column that \<^verbatim>\<open>show_table\<close> displays.\<close>

definition np_log2 :: "real \<Rightarrow> real" where
  "np_log2 x = fl (log 2 x)"

subsection \<open>The constants cell\<close>

text \<open>\<^verbatim>\<open>rho = 1 / (1 << k)\<close>\<close>

definition rho :: "nat \<Rightarrow> real" where
  "rho k = int_div 1 (2 ^ k)"

text \<open>\<^verbatim>\<open>H = 1 << h\<close>\<close>

definition H :: "nat \<Rightarrow> int" where
  "H h = 2 ^ h"

text \<open>\<^verbatim>\<open>D = H / rho\<close>\<close>

definition D :: "nat \<Rightarrow> nat \<Rightarrow> real" where
  "D k h = fl (int_float (H h) / rho k)"

text \<open>
  \<^verbatim>\<open>F = math.pow(p, e)\<close>, a float, and the condition under which the line raises
  \<^verbatim>\<open>OverflowError\<close>: in the conversion of \<open>p\<close> or of \<open>e\<close>, or for the size of the power.
\<close>

definition F :: "nat \<Rightarrow> nat \<Rightarrow> real" where
  "F p e = math_pow (int_float (int p)) e"

definition F_raises :: "nat \<Rightarrow> nat \<Rightarrow> bool" where
  "F_raises p e \<longleftrightarrow> overflows (real p) \<or> math_pow_raises (int_float (int p)) e"

text \<open>\<^verbatim>\<open>L = C + 4\<close>\<close>

definition L :: "nat \<Rightarrow> int" where
  "L C = int C + 4"

subsection \<open>Proximity parameters\<close>

text \<open>
  The proximity parameters are functions of the value of \<^verbatim>\<open>rho\<close> they read:
  \<^verbatim>\<open>alpha = (1 + 1 / (2 * m)) * math.sqrt(rho)\<close> and \<^verbatim>\<open>theta = 1 - alpha\<close>
\<close>

definition alpha :: "nat \<Rightarrow> real \<Rightarrow> real" where
  "alpha m rh = fl (fl (1 + int_div 1 (2 * int m)) * math_sqrt rh)"

definition theta :: "nat \<Rightarrow> real \<Rightarrow> real" where
  "theta m rh = fl (1 - alpha m rh)"

text \<open>The unique-decoding notebook: \<^verbatim>\<open>alpha = 1 - (1 - rho) / 2\<close>, \<^verbatim>\<open>theta = 1 - alpha\<close>\<close>

definition alpha_UDR :: "real \<Rightarrow> real" where
  "alpha_UDR rh = fl (1 - fl (fl (1 - rh) / 2))"

definition theta_UDR :: "real \<Rightarrow> real" where
  "theta_UDR rh = fl (1 - alpha_UDR rh)"

text \<open>The conjectured part: \<^verbatim>\<open>theta = 1 - rho - epsilon\<close>\<close>

definition theta_conj :: "real \<Rightarrow> real \<Rightarrow> real" where
  "theta_conj rh epsilon = fl (fl (1 - rh) - epsilon)"

subsection \<open>FRI error terms\<close>

text \<open>
  \<^verbatim>\<open>e_proximity_gap = math.pow(m + 1/2, 7) / (3 * math.pow(rho, 3/2)) * math.pow(D, 2) / F\<close>
\<close>

definition e_proximity_gap :: "nat \<Rightarrow> nat \<Rightarrow> nat \<Rightarrow> real \<Rightarrow> real" where
  "e_proximity_gap m k h f =
     fl (fl (fl (math_pow (fl (int_float (int m) + int_div 1 2)) 7
                 / fl (3 * math_pow_float (rho k) (int_div 3 2)))
             * math_pow (D k h) 2)
         / f)"

text \<open>
  The folding error, the second summand of \<^verbatim>\<open>e_FRI_constant\<close> in both parts of the first
  notebook:
  \<^verbatim>\<open>(2 * m + 1) * (D + 1) * 16 * math.floor((h + 2) / 4 - 2) / (math.sqrt(rho) * F)\<close>
\<close>

definition folding_error :: "nat \<Rightarrow> nat \<Rightarrow> nat \<Rightarrow> real \<Rightarrow> real" where
  "folding_error m k h f =
     fl (fl (fl (fl (int_float (2 * int m + 1) * fl (D k h + 1)) * 16)
             * int_float \<lfloor>fl (int_div (int h + 2) 4 - 2)\<rfloor>)
         / fl (math_sqrt (rho k) * f))"

text \<open>\<^verbatim>\<open>e_FRI_constant = (L - 1/2) * e_proximity_gap + ...\<close>\<close>

definition e_FRI_constant :: "nat \<Rightarrow> nat \<Rightarrow> nat \<Rightarrow> nat \<Rightarrow> real \<Rightarrow> real" where
  "e_FRI_constant C m k h f =
     fl (fl (fl (int_float (L C) - int_div 1 2) * e_proximity_gap m k h f)
         + folding_error m k h f)"

text \<open>\<^verbatim>\<open>e_FRI_queries = math.pow(1 - theta, s)\<close>, the same line in all three computations.\<close>

definition e_FRI_queries :: "real \<Rightarrow> nat \<Rightarrow> real" where
  "e_FRI_queries th s = math_pow (fl (1 - th)) s"

text \<open>\<^verbatim>\<open>e_FRI = e_FRI_constant + e_FRI_queries\<close>\<close>

definition e_FRI :: "real \<Rightarrow> real \<Rightarrow> real" where
  "e_FRI fc fq = fl (fc + fq)"

text \<open>
  The conjectured part:
  \<^verbatim>\<open>e_proximity_gap = 1 / math.pow(epsilon * rho, c_1) * L * math.pow(D, c_2) / F\<close>
\<close>

definition e_proximity_gap_conj :: "real \<Rightarrow> nat \<Rightarrow> nat \<Rightarrow> nat \<Rightarrow> nat \<Rightarrow> nat \<Rightarrow> real \<Rightarrow> real" where
  "e_proximity_gap_conj epsilon c_1 c_2 C k h f =
     fl (fl (fl (fl (1 / math_pow (fl (epsilon * rho k)) c_1) * int_float (L C))
             * math_pow (D k h) c_2)
         / f)"

definition e_FRI_constant_conj ::
    "real \<Rightarrow> nat \<Rightarrow> nat \<Rightarrow> nat \<Rightarrow> nat \<Rightarrow> nat \<Rightarrow> nat \<Rightarrow> real \<Rightarrow> real" where
  "e_FRI_constant_conj epsilon c_1 c_2 C m k h f =
     fl (fl (fl (int_float (L C) - int_div 1 2) * e_proximity_gap_conj epsilon c_1 c_2 C k h f)
         + folding_error m k h f)"

text \<open>
  The unique-decoding notebook: \<^verbatim>\<open>e_proximity_gap = D / F\<close> and
  \<^verbatim>\<open>e_FRI_constant = (L + 1) * e_proximity_gap\<close>
\<close>

definition e_proximity_gap_UDR :: "nat \<Rightarrow> nat \<Rightarrow> real \<Rightarrow> real" where
  "e_proximity_gap_UDR k h f = fl (D k h / f)"

definition e_FRI_constant_UDR :: "nat \<Rightarrow> nat \<Rightarrow> nat \<Rightarrow> real \<Rightarrow> real" where
  "e_FRI_constant_UDR C k h f = fl (int_float (L C + 1) * e_proximity_gap_UDR k h f)"

subsection \<open>The Johnson parameter of the extension code\<close>

text \<open>\<^verbatim>\<open>rho_plus = (H + 2) / D\<close>\<close>

definition rho_plus :: "nat \<Rightarrow> nat \<Rightarrow> real" where
  "rho_plus k h = fl (int_float (H h + 2) / D k h)"

text \<open>
  The divisor of the closed form, \<^verbatim>\<open>2 * (alpha / math.sqrt(rho_plus) - 1)\<close>, and the closed
  form \<^verbatim>\<open>m_plus = math.ceil(1 / (2 * (alpha / math.sqrt(rho_plus) - 1)))\<close>
\<close>

definition m_plus_divisor :: "real \<Rightarrow> real \<Rightarrow> real" where
  "m_plus_divisor al rp = fl (2 * fl (fl (al / math_sqrt rp) - 1))"

definition m_plus :: "real \<Rightarrow> real \<Rightarrow> int" where
  "m_plus al rp = \<lceil>fl (1 / m_plus_divisor al rp)\<rceil>"

text \<open>
  The condition of the second assertion,
  \<^verbatim>\<open>theta <= 1 - math.sqrt(rho_plus) * (1 + 1 / (2 * m_plus))\<close>, evaluated at an integer
  \<open>j\<close>: the division raises at \<open>j = 0\<close>.
\<close>

definition johnson_bound :: "real \<Rightarrow> real \<Rightarrow> int \<Rightarrow> exn + bool" where
  "johnson_bound th rp j =
     (if j = 0 then Inl ZeroDivisionError
      else Inr (th \<le> fl (1 - fl (math_sqrt rp * fl (1 + int_div 1 (2 * j))))))"

text \<open>
  The cell that computes \<^verbatim>\<open>m_plus\<close>, the same in both notebooks: the first assertion
  (where \<^verbatim>\<open>math.sqrt\<close> raises on a negative argument), the closed form with its two
  divisions, the second assertion.
\<close>

definition m_plus_cell :: "real \<Rightarrow> real \<Rightarrow> real \<Rightarrow> exn + int" where
  "m_plus_cell al th rp =
     (if rp < 0 then Inl ValueError
      else if th < fl (1 - math_sqrt rp) then
        (if math_sqrt rp = 0 then Inl ZeroDivisionError
         else if m_plus_divisor al rp = 0 then Inl ZeroDivisionError
         else
           (case johnson_bound th rp (m_plus al rp) of
              Inl err \<Rightarrow> Inl err
            | Inr ok \<Rightarrow> if ok then Inr (m_plus al rp) else Inl (AssertionError [])))
      else Inl (AssertionError []))"

subsection \<open>List sizes\<close>

text \<open>\<^verbatim>\<open>L_plus = (m_plus + 1/2) / math.sqrt(rho_plus)\<close>, a float\<close>

definition L_plus :: "int \<Rightarrow> real \<Rightarrow> real" where
  "L_plus mp rp = fl (fl (int_float mp + int_div 1 2) / math_sqrt rp)"

text \<open>
  The conjectured part: \<^verbatim>\<open>epsilon_plus = 1 - rho_plus - theta\<close> and
  \<^verbatim>\<open>L_plus = math.ceil(math.pow(D / epsilon_plus, C_rho))\<close>, an integer
\<close>

definition epsilon_plus :: "nat \<Rightarrow> nat \<Rightarrow> real \<Rightarrow> real" where
  "epsilon_plus k h epsilon = fl (fl (1 - rho_plus k h) - theta_conj (rho k) epsilon)"

definition L_plus_conj :: "nat \<Rightarrow> nat \<Rightarrow> real \<Rightarrow> nat \<Rightarrow> int" where
  "L_plus_conj k h epsilon C_rho = \<lceil>math_pow (fl (D k h / epsilon_plus k h epsilon)) C_rho\<rceil>"

text \<open>The unique-decoding notebook: \<^verbatim>\<open>L_plus = 1\<close>, an integer\<close>

definition L_plus_UDR :: int where
  "L_plus_UDR = 1"

subsection \<open>The remaining error terms and the total\<close>

text \<open>
  \<^verbatim>\<open>e_ALI = L_plus * C / F\<close>. Where \<^verbatim>\<open>L_plus\<close> is a float the product is a float product;
  where it is an integer the product is exact and is converted for the division.
\<close>

definition e_ALI :: "real \<Rightarrow> nat \<Rightarrow> real \<Rightarrow> real" where
  "e_ALI lp C f = fl (fl (lp * int_float (int C)) / f)"

definition e_ALI_int :: "int \<Rightarrow> nat \<Rightarrow> real \<Rightarrow> real" where
  "e_ALI_int lp C f = fl (int_float (lp * int C) / f)"

text \<open>
  \<^verbatim>\<open>e_DEEP = L_plus * (4 * (H + 1) + (H - 1)) / (F - H - D)\<close>, with the same distinction, and
  its divisor.
\<close>

definition DEEP_divisor :: "nat \<Rightarrow> nat \<Rightarrow> real \<Rightarrow> real" where
  "DEEP_divisor k h f = fl (fl (f - int_float (H h)) - D k h)"

definition e_DEEP :: "real \<Rightarrow> nat \<Rightarrow> nat \<Rightarrow> real \<Rightarrow> real" where
  "e_DEEP lp k h f =
     fl (fl (lp * int_float (4 * (H h + 1) + (H h - 1))) / DEEP_divisor k h f)"

definition e_DEEP_int :: "int \<Rightarrow> nat \<Rightarrow> nat \<Rightarrow> real \<Rightarrow> real" where
  "e_DEEP_int lp k h f =
     fl (int_float (lp * (4 * (H h + 1) + (H h - 1))) / DEEP_divisor k h f)"

text \<open>\<^verbatim>\<open>e_PLONK = e * 5 * H / F\<close> and \<^verbatim>\<open>e_PLOOKUP = e * 15 * H / F\<close>\<close>

definition e_PLONK :: "nat \<Rightarrow> nat \<Rightarrow> real \<Rightarrow> real" where
  "e_PLONK e h f = fl (int_float (int e * 5 * H h) / f)"

definition e_PLOOKUP :: "nat \<Rightarrow> nat \<Rightarrow> real \<Rightarrow> real" where
  "e_PLOOKUP e h f = fl (int_float (int e * 15 * H h) / f)"

text \<open>\<^verbatim>\<open>e_IOP = e_FRI + e_ALI + e_DEEP + e_PLONK + e_PLOOKUP\<close>, summed from the left.\<close>

definition e_IOP :: "real \<Rightarrow> real \<Rightarrow> real \<Rightarrow> real \<Rightarrow> real \<Rightarrow> real" where
  "e_IOP fri ali deep plonk plookup = fl (fl (fl (fl (fri + ali) + deep) + plonk) + plookup)"

text \<open>
  What a run displays: the six rows of \<^verbatim>\<open>show_table\<close> (before its \<^verbatim>\<open>np.log2\<close>), the list
  size, the total \<^verbatim>\<open>e_IOP\<close> and the cell output \<^verbatim>\<open>math.log(e_IOP, 2)\<close>.
\<close>

record report =
  FRI_constant :: real
  FRI_queries :: real
  ALI :: real
  DEEP :: real
  PLONK :: real
  PLOOKUP :: real
  list_size :: real
  IOP :: real
  log2_IOP :: real

text \<open>
  The last cell of each computation, after \<^verbatim>\<open>L_plus\<close>: the divisions by \<^verbatim>\<open>F\<close> and by
  \<^verbatim>\<open>F - H - D\<close> raise when the divisor is zero, and \<^verbatim>\<open>math.log(e_IOP, 2)\<close> raises
  \<^verbatim>\<open>ValueError\<close> unless \<^verbatim>\<open>e_IOP\<close> is positive. The cell takes the two terms that depend on
  the kind of \<^verbatim>\<open>L_plus\<close> as they are computed once the divisors are not zero.
\<close>

definition IOP_cell ::
    "real \<Rightarrow> real \<Rightarrow> real \<Rightarrow> real \<Rightarrow> real \<Rightarrow> nat \<Rightarrow> nat \<Rightarrow> nat \<Rightarrow> real \<Rightarrow> exn + report" where
  "IOP_cell fc fq lp ali deep e k h f =
     (if f = 0 then Inl ZeroDivisionError
      else if DEEP_divisor k h f = 0 then Inl ZeroDivisionError
      else if 0 < e_IOP (e_FRI fc fq) ali deep (e_PLONK e h f) (e_PLOOKUP e h f) then
        Inr \<lparr>FRI_constant = fc, FRI_queries = fq, ALI = ali, DEEP = deep,
             PLONK = e_PLONK e h f, PLOOKUP = e_PLOOKUP e h f, list_size = lp,
             IOP = e_IOP (e_FRI fc fq) ali deep (e_PLONK e h f) (e_PLOOKUP e h f),
             log2_IOP = math_log (e_IOP (e_FRI fc fq) ali deep (e_PLONK e h f) (e_PLOOKUP e h f)) 2\<rparr>
      else Inl ValueError)"

subsection \<open>The three computations\<close>

text \<open>
  The cells before the \<^verbatim>\<open>m_plus\<close> cell contain no assertion, but some of their lines can raise;
  each group of cells below is the exception of the first line that raises, if any, the lines
  taken in the order of the source.

  The constants cell of both notebooks: \<^verbatim>\<open>D = H / rho\<close> converts \<^verbatim>\<open>H\<close> to a float and divides,
  \<^verbatim>\<open>F = math.pow(p, e)\<close> may overflow.
\<close>

definition constants_cell :: "nat \<Rightarrow> nat \<Rightarrow> nat \<Rightarrow> nat \<Rightarrow> exn option" where
  "constants_cell k h e p =
     (if overflows (real_of_int (H h)) then Some OverflowError
      else if rho k = 0 then Some ZeroDivisionError
      else if F_raises p e then Some OverflowError
      else None)"

text \<open>
  The cells of the first notebook that set \<^verbatim>\<open>m\<close>, \<^verbatim>\<open>alpha\<close>, \<^verbatim>\<open>theta\<close> and the FRI terms:
  the division by \<open>2 * m\<close>, \<^verbatim>\<open>math.pow(m + 1/2, 7)\<close>, the division by
  \<^verbatim>\<open>3 * math.pow(rho, 3/2)\<close>, \<^verbatim>\<open>math.pow(D, 2)\<close>, the divisions by \<^verbatim>\<open>F\<close> and by
  \<^verbatim>\<open>math.sqrt(rho) * F\<close>, and \<^verbatim>\<open>math.pow(1 - theta, s)\<close>.
\<close>

definition FRI_cell :: "nat \<Rightarrow> nat \<Rightarrow> nat \<Rightarrow> nat \<Rightarrow> nat \<Rightarrow> nat \<Rightarrow> exn option" where
  "FRI_cell k h e p s m =
     (if m = 0 then Some ZeroDivisionError
      else if math_pow_raises (fl (int_float (int m) + int_div 1 2)) 7 then Some OverflowError
      else if fl (3 * math_pow_float (rho k) (int_div 3 2)) = 0 then Some ZeroDivisionError
      else if math_pow_raises (D k h) 2 then Some OverflowError
      else if F p e = 0 then Some ZeroDivisionError
      else if fl (math_sqrt (rho k) * F p e) = 0 then Some ZeroDivisionError
      else if math_pow_raises (fl (1 - theta m (rho k))) s then Some OverflowError
      else None)"

text \<open>
  The provable part of the first notebook: the constants, the FRI terms, the \<^verbatim>\<open>m_plus\<close> cell
  with its two assertions, and the last cell.
\<close>

definition provable :: "nat \<Rightarrow> nat \<Rightarrow> nat \<Rightarrow> nat \<Rightarrow> nat \<Rightarrow> nat \<Rightarrow> nat \<Rightarrow> exn + report" where
  "provable k h e p C s m =
     (case constants_cell k h e p of
        Some err \<Rightarrow> Inl err
      | None \<Rightarrow>
     (case FRI_cell k h e p s m of
        Some err \<Rightarrow> Inl err
      | None \<Rightarrow>
     (case m_plus_cell (alpha m (rho k)) (theta m (rho k)) (rho_plus k h) of
        Inl err \<Rightarrow> Inl err
      | Inr mp \<Rightarrow>
          IOP_cell (e_FRI_constant C m k h (F p e)) (e_FRI_queries (theta m (rho k)) s)
            (L_plus mp (rho_plus k h))
            (e_ALI (L_plus mp (rho_plus k h)) C (F p e))
            (e_DEEP (L_plus mp (rho_plus k h)) k h (F p e)) e k h (F p e))))"

text \<open>
  The cell of the conjectured part that sets \<^verbatim>\<open>theta\<close>, the FRI terms and \<^verbatim>\<open>L_plus\<close>: the
  assertion \<^verbatim>\<open>theta < 1 - rho_plus\<close>, \<^verbatim>\<open>math.pow(epsilon * rho, c_1)\<close> and the division by
  it, \<^verbatim>\<open>math.pow(D, c_2)\<close>, \<^verbatim>\<open>math.pow(1 - theta, s)\<close>, the division by \<^verbatim>\<open>epsilon_plus\<close> and
  \<^verbatim>\<open>math.pow(D / epsilon_plus, C_rho)\<close>. The divisions by \<^verbatim>\<open>F\<close> and by
  \<^verbatim>\<open>math.sqrt(rho) * F\<close> have passed in the provable part.
\<close>

definition conjectured_cell ::
    "nat \<Rightarrow> nat \<Rightarrow> nat \<Rightarrow> real \<Rightarrow> nat \<Rightarrow> nat \<Rightarrow> nat \<Rightarrow> exn option" where
  "conjectured_cell k h s epsilon c_1 c_2 C_rho =
     (if \<not> theta_conj (rho k) epsilon < fl (1 - rho_plus k h) then Some (AssertionError [])
      else if math_pow_raises (fl (epsilon * rho k)) c_1 then Some OverflowError
      else if math_pow (fl (epsilon * rho k)) c_1 = 0 then Some ZeroDivisionError
      else if math_pow_raises (D k h) c_2 then Some OverflowError
      else if math_pow_raises (fl (1 - theta_conj (rho k) epsilon)) s then Some OverflowError
      else if epsilon_plus k h epsilon = 0 then Some ZeroDivisionError
      else if math_pow_raises (fl (D k h / epsilon_plus k h epsilon)) C_rho
        then Some OverflowError
      else None)"

text \<open>
  The conjectured part runs after the provable part, in the same notebook, and reads its
  variables (\<^verbatim>\<open>m\<close> and \<^verbatim>\<open>rho_plus\<close> among them); \<^verbatim>\<open>theta\<close>, the FRI terms and \<^verbatim>\<open>L_plus\<close>
  are overwritten.
\<close>

definition conjectured ::
    "nat \<Rightarrow> nat \<Rightarrow> nat \<Rightarrow> nat \<Rightarrow> nat \<Rightarrow> nat \<Rightarrow> nat \<Rightarrow> real \<Rightarrow> nat \<Rightarrow> nat \<Rightarrow> nat \<Rightarrow> exn + report" where
  "conjectured k h e p C s m epsilon c_1 c_2 C_rho =
     (case provable k h e p C s m of
        Inl err \<Rightarrow> Inl err
      | Inr proved \<Rightarrow>
     (case conjectured_cell k h s epsilon c_1 c_2 C_rho of
        Some err \<Rightarrow> Inl err
      | None \<Rightarrow>
          IOP_cell (e_FRI_constant_conj epsilon c_1 c_2 C m k h (F p e))
            (e_FRI_queries (theta_conj (rho k) epsilon) s)
            (real_of_int (L_plus_conj k h epsilon C_rho))
            (e_ALI_int (L_plus_conj k h epsilon C_rho) C (F p e))
            (e_DEEP_int (L_plus_conj k h epsilon C_rho) k h (F p e)) e k h (F p e)))"

text \<open>
  The cells of the unique-decoding notebook that set \<^verbatim>\<open>alpha\<close>, \<^verbatim>\<open>theta\<close> and the FRI terms:
  the division \<^verbatim>\<open>D / F\<close> and \<^verbatim>\<open>math.pow(1 - theta, s)\<close>.
\<close>

definition FRI_cell_UDR :: "nat \<Rightarrow> nat \<Rightarrow> nat \<Rightarrow> nat \<Rightarrow> exn option" where
  "FRI_cell_UDR k e p s =
     (if F p e = 0 then Some ZeroDivisionError
      else if math_pow_raises (fl (1 - theta_UDR (rho k))) s then Some OverflowError
      else None)"

text \<open>
  The unique-decoding notebook. Its variable \<^verbatim>\<open>m = 16\<close> is read by no later line and is left
  out; the \<^verbatim>\<open>m_plus\<close> cell is run as in the first notebook, and its result is read by no
  error term.
\<close>

definition unique_decoding :: "nat \<Rightarrow> nat \<Rightarrow> nat \<Rightarrow> nat \<Rightarrow> nat \<Rightarrow> nat \<Rightarrow> exn + report" where
  "unique_decoding k h e p C s =
     (case constants_cell k h e p of
        Some err \<Rightarrow> Inl err
      | None \<Rightarrow>
     (case FRI_cell_UDR k e p s of
        Some err \<Rightarrow> Inl err
      | None \<Rightarrow>
     (case m_plus_cell (alpha_UDR (rho k)) (theta_UDR (rho k)) (rho_plus k h) of
        Inl err \<Rightarrow> Inl err
      | Inr mp \<Rightarrow>
          IOP_cell (e_FRI_constant_UDR C k h (F p e)) (e_FRI_queries (theta_UDR (rho k)) s)
            (real_of_int L_plus_UDR)
            (e_ALI_int L_plus_UDR C (F p e))
            (e_DEEP_int L_plus_UDR k h (F p e)) e k h (F p e))))"

subsection \<open>The closed form in exact arithmetic\<close>





subsection \<open>Bounds on binary logarithms\<close>

text \<open>
  Two functions that bound a binary logarithm by repeated squaring in fixed-point arithmetic.
  For an integer \<open>a\<close> that stands for \<open>a / 2 ^ w\<close> in the interval from 1 to 2, they deliver
  the first \<open>n\<close> binary digits of the logarithm, rounding every square down or up.
\<close>

fun log2_lower :: "nat \<Rightarrow> nat \<Rightarrow> int \<Rightarrow> int" where
  "log2_lower w 0 a = 0"
| "log2_lower w (Suc n) a =
     (let b = a * a div 2 ^ w in
      if 2 * 2 ^ w \<le> b then 2 ^ n + log2_lower w n (b div 2) else log2_lower w n b)"

fun log2_upper :: "nat \<Rightarrow> nat \<Rightarrow> int \<Rightarrow> int" where
  "log2_upper w 0 a = 1"
| "log2_upper w (Suc n) a =
     (let b = (a * a + (2 ^ w - 1)) div 2 ^ w in
      if 2 * 2 ^ w < b then 2 ^ n + log2_upper w n ((b + 1) div 2) else log2_upper w n b)"

section \<open>Properties\<close>

subsection \<open>Rounding to an integer\<close>

lemma round_half_even_cases:
  "round_half_even z = \<lfloor>z\<rfloor> \<or> round_half_even z = \<lfloor>z\<rfloor> + 1"
  by (simp add: round_half_even_def Let_def)

lemma round_half_even_of_int [simp]: "round_half_even (real_of_int n) = n"
  by (simp add: round_half_even_def)

lemma round_half_even_eq:
  assumes "z = real_of_int f + d" and "0 \<le> d" and "d < 1"
  shows "round_half_even z =
    (if d < 1 / 2 then f else if 1 / 2 < d then f + 1 else if even f then f else f + 1)"
proof -
  have "\<lfloor>z\<rfloor> = f" using assms by (intro floor_unique) simp_all
  moreover from this have "z - real_of_int \<lfloor>z\<rfloor> = d" using assms(1) by simp
  ultimately show ?thesis unfolding round_half_even_def Let_def by (simp only:)
qed

lemma round_half_even_0 [simp]: "round_half_even 0 = 0"
  using round_half_even_of_int [of 0] by simp

lemma round_half_even_error: "\<bar>real_of_int (round_half_even z) - z\<bar> \<le> 1 / 2"
proof -
  define f where "f = \<lfloor>z\<rfloor>"
  define d where "d = z - real_of_int f"
  have d: "0 \<le> d" "d < 1" unfolding d_def f_def by linarith+
  have z: "z = real_of_int f + d" by (simp add: d_def)
  have r: "round_half_even z =
    (if d < 1 / 2 then f else if 1 / 2 < d then f + 1 else if even f then f else f + 1)"
    using z d by (rule round_half_even_eq)
  have "\<bar>real_of_int (round_half_even z) - (real_of_int f + d)\<bar> \<le> 1 / 2"
    unfolding r using d by (auto simp add: abs_if)
  then show ?thesis using z by simp
qed

lemma round_half_even_nearest:
  assumes "\<bar>z - real_of_int n\<bar> < 1 / 2"
  shows "round_half_even z = n"
proof -
  have "\<bar>real_of_int (round_half_even z) - z\<bar> \<le> 1 / 2" by (rule round_half_even_error)
  then have "\<bar>real_of_int (round_half_even z) - real_of_int n\<bar> < 1" using assms by linarith
  then have "\<bar>real_of_int (round_half_even z - n)\<bar> < 1" by simp
  then have "\<bar>round_half_even z - n\<bar> < 1" by (simp only: of_int_abs [symmetric] of_int_less_1_iff)
  then show ?thesis by simp
qed

lemma round_half_even_mono:
  assumes "z \<le> w"
  shows "round_half_even z \<le> round_half_even w"
proof -
  have fl: "\<lfloor>z\<rfloor> \<le> \<lfloor>w\<rfloor>" using assms by (rule floor_mono)
  show ?thesis
  proof (cases "\<lfloor>z\<rfloor> = \<lfloor>w\<rfloor>")
    case False
    then have "\<lfloor>z\<rfloor> + 1 \<le> \<lfloor>w\<rfloor>" using fl by simp
    moreover have "round_half_even z \<le> \<lfloor>z\<rfloor> + 1" using round_half_even_cases [of z] by auto
    moreover have "\<lfloor>w\<rfloor> \<le> round_half_even w" using round_half_even_cases [of w] by auto
    ultimately show ?thesis by linarith
  next
    case True
    have d: "z - real_of_int \<lfloor>z\<rfloor> \<le> w - real_of_int \<lfloor>w\<rfloor>" using assms True by simp
    show ?thesis
      using d True by (auto simp add: round_half_even_def Let_def)
  qed
qed

lemma round_half_even_minus: "round_half_even (- z) = - round_half_even z"
proof (cases "z = real_of_int \<lfloor>z\<rfloor>")
  case True
  then obtain n where "z = real_of_int n" ..
  then show ?thesis by (simp flip: of_int_minus)
next
  case False
  define f where "f = \<lfloor>z\<rfloor>"
  define d where "d = z - real_of_int f"
  have d: "0 < d" "d < 1" using False unfolding d_def f_def by linarith+
  have z: "z = real_of_int f + d" by (simp add: d_def)
  have zm: "- z = real_of_int (- f - 1) + (1 - d)" by (simp add: d_def)
  have a: "round_half_even z =
    (if d < 1 / 2 then f else if 1 / 2 < d then f + 1 else if even f then f else f + 1)"
    using z d by (intro round_half_even_eq) simp_all
  have b: "round_half_even (- z) =
    (if 1 - d < 1 / 2 then - f - 1 else if 1 / 2 < 1 - d then - f - 1 + 1
     else if even (- f - 1) then - f - 1 else - f - 1 + 1)"
    using zm d by (intro round_half_even_eq) simp_all
  consider "d < 1 / 2" | "1 / 2 < d" | "d = 1 / 2" by linarith
  then show ?thesis
  proof cases
    case 1
    then show ?thesis unfolding a b by simp
  next
    case 2
    then show ?thesis unfolding a b by simp
  next
    case 3
    then show ?thesis unfolding a b by (cases "even f") simp_all
  qed
qed

subsection \<open>The exponent of the last place\<close>

lemma floor_log2_eq_powi:
  assumes "0 < a"
  shows "\<lfloor>log 2 a\<rfloor> = n \<longleftrightarrow> 2 powi n \<le> a \<and> a < 2 powi (n + 1)"
proof -
  have 1: "(2::real) powr real_of_int n = 2 powi n" by (intro powr_real_of_int') simp_all
  have 2: "(2::real) powr real_of_int (n + 1) = 2 powi (n + 1)" by (intro powr_real_of_int') simp_all
  show ?thesis
    using floor_log_eq_powr_iff [of a 2 n] assms 1 2 by (simp add: add.commute)
qed

lemma floor_log2_bounds:
  assumes "0 < a"
  shows "2 powi \<lfloor>log 2 a\<rfloor> \<le> a" and "a < 2 powi (\<lfloor>log 2 a\<rfloor> + 1)"
  using floor_log2_eq_powi [OF assms, of "\<lfloor>log 2 a\<rfloor>"] by simp_all

lemma ulp_exponent_ge: "- 1074 \<le> ulp_exponent x"
  by (simp add: ulp_exponent_def)

lemma ulp_exponent_minus [simp]: "ulp_exponent (- x) = ulp_exponent x"
  by (simp add: ulp_exponent_def)

lemma ulp_exponent_normal:
  assumes "2 powi (52 + e) \<le> \<bar>x\<bar>" and "\<bar>x\<bar> < 2 powi (53 + e)" and "- 1074 \<le> e"
  shows "ulp_exponent x = e"
proof -
  have "0 < (2::real) powi (52 + e)" by simp
  then have pos: "0 < \<bar>x\<bar>" using assms(1) by linarith
  have "\<lfloor>log 2 \<bar>x\<bar>\<rfloor> = 52 + e"
    using assms(1,2) by (simp add: floor_log2_eq_powi [OF pos] add.commute add.left_commute)
  then show ?thesis using assms(3) by (simp add: ulp_exponent_def)
qed

lemma ulp_exponent_subnormal:
  assumes "x \<noteq> 0" and "\<bar>x\<bar> < 2 powi (- 1022)"
  shows "ulp_exponent x = - 1074"
proof -
  define n where "n = \<lfloor>log 2 \<bar>x\<bar>\<rfloor>"
  have pos: "0 < \<bar>x\<bar>" using assms(1) by simp
  have "n < - 1022"
  proof (rule ccontr)
    assume "\<not> n < - 1022"
    then have "(2::real) powi (- 1022) \<le> 2 powi n"
      by (intro power_int_increasing) simp_all
    then show False using floor_log2_bounds(1) [OF pos] assms(2) unfolding n_def by linarith
  qed
  then have "max (n - 52) (- 1074) = - 1074" by simp
  then show ?thesis unfolding ulp_exponent_def n_def .
qed

lemma ulp_exponent_upper:
  assumes "x \<noteq> 0"
  shows "\<bar>x\<bar> < 2 powi (53 + ulp_exponent x)"
proof -
  define n where "n = \<lfloor>log 2 \<bar>x\<bar>\<rfloor>"
  have pos: "0 < \<bar>x\<bar>" using assms by simp
  have e: "ulp_exponent x = max (n - 52) (- 1074)" by (simp add: ulp_exponent_def n_def)
  have "n + 1 \<le> 53 + ulp_exponent x" unfolding e by simp
  then have "(2::real) powi (n + 1) \<le> 2 powi (53 + ulp_exponent x)"
    by (intro power_int_increasing) simp_all
  then show ?thesis using floor_log2_bounds(2) [OF pos] unfolding n_def by linarith
qed

lemma ulp_exponent_lower:
  assumes "2 powi (- 1022) \<le> \<bar>x\<bar>"
  shows "2 powi (52 + ulp_exponent x) \<le> \<bar>x\<bar>"
proof -
  have "0 < (2::real) powi (- 1022)" by simp
  then have pos: "0 < \<bar>x\<bar>" using assms by linarith
  define n where "n = \<lfloor>log 2 \<bar>x\<bar>\<rfloor>"
  have e: "ulp_exponent x = max (n - 52) (- 1074)" by (simp add: ulp_exponent_def n_def)
  have "- 1022 \<le> n"
  proof (rule ccontr)
    assume "\<not> - 1022 \<le> n"
    then have "n + 1 \<le> - 1022" by simp
    then have "(2::real) powi (n + 1) \<le> 2 powi (- 1022)"
      by (intro power_int_increasing) simp_all
    then show False using floor_log2_bounds(2) [OF pos] assms unfolding n_def by linarith
  qed
  then have "52 + ulp_exponent x = n" unfolding e by simp
  then show ?thesis using floor_log2_bounds(1) [OF pos] unfolding n_def by simp
qed

lemma ulp_exponent_mono:
  assumes "x \<noteq> 0" and "\<bar>x\<bar> \<le> \<bar>y\<bar>"
  shows "ulp_exponent x \<le> ulp_exponent y"
proof -
  have "0 < \<bar>x\<bar>" using assms(1) by simp
  then have "log 2 \<bar>x\<bar> \<le> log 2 \<bar>y\<bar>" using assms(2) by simp
  then have "\<lfloor>log 2 \<bar>x\<bar>\<rfloor> \<le> \<lfloor>log 2 \<bar>y\<bar>\<rfloor>" by (rule floor_mono)
  then show ?thesis by (simp add: ulp_exponent_def)
qed

subsection \<open>Rounding to binary64\<close>

lemma fl_0 [simp]: "fl 0 = 0"
  by (simp add: fl_def)

lemma fl_minus: "fl (- x) = - fl x"
  by (simp add: fl_def round_half_even_minus)

lemma fl_eq:
  assumes "x \<noteq> 0"
  shows "fl x = real_of_int (round_half_even (x / 2 powi ulp_exponent x)) * 2 powi ulp_exponent x"
  using assms by (simp add: fl_def)

lemma fl_normal:
  assumes "2 powi (52 + e) \<le> \<bar>x\<bar>" and "\<bar>x\<bar> < 2 powi (53 + e)" and "- 1074 \<le> e"
  shows "fl x = real_of_int (round_half_even (x / 2 powi e)) * 2 powi e"
proof -
  have "0 < (2::real) powi (52 + e)" by simp
  then have "0 < \<bar>x\<bar>" using assms(1) by linarith
  then have "x \<noteq> 0" by simp
  then show ?thesis by (simp add: fl_eq ulp_exponent_normal [OF assms])
qed

lemma fl_subnormal:
  assumes "\<bar>x\<bar> < 2 powi (- 1022)"
  shows "fl x = real_of_int (round_half_even (x / 2 powi (- 1074))) * 2 powi (- 1074)"
proof (cases "x = 0")
  case True
  then show ?thesis by simp
next
  case False
  then show ?thesis by (simp add: fl_eq ulp_exponent_subnormal [OF False assms])
qed

lemma fl_error:
  assumes "x \<noteq> 0"
  shows "\<bar>fl x - x\<bar> \<le> 2 powi ulp_exponent x / 2"
proof -
  define e where "e = ulp_exponent x"
  define z where "z = x / 2 powi e"
  have x: "x = z * 2 powi e" by (simp add: z_def)
  have "fl x - x = (real_of_int (round_half_even z) - z) * 2 powi e"
    unfolding fl_eq [OF assms] e_def [symmetric] z_def [symmetric] by (simp add: x algebra_simps)
  then have "\<bar>fl x - x\<bar> = \<bar>real_of_int (round_half_even z) - z\<bar> * 2 powi e"
    by (simp add: abs_mult)
  also have "\<dots> \<le> 1 / 2 * 2 powi e"
    by (intro mult_right_mono round_half_even_error) simp
  finally show ?thesis by (simp add: e_def)
qed

lemma fl_relative_error:
  assumes "2 powi (- 1022) \<le> \<bar>x\<bar>"
  shows "\<bar>fl x - x\<bar> \<le> \<bar>x\<bar> / 2 ^ 53"
proof -
  have "0 < (2::real) powi (- 1022)" by simp
  then have "0 < \<bar>x\<bar>" using assms by linarith
  then have nz: "x \<noteq> 0" by simp
  have "\<bar>fl x - x\<bar> \<le> 2 powi ulp_exponent x / 2" using nz by (rule fl_error)
  also have "(2::real) powi ulp_exponent x / 2 = 2 powi (52 + ulp_exponent x) / 2 ^ 53"
    by (simp add: power_int_add)
  also have "\<dots> \<le> \<bar>x\<bar> / 2 ^ 53"
    using ulp_exponent_lower [OF assms] by (simp add: divide_right_mono)
  finally show ?thesis .
qed

lemma ulp_exponent_lower':
  assumes "x \<noteq> 0" and "- 1074 < ulp_exponent x"
  shows "2 powi (52 + ulp_exponent x) \<le> \<bar>x\<bar>"
proof -
  define n where "n = \<lfloor>log 2 \<bar>x\<bar>\<rfloor>"
  have pos: "0 < \<bar>x\<bar>" using assms(1) by simp
  have e: "ulp_exponent x = max (n - 52) (- 1074)" by (simp add: ulp_exponent_def n_def)
  have "52 + ulp_exponent x = n" using assms(2) unfolding e by simp
  then show ?thesis using floor_log2_bounds(1) [OF pos] unfolding n_def by simp
qed

lemma fl_nonneg:
  assumes "0 \<le> x"
  shows "0 \<le> fl x"
proof (cases "x = 0")
  case True
  then show ?thesis by simp
next
  case False
  have "0 \<le> x / 2 powi ulp_exponent x" using assms by simp
  then have "round_half_even 0 \<le> round_half_even (x / 2 powi ulp_exponent x)"
    by (rule round_half_even_mono)
  then have "0 \<le> real_of_int (round_half_even (x / 2 powi ulp_exponent x))" by simp
  then show ?thesis unfolding fl_eq [OF False] by simp
qed

lemma fl_mono_pos:
  assumes "0 < x" and "x \<le> y"
  shows "fl x \<le> fl y"
proof -
  define ex where "ex = ulp_exponent x"
  define ey where "ey = ulp_exponent y"
  have nz: "x \<noteq> 0" "y \<noteq> 0" using assms by simp_all
  have fx: "fl x = real_of_int (round_half_even (x / 2 powi ex)) * 2 powi ex"
    unfolding ex_def by (rule fl_eq [OF nz(1)])
  have fy: "fl y = real_of_int (round_half_even (y / 2 powi ey)) * 2 powi ey"
    unfolding ey_def by (rule fl_eq [OF nz(2)])
  have le: "ex \<le> ey"
    unfolding ex_def ey_def using assms by (intro ulp_exponent_mono) simp_all
  show ?thesis
  proof (cases "ex = ey")
    case True
    have "x / 2 powi ey \<le> y / 2 powi ey" using assms(2) by (simp add: divide_right_mono)
    then have "round_half_even (x / 2 powi ey) \<le> round_half_even (y / 2 powi ey)"
      by (rule round_half_even_mono)
    then have "real_of_int (round_half_even (x / 2 powi ey)) * 2 powi ey
        \<le> real_of_int (round_half_even (y / 2 powi ey)) * 2 powi ey"
      by (intro mult_right_mono) simp_all
    then show ?thesis unfolding fx fy True .
  next
    case False
    then have lt: "ex < ey" using le by simp
    have "\<bar>x\<bar> < 2 powi (53 + ex)" unfolding ex_def by (rule ulp_exponent_upper [OF nz(1)])
    then have "x < 2 ^ 53 * 2 powi ex" using assms(1) by (simp add: power_int_add)
    then have "x / 2 powi ex \<le> real_of_int (2 ^ 53)" by (simp add: field_simps)
    then have "round_half_even (x / 2 powi ex) \<le> round_half_even (real_of_int (2 ^ 53))"
      by (rule round_half_even_mono)
    then have "round_half_even (x / 2 powi ex) \<le> 2 ^ 53"
      by (simp only: round_half_even_of_int)
    then have "real_of_int (round_half_even (x / 2 powi ex)) \<le> real_of_int (2 ^ 53)"
      by (simp only: of_int_le_iff)
    then have "fl x \<le> real_of_int (2 ^ 53) * 2 powi ex"
      unfolding fx by (intro mult_right_mono) simp_all
    also have "\<dots> = 2 powi (53 + ex)" by (simp add: power_int_add)
    also have "\<dots> \<le> 2 powi (52 + ey)" using lt by (intro power_int_increasing) simp_all
    finally have upper: "fl x \<le> 2 powi (52 + ey)" .
    have "- 1074 \<le> ex" unfolding ex_def by (rule ulp_exponent_ge)
    then have "- 1074 < ulp_exponent y" using lt by (simp add: ey_def)
    then have "2 powi (52 + ey) \<le> \<bar>y\<bar>" unfolding ey_def by (rule ulp_exponent_lower' [OF nz(2)])
    then have "2 ^ 52 * 2 powi ey \<le> y" using assms by (simp add: power_int_add)
    then have "real_of_int (2 ^ 52) \<le> y / 2 powi ey" by (simp add: field_simps)
    then have "round_half_even (real_of_int (2 ^ 52)) \<le> round_half_even (y / 2 powi ey)"
      by (rule round_half_even_mono)
    then have "2 ^ 52 \<le> round_half_even (y / 2 powi ey)"
      by (simp only: round_half_even_of_int)
    then have "real_of_int (2 ^ 52) \<le> real_of_int (round_half_even (y / 2 powi ey))"
      by (simp only: of_int_le_iff)
    then have "real_of_int (2 ^ 52) * 2 powi ey \<le> fl y"
      unfolding fy by (intro mult_right_mono) simp_all
    moreover have "real_of_int (2 ^ 52) * 2 powi ey = 2 powi (52 + ey)" by (simp add: power_int_add)
    ultimately show ?thesis using upper by linarith
  qed
qed

lemma fl_mono:
  assumes "x \<le> y"
  shows "fl x \<le> fl y"
proof -
  consider "0 < x" | "x \<le> 0" "0 \<le> y" | "y < 0" by linarith
  then show ?thesis
  proof cases
    case 1
    then show ?thesis using assms by (rule fl_mono_pos)
  next
    case 2
    have "0 \<le> fl (- x)" using 2(1) by (intro fl_nonneg) simp
    then have "fl x \<le> 0" by (simp add: fl_minus)
    moreover have "0 \<le> fl y" using 2(2) by (rule fl_nonneg)
    ultimately show ?thesis by linarith
  next
    case 3
    then have "fl (- y) \<le> fl (- x)" using assms by (intro fl_mono_pos) simp_all
    then show ?thesis by (simp add: fl_minus)
  qed
qed

subsection \<open>Evaluating the rounding\<close>

lemma fl_eval_large:
  assumes "2 ^ 52 * 2 ^ n \<le> x" and "x < 2 ^ 53 * 2 ^ n"
    and "\<bar>x / 2 ^ n - real_of_int N\<bar> < 1 / 2"
  shows "fl x = real_of_int N * 2 ^ n"
proof -
  have "0 < (2::real) ^ 52 * 2 ^ n" by simp
  then have pos: "0 < x" using assms(1) by linarith
  have p: "(2::real) powi int n = 2 ^ n" by simp
  have 1: "2 powi (52 + int n) \<le> \<bar>x\<bar>" using assms(1) pos by (simp add: power_int_add)
  have 2: "\<bar>x\<bar> < 2 powi (53 + int n)" using assms(2) pos by (simp add: power_int_add)
  have "fl x = real_of_int (round_half_even (x / 2 powi int n)) * 2 powi int n"
    using 1 2 by (rule fl_normal) simp
  moreover have "round_half_even (x / 2 ^ n) = N"
    using assms(3) by (rule round_half_even_nearest)
  ultimately show ?thesis by (simp only: p)
qed

lemma fl_eval_small:
  assumes "2 ^ 52 \<le> x * 2 ^ n" and "x * 2 ^ n < 2 ^ 53" and "n \<le> 1074"
    and "\<bar>x * 2 ^ n - real_of_int N\<bar> < 1 / 2"
  shows "fl x = real_of_int N / 2 ^ n"
proof -
  have "0 < x * 2 ^ n" using assms(1) by (rule less_le_trans [rotated]) simp
  then have pos: "0 < x" by (simp add: zero_less_mult_iff)
  have p: "(2::real) powi (- int n) = 1 / 2 ^ n" by (simp add: power_int_minus_divide)
  have e1: "(2::real) powi (52 + - int n) = 2 ^ 52 / 2 ^ n"
    using power_int_add [of "2::real" 52 "- int n"] p by simp
  have e2: "(2::real) powi (53 + - int n) = 2 ^ 53 / 2 ^ n"
    using power_int_add [of "2::real" 53 "- int n"] p by simp
  have 1: "2 powi (52 + - int n) \<le> \<bar>x\<bar>"
    unfolding e1 using assms(1) pos by (simp add: field_simps)
  have 2: "\<bar>x\<bar> < 2 powi (53 + - int n)"
    unfolding e2 using assms(2) pos by (simp add: field_simps)
  have 3: "- 1074 \<le> - int n" using assms(3) by simp
  have "fl x = real_of_int (round_half_even (x / 2 powi (- int n))) * 2 powi (- int n)"
    using 1 2 3 by (rule fl_normal)
  moreover have "x / 2 powi (- int n) = x * 2 ^ n" by (simp add: p)
  moreover have "round_half_even (x * 2 ^ n) = N"
    using assms(4) by (rule round_half_even_nearest)
  ultimately show ?thesis by (simp add: p)
qed

lemma fl_eval_subnormal:
  assumes "\<bar>x\<bar> * 2 ^ 1074 < 2 ^ 52" and "\<bar>x * 2 ^ 1074 - real_of_int N\<bar> < 1 / 2"
  shows "fl x = real_of_int N / 2 ^ 1074"
proof -
  have p: "(2::real) powi (- 1074) = 1 / 2 ^ 1074"
    using power_int_minus_divide [of "2::real" 1074] by simp
  have q: "(2::real) powi (- 1022) = 2 ^ 52 / 2 ^ 1074"
  proof -
    have "(2::real) powi (- 1022) = 2 powi (52 + - 1074)" by simp
    also have "\<dots> = 2 powi 52 * 2 powi (- 1074)" by (rule power_int_add) simp
    finally show ?thesis by (simp add: p)
  qed
  have "\<bar>x\<bar> < 2 powi (- 1022)" unfolding q using assms(1) by (simp add: field_simps)
  then have "fl x = real_of_int (round_half_even (x / 2 powi (- 1074))) * 2 powi (- 1074)"
    by (rule fl_subnormal)
  moreover have "x / 2 powi (- 1074) = x * 2 ^ 1074" by (simp add: p)
  moreover have "round_half_even (x * 2 ^ 1074) = N"
    using assms(2) by (rule round_half_even_nearest)
  ultimately show ?thesis by (simp add: p)
qed

lemma fl_underflow:
  assumes "\<bar>x\<bar> * 2 ^ 1075 < 1"
  shows "fl x = 0"
proof -
  have "\<bar>x\<bar> * 2 ^ 1074 < 1 / 2" using assms by simp
  moreover have "\<bar>x * 2 ^ 1074\<bar> = \<bar>x\<bar> * 2 ^ 1074" by (simp add: abs_mult)
  moreover have "(1::real) / 2 < 2 ^ 52" by simp
  ultimately have "fl x = real_of_int 0 / 2 ^ 1074"
    by (intro fl_eval_subnormal) linarith+
  then show ?thesis by simp
qed

lemma fl_of_int_exact:
  assumes "\<bar>n\<bar> < 2 ^ 53"
  shows "fl (real_of_int n) = real_of_int n"
proof -
  have pos: "fl (real_of_int m) = real_of_int m" if m: "0 < m" "m < 2 ^ 53" for m :: int
  proof -
    define x where "x = real_of_int m"
    define b where "b = \<lfloor>log 2 x\<rfloor>"
    define e where "e = b - 52"
    have x: "0 < x" "1 \<le> x" "x < 2 ^ 53" using m by (simp_all add: x_def)
    have "x < 2 powi 53" using x(3) by simp
    have b0: "0 \<le> b" unfolding b_def using x(2) by simp
    have lo: "2 powi b \<le> x" and hi: "x < 2 powi (b + 1)"
      unfolding b_def using floor_log2_bounds [OF x(1)] by simp_all
    have b52: "b \<le> 52"
    proof (rule ccontr)
      assume "\<not> b \<le> 52"
      then have "(2::real) powi 53 \<le> 2 powi b" by (intro power_int_increasing) simp_all
      then show False using lo \<open>x < 2 powi 53\<close> by linarith
    qed
    have 1: "2 powi (52 + e) \<le> \<bar>x\<bar>" using lo x(1) by (simp add: e_def)
    have 2: "\<bar>x\<bar> < 2 powi (53 + e)" using hi x(1) by (simp add: e_def add.commute)
    have 3: "- 1074 \<le> e" using b0 by (simp add: e_def)
    have fx: "fl x = real_of_int (round_half_even (x / 2 powi e)) * 2 powi e"
      using 1 2 3 by (rule fl_normal)
    have "- e = int (nat (- e))" using b52 by (simp add: e_def)
    then have "(2::real) powi (- e) = 2 ^ nat (- e)"
      by (metis power_int_of_nat)
    then have inv: "1 / (2::real) powi e = 2 ^ nat (- e)" by (simp add: power_int_minus_divide)
    have "x / 2 powi e = x * (1 / 2 powi e)" by simp
    also have "\<dots> = real_of_int (m * 2 ^ nat (- e))" unfolding inv by (simp add: x_def)
    finally have "round_half_even (x / 2 powi e) = m * 2 ^ nat (- e)"
      by (simp only: round_half_even_of_int)
    then have "fl x = real_of_int (m * 2 ^ nat (- e)) * 2 powi e" unfolding fx by simp
    also have "\<dots> = x * (2 ^ nat (- e) * 2 powi e)" by (simp add: x_def)
    also have "(2::real) ^ nat (- e) * 2 powi e = 1" unfolding inv [symmetric] by simp
    finally show ?thesis by (simp add: x_def)
  qed
  consider "0 < n" | "n = 0" | "n < 0" by linarith
  then show ?thesis
  proof cases
    case 1
    then show ?thesis using assms by (intro pos) simp_all
  next
    case 2
    then show ?thesis by simp
  next
    case 3
    then have "fl (real_of_int (- n)) = real_of_int (- n)" using assms by (intro pos) simp_all
    then show ?thesis by (simp add: fl_minus)
  qed
qed

lemma fl_of_nat_exact: "n < 2 ^ 53 \<Longrightarrow> fl (real n) = real n"
  using fl_of_int_exact [of "int n"] by simp

lemma round_half_even_tie:
  "round_half_even (real_of_int f + 1 / 2) = (if even f then f else f + 1)"
proof -
  have "\<lfloor>real_of_int f + 1 / 2\<rfloor> = f" by linarith
  then show ?thesis by (simp add: round_half_even_def Let_def)
qed

lemma fl_eval_small_tie:
  assumes "2 ^ 52 \<le> x * 2 ^ n" and "x * 2 ^ n < 2 ^ 53" and "n \<le> 1074"
    and "x * 2 ^ n = real_of_int f + 1 / 2"
  shows "fl x = real_of_int (if even f then f else f + 1) / 2 ^ n"
proof -
  have "0 < x * 2 ^ n" using assms(1) by (rule less_le_trans [rotated]) simp
  then have pos: "0 < x" by (simp add: zero_less_mult_iff)
  have p: "(2::real) powi (- int n) = 1 / 2 ^ n" by (simp add: power_int_minus_divide)
  have e1: "(2::real) powi (52 + - int n) = 2 ^ 52 / 2 ^ n"
    using power_int_add [of "2::real" 52 "- int n"] p by simp
  have e2: "(2::real) powi (53 + - int n) = 2 ^ 53 / 2 ^ n"
    using power_int_add [of "2::real" 53 "- int n"] p by simp
  have 1: "2 powi (52 + - int n) \<le> \<bar>x\<bar>"
    unfolding e1 using assms(1) pos by (simp add: field_simps)
  have 2: "\<bar>x\<bar> < 2 powi (53 + - int n)"
    unfolding e2 using assms(2) pos by (simp add: field_simps)
  have 3: "- 1074 \<le> - int n" using assms(3) by simp
  have "fl x = real_of_int (round_half_even (x / 2 powi (- int n))) * 2 powi (- int n)"
    using 1 2 3 by (rule fl_normal)
  moreover have "x / 2 powi (- int n) = x * 2 ^ n" by (simp add: p)
  moreover have "round_half_even (x * 2 ^ n) = (if even f then f else f + 1)"
    unfolding assms(4) by (rule round_half_even_tie)
  ultimately show ?thesis by (simp add: p)
qed

subsection \<open>Soundness of the logarithm bounds\<close>

lemma log2_lower_numeral:
  "log2_lower w (numeral v) a =
     (let b = a * a div 2 ^ w in
      if 2 * 2 ^ w \<le> b then 2 ^ pred_numeral v + log2_lower w (pred_numeral v) (b div 2)
      else log2_lower w (pred_numeral v) b)"
  by (simp add: numeral_eq_Suc)

lemma log2_upper_numeral:
  "log2_upper w (numeral v) a =
     (let b = (a * a + (2 ^ w - 1)) div 2 ^ w in
      if 2 * 2 ^ w < b then 2 ^ pred_numeral v + log2_upper w (pred_numeral v) ((b + 1) div 2)
      else log2_upper w (pred_numeral v) b)"
  by (simp add: numeral_eq_Suc)

lemma log2_square_step:
  fixes x y :: real
  assumes "0 < y" "y \<le> x ^ 2" "0 < x"
  shows "log 2 y \<le> 2 * log 2 x"
proof -
  have "log 2 y \<le> log 2 (x ^ 2)" using assms by simp
  also have "\<dots> = 2 * log 2 x" using assms by (simp add: log_nat_power)
  finally show ?thesis .
qed

lemma log2_lower_sound:
  "2 ^ w \<le> a \<Longrightarrow> real_of_int (log2_lower w n a) / 2 ^ n \<le> log 2 (real_of_int a / 2 ^ w)"
proof (induction n arbitrary: a)
  case 0
  then have "(2::real) ^ w \<le> real_of_int a"
    by (metis of_int_le_iff of_int_numeral of_int_power)
  then have ge1: "(1::real) \<le> real_of_int a / 2 ^ w" by (simp add: field_simps)
  then have "0 < real_of_int a / 2 ^ w" by linarith
  then have "0 \<le> log 2 (real_of_int a / 2 ^ w)"
    using ge1 zero_le_log_cancel_iff [of 2 "real_of_int a / 2 ^ w"] by linarith
  then show ?case by simp
next
  case (Suc n)
  define c :: int where "c = 2 ^ w"
  define b where "b = a * a div c"
  have cpos: "0 < c" by (simp add: c_def)
  have cr: "real_of_int c = 2 ^ w" by (simp add: c_def)
  have a_ge: "c \<le> a" using Suc.prems by (simp add: c_def)
  have apos: "0 < a" using a_ge cpos by linarith
  have "c * c \<le> a * a" using a_ge cpos by (intro mult_mono) simp_all
  then have "c * c div c \<le> a * a div c" by (rule zdiv_mono1) (rule cpos)
  then have b_ge: "c \<le> b" using cpos by (simp add: b_def)
  have "b * c = a * a - a * a mod c"
    unfolding b_def by (simp add: minus_mod_eq_div_mult)
  moreover have "0 \<le> a * a mod c" using cpos by simp
  ultimately have "b * c \<le> a * a" by linarith
  then have "real_of_int (b * c) \<le> real_of_int (a * a)" by (simp only: of_int_le_iff)
  then have "real_of_int b * real_of_int c \<le> real_of_int a * real_of_int a" by simp
  then have b_le: "real_of_int b / real_of_int c \<le> (real_of_int a / real_of_int c) ^ 2"
    using cpos by (simp add: power2_eq_square field_simps)
  have bpos: "0 < real_of_int b / real_of_int c" using b_ge cpos by simp
  have mono: "log 2 (real_of_int b / real_of_int c) \<le> 2 * log 2 (real_of_int a / real_of_int c)"
    using bpos b_le by (rule log2_square_step) (use apos cpos in simp)
  show ?case
  proof (cases "2 * c \<le> b")
    case True
    then have d_ge: "c \<le> b div 2" by linarith
    have "2 * (b div 2) \<le> b" by simp
    then have "real_of_int (2 * (b div 2)) \<le> real_of_int b" by (simp only: of_int_le_iff)
    then have le: "2 * (real_of_int (b div 2) / real_of_int c) \<le> real_of_int b / real_of_int c"
      using cpos by (simp add: field_simps)
    have dpos: "0 < real_of_int (b div 2) / real_of_int c" using d_ge cpos by simp
    have "log 2 (2 * (real_of_int (b div 2) / real_of_int c)) \<le> log 2 (real_of_int b / real_of_int c)"
      using le dpos bpos by (subst log_le_cancel_iff) simp_all
    moreover have "log 2 (2 * (real_of_int (b div 2) / real_of_int c))
        = log 2 2 + log 2 (real_of_int (b div 2) / real_of_int c)"
      using dpos by (intro log_mult_pos) simp_all
    moreover have "real_of_int (log2_lower w n (b div 2)) / 2 ^ n \<le> log 2 (real_of_int (b div 2) / real_of_int c)"
      using Suc.IH [of "b div 2"] d_ge by (simp add: c_def)
    ultimately have "(1 + real_of_int (log2_lower w n (b div 2)) / 2 ^ n) / 2 \<le> log 2 (real_of_int a / real_of_int c)"
      using mono by simp
    moreover have "log2_lower w (Suc n) a = 2 ^ n + log2_lower w n (b div 2)"
      using True by (simp add: b_def c_def Let_def)
    moreover have "real_of_int (2 ^ n + log2_lower w n (b div 2)) / 2 ^ Suc n
        = (1 + real_of_int (log2_lower w n (b div 2)) / 2 ^ n) / 2"
      by (simp add: field_simps)
    ultimately show ?thesis by (simp only: cr)
  next
    case False
    then have "log2_lower w (Suc n) a = log2_lower w n b" by (simp add: b_def c_def Let_def)
    moreover have "real_of_int (log2_lower w n b) / 2 ^ n \<le> log 2 (real_of_int b / real_of_int c)"
      using Suc.IH [of b] b_ge by (simp add: c_def)
    then have "real_of_int (log2_lower w n b) / 2 ^ n / 2 \<le> log 2 (real_of_int a / real_of_int c)"
      using mono by simp
    moreover have "real_of_int (log2_lower w n b) / 2 ^ Suc n = real_of_int (log2_lower w n b) / 2 ^ n / 2"
      by simp
    ultimately show ?thesis by (simp only: cr)
  qed
qed

lemma log2_upper_sound:
  "0 < a \<Longrightarrow> a \<le> 2 * 2 ^ w \<Longrightarrow> log 2 (real_of_int a / 2 ^ w) \<le> real_of_int (log2_upper w n a) / 2 ^ n"
proof (induction n arbitrary: a)
  case 0
  then have "real_of_int a \<le> 2 * 2 ^ w"
    by (metis of_int_le_iff of_int_numeral of_int_power of_int_mult)
  then have "real_of_int a / 2 ^ w \<le> 2" by (simp add: field_simps)
  moreover have "0 < real_of_int a / 2 ^ w" using "0.prems" by simp
  ultimately have "log 2 (real_of_int a / 2 ^ w) \<le> log 2 2"
    by (subst log_le_cancel_iff) simp_all
  then show ?case by simp
next
  case (Suc n)
  define c :: int where "c = 2 ^ w"
  define b where "b = (a * a + (c - 1)) div c"
  have cpos: "0 < c" by (simp add: c_def)
  have cr: "real_of_int c = 2 ^ w" by (simp add: c_def)
  have apos: "0 < a" by (rule Suc.prems)
  have a_le: "a \<le> 2 * c" using Suc.prems by (simp add: c_def)
  have "b * c = a * a + (c - 1) - (a * a + (c - 1)) mod c"
    unfolding b_def by (simp add: minus_mod_eq_div_mult)
  moreover have "(a * a + (c - 1)) mod c < c" using cpos by simp
  ultimately have bc_ge: "a * a \<le> b * c" by linarith
  have "0 < a * a" using apos by simp
  then have "0 < b * c" using bc_ge by linarith
  then have bpos: "0 < b" using cpos by (simp add: zero_less_mult_iff)
  have "a * a \<le> (2 * c) * (2 * c)" using a_le apos by (intro mult_mono) simp_all
  then have "a * a + (c - 1) \<le> 4 * c * c + (c - 1)" by simp
  then have "(a * a + (c - 1)) div c \<le> (4 * c * c + (c - 1)) div c" by (rule zdiv_mono1) (rule cpos)
  moreover have "(4 * c * c + (c - 1)) div c = 4 * c" using cpos by (simp add: div_pos_pos_trivial)
  ultimately have b_le: "b \<le> 4 * c" by (simp add: b_def)
  have "real_of_int (a * a) \<le> real_of_int (b * c)" using bc_ge by (simp only: of_int_le_iff)
  then have "real_of_int a * real_of_int a \<le> real_of_int b * real_of_int c" by simp
  then have sq_le: "(real_of_int a / real_of_int c) ^ 2 \<le> real_of_int b / real_of_int c"
    using cpos by (simp add: power2_eq_square field_simps)
  have xpos: "0 < real_of_int a / real_of_int c" using apos cpos by simp
  have ypos: "0 < real_of_int b / real_of_int c" using bpos cpos by simp
  have "0 < (real_of_int a / real_of_int c) ^ 2" using xpos by (rule zero_less_power)
  then have "log 2 ((real_of_int a / real_of_int c) ^ 2) \<le> log 2 (real_of_int b / real_of_int c)"
    using sq_le ypos log_le_cancel_iff [of 2 "(real_of_int a / real_of_int c) ^ 2" "real_of_int b / real_of_int c"]
    by linarith
  then have mono: "2 * log 2 (real_of_int a / real_of_int c) \<le> log 2 (real_of_int b / real_of_int c)"
    using xpos by (simp add: log_nat_power)
  show ?case
  proof (cases "2 * c < b")
    case True
    define d where "d = (b + 1) div 2"
    have dpos: "0 < d" using bpos by (simp add: d_def)
    have d_le: "d \<le> 2 * c" using b_le by (simp add: d_def)
    have "b \<le> 2 * d" by (simp add: d_def)
    then have "real_of_int b \<le> real_of_int (2 * d)" by (simp only: of_int_le_iff)
    then have le: "real_of_int b / real_of_int c \<le> 2 * (real_of_int d / real_of_int c)"
      using cpos by (simp add: field_simps)
    have "0 < real_of_int b / real_of_int c" using bpos cpos by simp
    then have "log 2 (real_of_int b / real_of_int c) \<le> log 2 (2 * (real_of_int d / real_of_int c))"
      using le by (subst log_le_cancel_iff) simp_all
    moreover have "log 2 (2 * (real_of_int d / real_of_int c)) = log 2 2 + log 2 (real_of_int d / real_of_int c)"
      using dpos cpos by (intro log_mult_pos) simp_all
    moreover have "log 2 (real_of_int d / real_of_int c) \<le> real_of_int (log2_upper w n d) / 2 ^ n"
      using Suc.IH [of d] dpos d_le by (simp add: c_def)
    ultimately have "log 2 (real_of_int a / real_of_int c) \<le> (1 + real_of_int (log2_upper w n d) / 2 ^ n) / 2"
      using mono by simp
    moreover have "log2_upper w (Suc n) a = 2 ^ n + log2_upper w n d"
      using True by (simp add: b_def c_def d_def Let_def)
    moreover have "real_of_int (2 ^ n + log2_upper w n d) / 2 ^ Suc n
        = (1 + real_of_int (log2_upper w n d) / 2 ^ n) / 2"
      by (simp add: field_simps)
    ultimately show ?thesis by (simp only: cr)
  next
    case False
    then have "log2_upper w (Suc n) a = log2_upper w n b" by (simp add: b_def c_def Let_def)
    have "log 2 (real_of_int b / real_of_int c) \<le> real_of_int (log2_upper w n b) / 2 ^ n"
      using Suc.IH [of b] bpos False by (simp add: c_def)
    then have "log 2 (real_of_int a / real_of_int c) \<le> real_of_int (log2_upper w n b) / 2 ^ n / 2"
      using mono by simp
    moreover have "real_of_int (log2_upper w n b) / 2 ^ Suc n = real_of_int (log2_upper w n b) / 2 ^ n / 2"
      by simp
    moreover note \<open>log2_upper w (Suc n) a = log2_upper w n b\<close>
    ultimately show ?thesis by (simp only: cr)
  qed
qed

lemma log2_lower_bound:
  assumes a: "2 ^ w \<le> a" and le: "real_of_int a / 2 ^ w \<le> x * 2 ^ N"
  shows "real_of_int (log2_lower w n a) / 2 ^ n - real N \<le> log 2 x"
proof -
  have "(2::real) ^ w \<le> real_of_int a"
    using a by (metis of_int_le_iff of_int_numeral of_int_power)
  then have apos: "0 < real_of_int a / 2 ^ w" 
    by (meson divide_pos_pos less_le_trans zero_less_numeral zero_less_power)
  then have "0 < x * 2 ^ N" using le by linarith
  then have x: "0 < x" by (simp add: zero_less_mult_iff)
  have "real_of_int (log2_lower w n a) / 2 ^ n \<le> log 2 (real_of_int a / 2 ^ w)"
    using a by (rule log2_lower_sound)
  also have "\<dots> \<le> log 2 (x * 2 ^ N)"
    using apos le by simp
  also have "\<dots> = log 2 x + real N"
    using x by (simp add: log_mult_pos log_nat_power)
  finally show ?thesis by simp
qed

lemma log2_upper_bound:
  assumes x: "0 < x" and le: "x * 2 ^ N \<le> real_of_int b / 2 ^ w" and b: "b \<le> 2 * 2 ^ w"
  shows "log 2 x \<le> real_of_int (log2_upper w n b) / 2 ^ n - real N"
proof -
  have xN: "0 < x * 2 ^ N" using x by simp
  then have "0 < real_of_int b / 2 ^ w" using le by linarith
  then have bpos: "0 < b" by (simp add: zero_less_divide_iff)
  have "log 2 x + real N = log 2 (x * 2 ^ N)"
    using x by (simp add: log_mult_pos log_nat_power)
  also have "\<dots> \<le> log 2 (real_of_int b / 2 ^ w)"
    using xN le by simp
  also have "\<dots> \<le> real_of_int (log2_upper w n b) / 2 ^ n"
    using bpos b by (rule log2_upper_sound)
  finally show ?thesis by simp
qed

lemma log2_within:
  assumes "xl \<le> x" and "x \<le> xu"
    and "2 ^ w \<le> a" and "real_of_int a / 2 ^ w \<le> xl * 2 ^ N"
    and "v - d \<le> real_of_int (log2_lower w n a) / 2 ^ n - real N"
    and "xu * 2 ^ N \<le> real_of_int b / 2 ^ w" and "b \<le> 2 * 2 ^ w"
    and "real_of_int (log2_upper w n b) / 2 ^ n - real N \<le> v + d"
  shows "\<bar>log 2 x - v\<bar> \<le> d"
proof -
  have "xl * 2 ^ N \<le> x * 2 ^ N" using assms(1) by simp
  then have lo: "real_of_int a / 2 ^ w \<le> x * 2 ^ N" using assms(4) by linarith
  have "real_of_int (log2_lower w n a) / 2 ^ n - real N \<le> log 2 x"
    using assms(3) lo by (rule log2_lower_bound)
  then have 1: "v - d \<le> log 2 x" using assms(5) by linarith
  have "(2::real) ^ w \<le> real_of_int a"
    using assms(3) by (metis of_int_le_iff of_int_numeral of_int_power)
  then have "0 < real_of_int a / 2 ^ w"
    by (meson divide_pos_pos less_le_trans zero_less_numeral zero_less_power)
  then have "0 < x * 2 ^ N" using lo by linarith
  then have x: "0 < x" by (simp add: zero_less_mult_iff)
  have "x * 2 ^ N \<le> xu * 2 ^ N" using assms(2) by simp
  then have "x * 2 ^ N \<le> real_of_int b / 2 ^ w" using assms(6) by linarith
  then have "log 2 x \<le> real_of_int (log2_upper w n b) / 2 ^ n - real N"
    using x assms(7) by (intro log2_upper_bound)
  then have 2: "log 2 x \<le> v + d" using assms(8) by linarith
  show ?thesis using 1 2 by simp
qed

subsection \<open>The library functions\<close>

lemma fl_1: "fl 1 = 1"
  using fl_of_int_exact [of 1] by simp

lemma fl_half: "fl (1 / 2) = 1 / 2"
  using fl_eval_small [of "1 / 2" 53 "2 ^ 52"] by simp

lemma fl_le_1: "x \<le> 1 \<Longrightarrow> fl x \<le> 1"
  using fl_mono [of x 1] by (simp add: fl_1)

lemma fl_pos_normal:
  assumes "1 / 4 \<le> x"
  shows "1 / 4 \<le> fl x"
proof -
  have "fl (1 / 4) = 1 / 4" using fl_eval_small [of "1 / 4" 54 "2 ^ 52"] by simp
  then show ?thesis using fl_mono [OF assms] by simp
qed

lemma math_sqrt_eval:
  assumes N: "2 ^ 52 < N" "N < 2 ^ 53" and n: "n \<le> 1074"
    and lo: "(real_of_int N - 1 / 2)\<^sup>2 < x * 4 ^ n"
    and hi: "x * 4 ^ n < (real_of_int N + 1 / 2)\<^sup>2"
  shows "math_sqrt x = real_of_int N / 2 ^ n"
proof -
  define y where "y = sqrt x * 2 ^ n"
  have four: "(4::real) ^ n = (2 ^ n)\<^sup>2"
    by (simp add: power2_eq_square flip: power_mult_distrib)
  have Nr: "(2::real) ^ 52 < real_of_int N" "real_of_int N < 2 ^ 53"
    using N by (metis of_int_less_iff of_int_numeral of_int_power)+
  have "0 \<le> (real_of_int N - 1 / 2)\<^sup>2" by simp
  then have "0 < x * 4 ^ n" using lo by linarith
  then have x: "0 < x" by (simp add: zero_less_mult_iff)
  have y2: "y\<^sup>2 = x * 4 ^ n"
    using x by (simp add: y_def power_mult_distrib four)
  have y0: "0 \<le> y" using x by (simp add: y_def)
  have "real_of_int N - 1 / 2 < y"
  proof (rule ccontr)
    assume "\<not> real_of_int N - 1 / 2 < y"
    then have "y \<le> real_of_int N - 1 / 2" by simp
    then have "y\<^sup>2 \<le> (real_of_int N - 1 / 2)\<^sup>2" using y0 by (intro power_mono)
    then show False using lo y2 by simp
  qed
  moreover have "y < real_of_int N + 1 / 2"
  proof (rule ccontr)
    assume "\<not> y < real_of_int N + 1 / 2"
    then have "real_of_int N + 1 / 2 \<le> y" by simp
    moreover have "0 \<le> real_of_int N + 1 / 2" using Nr by simp
    ultimately have "(real_of_int N + 1 / 2)\<^sup>2 \<le> y\<^sup>2" by (intro power_mono)
    then show False using hi y2 by simp
  qed
  moreover have "(2::real) ^ 52 + 1 \<le> real_of_int N"
  proof -
    have "(2::int) ^ 52 + 1 \<le> N" using N(1) by simp
    then have "real_of_int (2 ^ 52 + 1) \<le> real_of_int N" by (simp only: of_int_le_iff)
    then show ?thesis by simp
  qed
  moreover have "real_of_int N \<le> 2 ^ 53 - 1"
  proof -
    have "N \<le> 2 ^ 53 - 1" using N(2) by simp
    then have "real_of_int N \<le> real_of_int (2 ^ 53 - 1)" by (simp only: of_int_le_iff)
    then show ?thesis by simp
  qed
  ultimately have "2 ^ 52 \<le> y" "y < 2 ^ 53" "\<bar>y - real_of_int N\<bar> < 1 / 2"
    by linarith+
  then have "fl (sqrt x) = real_of_int N / 2 ^ n"
    unfolding y_def using n by (intro fl_eval_small) simp_all
  then show ?thesis by (simp add: math_sqrt_def)
qed

lemma math_sqrt_square:
  assumes "0 \<le> r" and "x = r * r"
  shows "math_sqrt x = fl r"
  using assms by (simp add: math_sqrt_def real_sqrt_mult_self)

lemma math_sqrt_nonneg: "0 \<le> x \<Longrightarrow> 0 \<le> math_sqrt x"
  by (simp add: math_sqrt_def fl_nonneg)

lemma ln2_lower: "1 / 2 \<le> ln (2::real)"
proof -
  have "(exp (1 / 2 :: real))\<^sup>2 = exp 1"
    by (simp add: power2_eq_square flip: exp_add)
  also have "\<dots> \<le> 3" by (rule exp_le)
  also have "\<dots> \<le> (2::real)\<^sup>2" by simp
  finally have "exp (1 / 2 :: real) \<le> 2" by (rule power2_le_imp_le) simp
  then show ?thesis by (subst ln_ge_iff) simp_all
qed

lemma ln2_upper: "ln (2::real) \<le> 1"
  using ln_le_minus_one [of "2::real"] by simp

lemma fl_ln2: "1 / 2 \<le> fl (ln 2)" "fl (ln 2) \<le> 1"
proof -
  show "1 / 2 \<le> fl (ln 2)" using fl_mono [OF ln2_lower] by (simp add: fl_half)
  show "fl (ln 2) \<le> 1" using ln2_upper by (rule fl_le_1)
qed

lemma math_log_mono:
  assumes "0 < x" and "x \<le> y"
  shows "math_log x 2 \<le> math_log y 2"
proof -
  have "ln x \<le> ln y" using assms by simp
  then have "fl (ln x) \<le> fl (ln y)" by (rule fl_mono)
  moreover have "0 < fl (ln 2)" using fl_ln2(1) by linarith
  ultimately have "fl (ln x) / fl (ln 2) \<le> fl (ln y) / fl (ln 2)"
    by (simp add: divide_right_mono)
  then show ?thesis unfolding math_log_def by (rule fl_mono)
qed

lemma fl_relative_bounds:
  assumes "1 / 4 \<le> x"
  shows "x * (1 - 1 / 2 ^ 53) \<le> fl x" and "fl x \<le> x * (1 + 1 / 2 ^ 53)"
proof -
  have "(2::real) powi (- 1022) \<le> 2 powi (- 2)" by (intro power_int_increasing) simp_all
  also have "(2::real) powi (- 2) = 1 / 4" by (simp add: power_int_minus_divide)
  finally have "2 powi (- 1022) \<le> \<bar>x\<bar>" using assms by simp
  then have "\<bar>fl x - x\<bar> \<le> \<bar>x\<bar> / 2 ^ 53" by (rule fl_relative_error)
  moreover have "\<bar>x\<bar> = x" using assms by simp
  ultimately have e: "\<bar>fl x - x\<bar> \<le> x / 2 ^ 53" by simp
  define d where "d = x / 2 ^ 53"
  have e': "\<bar>fl x - x\<bar> \<le> d" using e by (simp only: d_def)
  have eq: "x * (1 - 1 / 2 ^ 53) = x - d" "x * (1 + 1 / 2 ^ 53) = x + d"
    by (simp_all add: d_def algebra_simps)
  show "x * (1 - 1 / 2 ^ 53) \<le> fl x" unfolding eq using e' by linarith
  show "fl x \<le> x * (1 + 1 / 2 ^ 53)" unfolding eq using e' by linarith
qed

text \<open>
  The quotient of two rounded logarithms, rounded: the three roundings move the binary
  logarithm of a number from 0 to \<open>1 / 2\<close> by at most four units in the 53rd place.
\<close>

lemma math_log_2_error:
  assumes x: "0 < x" "x \<le> 1 / 2"
  shows "\<bar>math_log x 2 - log 2 x\<bar> \<le> \<bar>log 2 x\<bar> * (4 / 2 ^ 53)"
proof -
  define u :: real where "u = 1 / 2 ^ 53"
  define A where "A = ln (1 / x)"
  define b where "b = ln (2::real)"
  define Y where "Y = fl A"
  define c where "c = fl b"
  define Q where "Q = Y / c"
  have u: "0 < u" "u < 1" by (simp_all add: u_def)
  have b: "1 / 2 \<le> b" "b \<le> 1" using ln2_lower ln2_upper by (simp_all add: b_def)
  have "2 \<le> 1 / x" using x by (simp add: field_simps)
  then have "ln 2 \<le> ln (1 / x)" using x by (subst ln_le_cancel_iff) simp_all
  then have A: "1 / 2 \<le> A" using b(1) by (simp add: A_def b_def)
  have lnx: "ln x = - A" using x by (simp add: A_def ln_div)
  have Y: "A * (1 - u) \<le> Y" "Y \<le> A * (1 + u)"
    unfolding Y_def u_def using A by (intro fl_relative_bounds; simp)+
  have c: "b * (1 - u) \<le> c" "c \<le> b * (1 + u)"
    unfolding c_def u_def using b by (intro fl_relative_bounds; simp)+
  have cpos: "0 < c" using fl_ln2(1) by (simp add: c_def b_def)
  have c1: "c \<le> 1" using fl_ln2(2) by (simp add: c_def b_def)
  have Ypos: "1 / 4 \<le> Y" unfolding Y_def using A by (intro fl_pos_normal) simp
  have bl: "0 < b * (1 - u)" using b u by simp
  have Qlo: "A * (1 - u) / (b * (1 + u)) \<le> Q"
  proof -
    have "A * (1 - u) / (b * (1 + u)) \<le> Y / (b * (1 + u))"
      using Y(1) b u by (intro divide_right_mono) simp_all
    also have "\<dots> \<le> Y / c"
    proof (rule divide_left_mono)
      show "c \<le> b * (1 + u)" by (rule c(2))
      show "0 \<le> Y" using Ypos by simp
      have "0 < b * (1 + u)" using b u by (intro mult_pos_pos) simp_all
      then show "0 < b * (1 + u) * c" using cpos by (rule mult_pos_pos)
    qed
    finally show ?thesis by (simp add: Q_def)
  qed
  have Qhi: "Q \<le> A * (1 + u) / (b * (1 - u))"
  proof -
    have "Y / c \<le> Y / (b * (1 - u))"
    proof (rule divide_left_mono)
      show "b * (1 - u) \<le> c" by (rule c(1))
      show "0 \<le> Y" using Ypos by simp
      show "0 < c * (b * (1 - u))" using cpos bl by (rule mult_pos_pos)
    qed
    also have "\<dots> \<le> A * (1 + u) / (b * (1 - u))"
      using Y(2) bl by (intro divide_right_mono) simp_all
    finally show ?thesis by (simp add: Q_def)
  qed
  have "1 / 4 \<le> Y / 1" using Ypos by simp
  also have "\<dots> \<le> Y / c"
  proof (rule divide_left_mono)
    show "c \<le> 1" by (rule c1)
    show "0 \<le> Y" using Ypos by simp
    show "0 < 1 * c" using cpos by simp
  qed
  finally have Q4: "1 / 4 \<le> Q" by (simp add: Q_def)
  have Z: "Q * (1 - u) \<le> fl Q" "fl Q \<le> Q * (1 + u)"
    unfolding u_def using Q4 by (intro fl_relative_bounds; simp)+
  define l where "l = A / b"
  have l: "0 < l" using A b by (simp add: l_def)
  have lo_eq: "A * (1 - u) / (b * (1 + u)) * (1 - u) = l * ((1 - u) * (1 - u) / (1 + u))"
    by (simp add: l_def)
  have hi_eq: "A * (1 + u) / (b * (1 - u)) * (1 + u) = l * ((1 + u) * (1 + u) / (1 - u))"
    by (simp add: l_def)
  have klo: "1 - 4 * u \<le> (1 - u) * (1 - u) / (1 + u)" by (simp add: u_def)
  have khi: "(1 + u) * (1 + u) / (1 - u) \<le> 1 + 4 * u" by (simp add: u_def)
  have "l * (1 - 4 * u) \<le> l * ((1 - u) * (1 - u) / (1 + u))"
    using l klo by (intro mult_left_mono) simp_all
  also have "\<dots> \<le> Q * (1 - u)"
    unfolding lo_eq [symmetric] using Qlo u by (intro mult_right_mono) simp_all
  also have "\<dots> \<le> fl Q" by (rule Z(1))
  finally have lower: "l * (1 - 4 * u) \<le> fl Q" .
  have "fl Q \<le> Q * (1 + u)" by (rule Z(2))
  also have "\<dots> \<le> l * ((1 + u) * (1 + u) / (1 - u))"
    unfolding hi_eq [symmetric] using Qhi u by (intro mult_right_mono) simp_all
  also have "\<dots> \<le> l * (1 + 4 * u)"
    using l khi by (intro mult_left_mono) simp_all
  finally have upper: "fl Q \<le> l * (1 + 4 * u)" .
  have "fl (ln x) = - Y" by (simp add: lnx Y_def fl_minus)
  then have "fl (ln x) / fl (ln 2) = - Q" by (simp add: Q_def c_def b_def)
  then have ml: "math_log x 2 = - fl Q" by (simp add: math_log_def fl_minus)
  have lg: "log 2 x = - l" by (simp add: log_def lnx l_def b_def)
  define t where "t = l * (4 * u)"
  have teq: "l * (1 - 4 * u) = l - t" "l * (1 + 4 * u) = l + t"
    by (simp_all add: t_def algebra_simps)
  have "l - t \<le> fl Q" using lower by (simp only: teq)
  moreover have "fl Q \<le> l + t" using upper by (simp only: teq)
  ultimately have "\<bar>fl Q - l\<bar> \<le> t" by linarith
  moreover have "\<bar>math_log x 2 - log 2 x\<bar> = \<bar>fl Q - l\<bar>"
    unfolding ml lg by linarith
  moreover have "\<bar>log 2 x\<bar> * (4 / 2 ^ 53) = t"
    using l by (simp add: lg t_def u_def)
  ultimately show ?thesis by linarith
qed

lemma math_log_2_within:
  assumes "0 < x" and "x \<le> 1 / 2" and "\<bar>log 2 x - v\<bar> \<le> d'"
    and "d' + (\<bar>v\<bar> + d') * (4 / 2 ^ 53) \<le> d"
  shows "\<bar>math_log x 2 - v\<bar> \<le> d"
proof -
  have "\<bar>log 2 x\<bar> \<le> \<bar>v\<bar> + d'" using assms(3) by linarith
  then have "\<bar>log 2 x\<bar> * (4 / 2 ^ 53) \<le> (\<bar>v\<bar> + d') * (4 / 2 ^ 53)"
    by (intro mult_right_mono) simp_all
  then have "\<bar>math_log x 2 - log 2 x\<bar> \<le> (\<bar>v\<bar> + d') * (4 / 2 ^ 53)"
    using math_log_2_error [OF assms(1,2)] by linarith
  then show ?thesis using assms(3,4) by linarith
qed

lemma np_log2_within:
  assumes "0 < x" and "x \<le> 1 / 2" and "\<bar>log 2 x - v\<bar> \<le> d'"
    and "d' + (\<bar>v\<bar> + d') / 2 ^ 53 \<le> d"
  shows "\<bar>np_log2 x - v\<bar> \<le> d"
proof -
  have "log 2 x \<le> log 2 (1 / 2)" using assms(1,2) by (subst log_le_cancel_iff) simp_all
  also have "log 2 (1 / 2 :: real) = - 1" by (simp add: log_divide)
  finally have l: "log 2 x \<le> - 1" .
  have "(2::real) powi (- 1022) \<le> 2 powi 0" by (intro power_int_increasing) simp_all
  then have "2 powi (- 1022) \<le> \<bar>log 2 x\<bar>" using l by simp
  then have "\<bar>fl (log 2 x) - log 2 x\<bar> \<le> \<bar>log 2 x\<bar> / 2 ^ 53" by (rule fl_relative_error)
  moreover have "\<bar>log 2 x\<bar> \<le> \<bar>v\<bar> + d'" using assms(3) by linarith
  then have "\<bar>log 2 x\<bar> / 2 ^ 53 \<le> (\<bar>v\<bar> + d') / 2 ^ 53"
    by (intro divide_right_mono) simp_all
  ultimately have "\<bar>np_log2 x - log 2 x\<bar> \<le> (\<bar>v\<bar> + d') / 2 ^ 53"
    unfolding np_log2_def by linarith
  then show ?thesis using assms(3,4) by linarith
qed

subsection \<open>Two values of the library functions\<close>

lemma math_pow_underflow:
  assumes "0 \<le> x" and "x \<le> 1" and "x ^ a \<le> 1 / 2 ^ b" and "a * c \<le> s" and "1075 < b * c"
  shows "math_pow x s = 0"
proof -
  have "x ^ s \<le> x ^ (a * c)" using assms(4,1,2) by (rule power_decreasing)
  also have "\<dots> = (x ^ a) ^ c" by (simp add: power_mult)
  also have "\<dots> \<le> (1 / 2 ^ b) ^ c" using assms(1,3) by (intro power_mono) simp_all
  also have "\<dots> = 1 / 2 ^ (b * c)" by (simp add: power_divide power_mult)
  also have "\<dots> \<le> 1 / 2 ^ 1076"
  proof -
    have "1076 \<le> b * c" using assms(5) by simp
    then have "(2::real) ^ 1076 \<le> 2 ^ (b * c)" by (intro power_increasing) simp_all
    then show ?thesis by (intro divide_left_mono) simp_all
  qed
  finally have "x ^ s \<le> 1 / 2 ^ 1076" .
  then have "x ^ s * 2 ^ 1075 \<le> 1 / 2 ^ 1076 * 2 ^ 1075" by (intro mult_right_mono) simp_all
  also have "\<dots> = (1 / 2 :: real)" by simp
  finally have "x ^ s * 2 ^ 1075 < 1" by simp
  moreover have "\<bar>x ^ s\<bar> = x ^ s" using assms(1) by simp
  ultimately have "fl (x ^ s) = 0" by (intro fl_underflow) simp
  then show ?thesis by (simp add: math_pow_def)
qed

lemma overflows_unit: "\<bar>x\<bar> \<le> 1 \<Longrightarrow> \<not> overflows x"
proof -
  have "(1::real) < 2 ^ 1024 - 2 ^ 970" by simp
  then show "\<bar>x\<bar> \<le> 1 \<Longrightarrow> \<not> overflows x" unfolding overflows_def by linarith
qed

lemma math_pow_raises_unit:
  assumes "0 \<le> x" and "x \<le> 1" and "\<not> overflows (real n)"
  shows "\<not> math_pow_raises x n"
proof -
  have "x ^ n \<le> 1" using assms(1,2) by (rule power_le_one)
  moreover have "0 \<le> x ^ n" using assms(1) by simp
  ultimately have "\<not> overflows (x ^ n)" by (intro overflows_unit) simp
  then show ?thesis using assms(3) by (simp add: math_pow_raises_def)
qed

lemma quarter_powr: "(1 / 4 :: real) powr (3 / 2) = 1 / 8"
proof -
  have "(3 / 2 :: real) = 1 + 1 / 2" by simp
  then have "(1 / 4 :: real) powr (3 / 2) = (1 / 4) powr 1 * (1 / 4) powr (1 / 2)"
    by (simp only: powr_add)
  also have "\<dots> = 1 / 4 * sqrt (1 / 4)" by (simp add: powr_half_sqrt)
  also have "sqrt (1 / 4 :: real) = 1 / 2"
    by (rule real_sqrt_unique) (simp_all add: power2_eq_square)
  finally show ?thesis by simp
qed

lemma notebook_prime: "(2 ^ 32 - 2 ^ 27 + 1 :: nat) = 4160749569"
  by simp

subsection \<open>What a run that returns a report has passed\<close>

lemma IOP_cell_InrD:
  assumes "IOP_cell fc fq lp ali deep e k h f = Inr r"
  shows "f \<noteq> 0" and "DEEP_divisor k h f \<noteq> 0"
    and "0 < e_IOP (e_FRI fc fq) ali deep (e_PLONK e h f) (e_PLOOKUP e h f)"
    and "FRI_constant r = fc" and "FRI_queries r = fq" and "ALI r = ali" and "DEEP r = deep"
    and "PLONK r = e_PLONK e h f" and "PLOOKUP r = e_PLOOKUP e h f" and "list_size r = lp"
    and "IOP r = e_IOP (e_FRI fc fq) ali deep (e_PLONK e h f) (e_PLOOKUP e h f)"
    and "log2_IOP r = math_log (e_IOP (e_FRI fc fq) ali deep (e_PLONK e h f) (e_PLOOKUP e h f)) 2"
  using assms by (auto simp add: IOP_cell_def split: if_splits)

lemma m_plus_cell_InrD:
  assumes "m_plus_cell al th rp = Inr mp"
  shows "th < fl (1 - math_sqrt rp)" and "mp = m_plus al rp"
    and "johnson_bound th rp mp = Inr True"
  using assms by (auto simp add: m_plus_cell_def split: if_splits sum.splits)

lemma m_plus_cell_first_assertion:
  assumes "0 \<le> rp" and "fl (1 - math_sqrt rp) \<le> th"
  shows "m_plus_cell al th rp = Inl (AssertionError [])"
  using assms by (simp add: m_plus_cell_def)

lemma m_plus_cell_second_assertion:
  assumes "johnson_bound th rp (m_plus al rp) = Inr False"
  shows "m_plus_cell al th rp \<noteq> Inr mp"
  using assms by (auto simp add: m_plus_cell_def split: if_splits sum.splits)

lemma m_plus_cell_cases:
  assumes "0 \<le> rp"
  shows "(\<exists>mp. m_plus_cell al th rp = Inr mp) \<or> m_plus_cell al th rp = Inl (AssertionError [])
    \<or> m_plus_cell al th rp = Inl ZeroDivisionError"
  using assms by (auto simp add: m_plus_cell_def johnson_bound_def split: if_splits sum.splits)

lemma int_float_nonneg: "0 \<le> n \<Longrightarrow> 0 \<le> int_float n"
  by (simp add: int_float_def fl_nonneg)

lemma rho_nonneg: "0 \<le> rho k"
  by (simp add: rho_def int_div_def fl_nonneg)

lemma D_nonneg: "0 \<le> D k h"
  unfolding D_def
  by (intro fl_nonneg divide_nonneg_nonneg int_float_nonneg rho_nonneg) (simp add: H_def)

lemma rho_plus_nonneg: "0 \<le> rho_plus k h"
  unfolding rho_plus_def
  by (intro fl_nonneg divide_nonneg_nonneg int_float_nonneg D_nonneg) (simp add: H_def)

lemma provable_InrD:
  assumes "provable k h e p C s m = Inr r"
  obtains mp where "constants_cell k h e p = None" and "FRI_cell k h e p s m = None"
    and "m_plus_cell (alpha m (rho k)) (theta m (rho k)) (rho_plus k h) = Inr mp"
    and "IOP_cell (e_FRI_constant C m k h (F p e)) (e_FRI_queries (theta m (rho k)) s)
           (L_plus mp (rho_plus k h)) (e_ALI (L_plus mp (rho_plus k h)) C (F p e))
           (e_DEEP (L_plus mp (rho_plus k h)) k h (F p e)) e k h (F p e) = Inr r"
  using assms by (auto simp add: provable_def split: sum.splits option.splits)

lemma conjectured_InrD:
  assumes "conjectured k h e p C s m epsilon c_1 c_2 C_rho = Inr r"
  obtains proved where "provable k h e p C s m = Inr proved"
    and "conjectured_cell k h s epsilon c_1 c_2 C_rho = None"
    and "IOP_cell (e_FRI_constant_conj epsilon c_1 c_2 C m k h (F p e))
           (e_FRI_queries (theta_conj (rho k) epsilon) s)
           (real_of_int (L_plus_conj k h epsilon C_rho))
           (e_ALI_int (L_plus_conj k h epsilon C_rho) C (F p e))
           (e_DEEP_int (L_plus_conj k h epsilon C_rho) k h (F p e)) e k h (F p e) = Inr r"
  using assms by (auto simp add: conjectured_def split: sum.splits option.splits)

lemma unique_decoding_InrD:
  assumes "unique_decoding k h e p C s = Inr r"
  obtains mp where "constants_cell k h e p = None" and "FRI_cell_UDR k e p s = None"
    and "m_plus_cell (alpha_UDR (rho k)) (theta_UDR (rho k)) (rho_plus k h) = Inr mp"
    and "IOP_cell (e_FRI_constant_UDR C k h (F p e)) (e_FRI_queries (theta_UDR (rho k)) s)
           (real_of_int L_plus_UDR) (e_ALI_int L_plus_UDR C (F p e))
           (e_DEEP_int L_plus_UDR k h (F p e)) e k h (F p e) = Inr r"
  using assms by (auto simp add: unique_decoding_def split: sum.splits option.splits)

lemma constants_cell_NoneD:
  assumes "constants_cell k h e p = None"
  shows "\<not> overflows (real_of_int (H h))" and "rho k \<noteq> 0" and "\<not> F_raises p e"
  using assms by (auto simp add: constants_cell_def split: if_splits)

lemma constants_cell_cases:
  "constants_cell k h e p = None \<or> constants_cell k h e p = Some ZeroDivisionError
    \<or> constants_cell k h e p = Some OverflowError"
  by (simp add: constants_cell_def)

lemma FRI_cell_cases:
  "FRI_cell k h e p s m = None \<or> FRI_cell k h e p s m = Some ZeroDivisionError
    \<or> FRI_cell k h e p s m = Some OverflowError"
  by (simp add: FRI_cell_def)

lemma FRI_cell_UDR_NoneD:
  assumes "FRI_cell_UDR k e p s = None"
  shows "F p e \<noteq> 0" and "\<not> math_pow_raises (fl (1 - theta_UDR (rho k))) s"
  using assms by (auto simp add: FRI_cell_UDR_def split: if_splits)

lemma FRI_cell_UDR_cases:
  "FRI_cell_UDR k e p s = None \<or> FRI_cell_UDR k e p s = Some ZeroDivisionError
    \<or> FRI_cell_UDR k e p s = Some OverflowError"
  by (simp add: FRI_cell_UDR_def)

lemma provable_first_assertion:
  assumes "fl (1 - math_sqrt (rho_plus k h)) \<le> theta m (rho k)"
  shows "provable k h e p C s m = Inl (AssertionError [])
    \<or> provable k h e p C s m = Inl ZeroDivisionError
    \<or> provable k h e p C s m = Inl OverflowError"
    and "constants_cell k h e p = None \<Longrightarrow> FRI_cell k h e p s m = None
      \<Longrightarrow> provable k h e p C s m = Inl (AssertionError [])"
  using m_plus_cell_first_assertion [OF rho_plus_nonneg assms]
    constants_cell_cases [of k h e p] FRI_cell_cases [of k h e p s m]
  by (auto simp add: provable_def)

lemma unique_decoding_cases:
  "(\<exists>r. unique_decoding k h e p C s = Inr r)
    \<or> unique_decoding k h e p C s = Inl (AssertionError [])
    \<or> unique_decoding k h e p C s = Inl ZeroDivisionError
    \<or> unique_decoding k h e p C s = Inl ValueError
    \<or> unique_decoding k h e p C s = Inl OverflowError"
  using m_plus_cell_cases [where rp = "rho_plus k h" and al = "alpha_UDR (rho k)"
      and th = "theta_UDR (rho k)", OF rho_plus_nonneg]
    constants_cell_cases [of k h e p] FRI_cell_UDR_cases [of k e p s]
  by (auto simp add: unique_decoding_def IOP_cell_def split: sum.splits if_splits)

subsection \<open>Monotonicity in the number of queries\<close>

lemma e_FRI_queries_mono:
  assumes "0 < th" and "th < 1" and "s \<le> s'"
  shows "e_FRI_queries th s' \<le> e_FRI_queries th s"
proof -
  have "0 \<le> fl (1 - th)" using assms(2) by (intro fl_nonneg) simp
  moreover have "fl (1 - th) \<le> 1" using assms(1) by (intro fl_le_1) simp
  ultimately have "fl (1 - th) ^ s' \<le> fl (1 - th) ^ s"
    using assms(3) by (intro power_decreasing)
  then show ?thesis unfolding e_FRI_queries_def math_pow_def by (rule fl_mono)
qed

lemma e_IOP_mono:
  assumes "fq' \<le> fq"
  shows "e_IOP (e_FRI fc fq') ali deep plonk plookup \<le> e_IOP (e_FRI fc fq) ali deep plonk plookup"
  unfolding e_IOP_def e_FRI_def using assms
  by (intro fl_mono add_right_mono) simp

lemma IOP_cell_queries_mono:
  assumes r: "IOP_cell fc fq lp ali deep e k h f = Inr r"
    and r': "IOP_cell fc fq' lp ali deep e k h f = Inr r'"
    and le: "fq' \<le> fq"
  shows "FRI_queries r' \<le> FRI_queries r \<and> - log2_IOP r \<le> - log2_IOP r'"
proof -
  have "log2_IOP r' \<le> log2_IOP r"
    unfolding IOP_cell_InrD(12) [OF r] IOP_cell_InrD(12) [OF r']
    using IOP_cell_InrD(3) [OF r'] e_IOP_mono [OF le] by (rule math_log_mono)
  then show ?thesis
    using le IOP_cell_InrD(5) [OF r] IOP_cell_InrD(5) [OF r'] by simp
qed

subsection \<open>The closed form of the Johnson parameter in exact arithmetic\<close>



subsection \<open>The constants of the notebooks\<close>

text \<open>
  The runs of the notebooks at their constants, and at the other constants used below, are
  evaluated float by float: every rounding is a lemma, proved from the position of its
  argument between two powers of 2, and every variable of a run is a lemma, proved from the
  roundings it is made of.
\<close>

lemma fl_val_1: "fl (1 / 4) = 1 / 4"
  using fl_eval_small [of "1 / 4" 54 4503599627370496] by simp

lemma rho_2:
  "rho 2 = 1 / 4"
  by (simp add: rho_def int_float_def int_div_def fl_val_1 del: One_nat_def)

lemma H_18:
  "H 18 = 262144"
  by (simp add: H_def int_float_def int_div_def del: One_nat_def)

lemma fl_val_2: "fl 262144 = 262144"
  using fl_eval_small [of "262144" 34 4503599627370496] by simp

lemma fl_val_3: "fl 1048576 = 1048576"
  using fl_eval_small [of "1048576" 32 4503599627370496] by simp

lemma D_2_18:
  "D 2 18 = 1048576"
  by (simp add: D_def int_float_def int_div_def H_18 rho_2 fl_val_2 fl_val_3 del: One_nat_def)

lemma fl_val_4: "fl 4160749569 = 4160749569"
  using fl_eval_small [of "4160749569" 21 8725724280127488] by simp

lemma fl_val_6: "fl 299699699481304781986493395050294149121 = 299699699481304781882622373227978031104"
  using fl_eval_large [of 75 "299699699481304781986493395050294149121" 7932984991964928] by simp

lemma math_pow_val_5: "math_pow 4160749569 4 = 299699699481304781882622373227978031104"
  by (simp add: math_pow_def power_divide fl_val_6 del: One_nat_def)

lemma F_notebook:
  "F 4160749569 4 = 299699699481304781882622373227978031104"
  by (simp add: F_def int_float_def int_div_def fl_val_4 math_pow_val_5 del: One_nat_def)

lemma math_pow_returns_7: "\<not> math_pow_raises 4160749569 4"
  by (simp add: math_pow_raises_def overflows_def power_divide)

lemma F_returns:
  "F_raises 4160749569 4 = False"
  by (simp add: F_raises_def overflows_def int_float_def int_div_def fl_val_4 math_pow_returns_7 del: One_nat_def)

lemma constants_cell_2_18:
  "constants_cell 2 18 4 4160749569 = None"
  by (simp add: constants_cell_def overflows_def int_float_def int_div_def H_18 rho_2 F_returns del: One_nat_def)

lemma L_274:
  "L 274 = 278"
  by (simp add: L_def int_float_def int_div_def del: One_nat_def)

lemma fl_val_8: "fl 262146 = 262146"
  using fl_eval_small [of "262146" 34 4503633987108864] by simp

lemma fl_val_9: "fl (131073 / 524288) = 131073 / 524288"
  using fl_eval_small [of "131073 / 524288" 54 4503633987108864] by simp

lemma rho_plus_2_18:
  "rho_plus 2 18 = 131073 / 524288"
  by (simp add: rho_plus_def int_float_def int_div_def H_18 D_2_18 fl_val_8 fl_val_9 del: One_nat_def)

lemma fl_val_10: "fl (1 / 32) = 1 / 32"
  using fl_eval_small [of "1 / 32" 57 4503599627370496] by simp

lemma fl_val_11: "fl (33 / 32) = 33 / 32"
  using fl_eval_small [of "33 / 32" 52 4644337115725824] by simp

lemma fl_val_13: "fl (1 / 2) = 1 / 2"
  using fl_eval_small [of "1 / 2" 53 4503599627370496] by simp

lemma math_sqrt_val_12: "math_sqrt (1 / 4) = 1 / 2"
  using math_sqrt_square [of "1 / 2" "1 / 4"] by (simp add: fl_val_13)

lemma fl_val_14: "fl (33 / 64) = 33 / 64"
  using fl_eval_small [of "33 / 64" 53 4644337115725824] by simp

lemma alpha_A:
  "alpha 16 (1 / 4) = 33 / 64"
  by (simp add: alpha_def int_float_def int_div_def fl_val_10 fl_val_11 math_sqrt_val_12 fl_val_14 del: One_nat_def)

lemma fl_val_15: "fl (31 / 64) = 31 / 64"
  using fl_eval_small [of "31 / 64" 54 8725724278030336] by simp

lemma theta_A:
  "theta 16 (1 / 4) = 31 / 64"
  by (simp add: theta_def int_float_def int_div_def alpha_A fl_val_15 del: One_nat_def)

lemma fl_val_16: "fl 16 = 16"
  using fl_eval_small [of "16" 48 4503599627370496] by simp

lemma fl_val_17: "fl (33 / 2) = 33 / 2"
  using fl_eval_small [of "33 / 2" 48 4644337115725824] by simp

lemma fl_val_19: "fl (42618442977 / 128) = 42618442977 / 128"
  using fl_eval_small [of "42618442977 / 128" 24 5586084557881344] by simp

lemma math_pow_val_18: "math_pow (33 / 2) 7 = 42618442977 / 128"
  by (simp add: math_pow_def power_divide fl_val_19 del: One_nat_def)

lemma fl_val_20: "fl (3 / 2) = 3 / 2"
  using fl_eval_small [of "3 / 2" 52 6755399441055744] by simp

lemma fl_val_22: "fl (1 / 8) = 1 / 8"
  using fl_eval_small [of "1 / 8" 55 4503599627370496] by simp

lemma math_pow_float_val_21: "math_pow_float (1 / 4) (3 / 2) = 1 / 8"
  by (simp add: math_pow_float_def quarter_powr fl_val_22)

lemma fl_val_23: "fl (3 / 8) = 3 / 8"
  using fl_eval_small [of "3 / 8" 54 6755399441055744] by simp

lemma fl_val_24: "fl (14206147659 / 16) = 14206147659 / 16"
  using fl_eval_small [of "14206147659 / 16" 23 7448112743841792] by simp

lemma fl_val_26: "fl 1099511627776 = 1099511627776"
  using fl_eval_small [of "1099511627776" 12 4503599627370496] by simp

lemma math_pow_val_25: "math_pow 1048576 2 = 1099511627776"
  by (simp add: math_pow_def power_divide fl_val_26 del: One_nat_def)

lemma fl_val_27: "fl 976239033560831361024 = 976239033560831361024"
  using fl_eval_large [of 17 "976239033560831361024" 7448112743841792] by simp

lemma fl_val_28: "fl (526153617 / 161526097067369190110789632) = 8456669919772775 / 2596148429267413814265248164610048"
  using fl_eval_small [of "526153617 / 161526097067369190110789632" 111 8456669919772775] by simp

lemma e_proximity_gap_A:
  "e_proximity_gap 16 2 18 299699699481304781882622373227978031104 = 8456669919772775 / 2596148429267413814265248164610048"
  by (simp add: e_proximity_gap_def int_float_def int_div_def rho_2 D_2_18 fl_val_16 fl_val_13 fl_val_17 math_pow_val_18 fl_val_20 math_pow_float_val_21 fl_val_23 fl_val_24 math_pow_val_25 fl_val_27 fl_val_28 del: One_nat_def)

lemma fl_val_29: "fl 33 = 33"
  using fl_eval_small [of "33" 47 4644337115725824] by simp

lemma fl_val_30: "fl 1048577 = 1048577"
  using fl_eval_small [of "1048577" 32 4503603922337792] by simp

lemma fl_val_31: "fl 34603041 = 34603041"
  using fl_eval_small [of "34603041" 27 4644341544910848] by simp

lemma fl_val_32: "fl 553648656 = 553648656"
  using fl_eval_small [of "553648656" 23 4644341544910848] by simp

lemma fl_val_33: "fl 5 = 5"
  using fl_eval_small [of "5" 50 5629499534213120] by simp

lemma fl_val_34: "fl 3 = 3"
  using fl_eval_small [of "3" 51 6755399441055744] by simp

lemma fl_val_35: "fl 1660945968 = 1660945968"
  using fl_eval_small [of "1660945968" 22 6966512317366272] by simp

lemma fl_val_36: "fl 149849849740652390941311186613989015552 = 149849849740652390941311186613989015552"
  using fl_eval_large [of 74 "149849849740652390941311186613989015552" 7932984991964928] by simp

lemma fl_val_37: "fl (11534347 / 1040623956532308270425772129263812608) = 7909855447436455 / 713623846352979940529142984724747568191373312"
  using fl_eval_small [of "11534347 / 1040623956532308270425772129263812608" 149 7909855447436455] by simp

lemma folding_error_A:
  "folding_error 16 2 18 299699699481304781882622373227978031104 = 7909855447436455 / 713623846352979940529142984724747568191373312"
  by (simp add: folding_error_def int_float_def int_div_def rho_2 D_2_18 fl_val_29 fl_val_30 fl_val_31 fl_val_32 fl_val_33 fl_val_34 fl_val_35 math_sqrt_val_12 fl_val_36 fl_val_37 del: One_nat_def)

lemma fl_val_38: "fl 278 = 278"
  using fl_eval_small [of "278" 44 4890627720347648] by simp

lemma fl_val_39: "fl (555 / 2) = 555 / 2"
  using fl_eval_small [of "555 / 2" 44 4881831627325440] by simp

lemma fl_val_40: "fl (4693451805473890125 / 5192296858534827628530496329220096) = 572931128597887 / 633825300114114700748351602688"
  using fl_eval_small [of "4693451805473890125 / 5192296858534827628530496329220096" 102 4583449028783096] by simp

lemma fl_val_41: "fl (645063104315608314257735371943 / 713623846352979940529142984724747568191373312) = 286465564298947 / 316912650057057350374175801344"
  using fl_eval_small [of "645063104315608314257735371943 / 713623846352979940529142984724747568191373312" 102 4583449028783152] by simp

lemma e_FRI_constant_A:
  "e_FRI_constant 274 16 2 18 299699699481304781882622373227978031104 = 286465564298947 / 316912650057057350374175801344"
  by (simp add: e_FRI_constant_def int_float_def int_div_def L_274 e_proximity_gap_A folding_error_A fl_val_38 fl_val_13 fl_val_39 fl_val_40 fl_val_41 del: One_nat_def)

lemma fl_val_43: "fl (8427465705576358635622839396817058164066162897508094340376170494254080797249 / 2037035976334486086268445688409378161051468393665936250636140449354381299763336706183397376) = 5244424783945251 / 1267650600228229401496703205376"
  using fl_eval_small [of "8427465705576358635622839396817058164066162897508094340376170494254080797249 / 2037035976334486086268445688409378161051468393665936250636140449354381299763336706183397376" 100 5244424783945251] by simp

lemma math_pow_val_42: "math_pow (33 / 64) 50 = 5244424783945251 / 1267650600228229401496703205376"
  by (simp add: math_pow_def power_divide fl_val_43 del: One_nat_def)

lemma e_FRI_queries_A:
  "e_FRI_queries (31 / 64) 50 = 5244424783945251 / 1267650600228229401496703205376"
  by (simp add: e_FRI_queries_def int_float_def int_div_def fl_val_14 math_pow_val_42 del: One_nat_def)

lemma math_sqrt_val_44: "math_sqrt (131073 / 524288) = 137439477759 / 274877906944"
  using math_sqrt_eval [of 4503616807206912 53 "131073 / 524288"] by (simp add: power2_eq_square)

lemma fl_val_45: "fl (137438429185 / 274877906944) = 137438429185 / 274877906944"
  using fl_eval_small [of "137438429185 / 274877906944" 54 9007164895068160] by simp

lemma first_bound_2_18:
  "fl (1 - math_sqrt (131073 / 524288)) = 137438429185 / 274877906944"
  by (simp add: int_float_def int_div_def math_sqrt_val_44 fl_val_45 del: One_nat_def)

lemma fl_val_46: "fl (47244640256 / 45813159253) = 4644319399087103 / 4503599627370496"
  using fl_eval_small [of "47244640256 / 45813159253" 52 4644319399087103] by simp

lemma fl_val_47: "fl (140719771716607 / 4503599627370496) = 140719771716607 / 4503599627370496"
  using fl_eval_small [of "140719771716607 / 4503599627370496" 58 9006065389862848] by simp

lemma fl_val_48: "fl (140719771716607 / 2251799813685248) = 140719771716607 / 2251799813685248"
  using fl_eval_small [of "140719771716607 / 2251799813685248" 57 9006065389862848] by simp

lemma m_plus_divisor_A:
  "m_plus_divisor (33 / 64) (131073 / 524288) = 140719771716607 / 2251799813685248"
  by (simp add: m_plus_divisor_def int_float_def int_div_def math_sqrt_val_44 fl_val_46 fl_val_47 fl_val_48 del: One_nat_def)

lemma fl_val_49: "fl (2251799813685248 / 140719771716607) = 563020828898305 / 35184372088832"
  using fl_eval_small [of "2251799813685248 / 140719771716607" 48 4504166631186440] by simp

lemma m_plus_A:
  "m_plus (33 / 64) (131073 / 524288) = 17"
  by (simp add: m_plus_def int_float_def int_div_def m_plus_divisor_A fl_val_49 del: One_nat_def)

lemma fl_val_50: "fl (1 / 34) = 4238682002231055 / 144115188075855872"
  using fl_eval_small [of "1 / 34" 58 8477364004462110] by simp

lemma fl_val_51: "fl (148353870078086927 / 144115188075855872) = 579507304992527 / 562949953421312"
  using fl_eval_small [of "148353870078086927 / 144115188075855872" 52 4636058439940216] by simp

lemma fl_val_52: "fl (79647181355698444277706993 / 154742504910672534362390528) = 2318038062532969 / 4503599627370496"
  using fl_eval_small [of "79647181355698444277706993 / 154742504910672534362390528" 53 4636076125065938] by simp

lemma fl_val_53: "fl (2185561564837527 / 4503599627370496) = 2185561564837527 / 4503599627370496"
  using fl_eval_small [of "2185561564837527 / 4503599627370496" 54 8742246259350108] by simp

lemma johnson_bound_A:
  "johnson_bound (31 / 64) (131073 / 524288) 17 = Inr True"
  by (simp add: johnson_bound_def int_float_def int_div_def math_sqrt_val_44 fl_val_50 fl_val_51 fl_val_52 fl_val_53 del: One_nat_def)

lemma m_plus_cell_A:
  "m_plus_cell (33 / 64) (31 / 64) (131073 / 524288) = Inr 17"
  by (simp add: m_plus_cell_def int_float_def int_div_def m_plus_divisor_A m_plus_A johnson_bound_A math_sqrt_val_44 fl_val_45 del: One_nat_def)

lemma math_pow_returns_54: "\<not> math_pow_raises (33 / 2) 7"
  by (simp add: math_pow_raises_def overflows_def power_divide)

lemma math_pow_returns_55: "\<not> math_pow_raises 1048576 2"
  by (simp add: math_pow_raises_def overflows_def power_divide)

lemma math_pow_returns_56: "\<not> math_pow_raises (33 / 64) 50"
  by (rule math_pow_raises_unit) (simp_all add: overflows_def)

lemma FRI_cell_A:
  "FRI_cell 2 18 4 4160749569 50 16 = None"
  by (simp add: FRI_cell_def int_float_def int_div_def rho_2 D_2_18 F_notebook theta_A fl_val_16 fl_val_13 fl_val_17 math_pow_returns_54 fl_val_20 math_pow_float_val_21 fl_val_23 math_pow_returns_55 math_sqrt_val_12 fl_val_36 fl_val_14 math_pow_returns_56 del: One_nat_def)

lemma fl_val_57: "fl 17 = 17"
  using fl_eval_small [of "17" 48 4785074604081152] by simp

lemma fl_val_58: "fl (35 / 2) = 35 / 2"
  using fl_eval_small [of "35 / 2" 48 4925812092436480] by simp

lemma fl_val_59: "fl (4810363371520 / 137439477759) = 4925793302062079 / 140737488355328"
  using fl_eval_small [of "4810363371520 / 137439477759" 47 4925793302062079] by simp

lemma L_plus_A:
  "L_plus 17 (131073 / 524288) = 4925793302062079 / 140737488355328"
  by (simp add: L_plus_def int_float_def int_div_def fl_val_57 fl_val_13 fl_val_58 math_sqrt_val_44 fl_val_59 del: One_nat_def)

lemma fl_val_60: "fl 299699699481304781882622373227977768960 = 299699699481304781882622373227978031104"
  using fl_eval_large [of 75 "299699699481304781882622373227977768960" 7932984991964928] by simp

lemma fl_val_61: "fl 299699699481304781882622373227976982528 = 299699699481304781882622373227978031104"
  using fl_eval_large [of 75 "299699699481304781882622373227976982528" 7932984991964928] by simp

lemma DEEP_divisor_2_18:
  "DEEP_divisor 2 18 299699699481304781882622373227978031104 = 299699699481304781882622373227978031104"
  by (simp add: DEEP_divisor_def int_float_def int_div_def H_18 D_2_18 fl_val_2 fl_val_60 fl_val_61 del: One_nat_def)

lemma fl_val_62: "fl 274 = 274"
  using fl_eval_small [of "274" 44 4820258976169984] by simp

lemma fl_val_63: "fl (674833682382504823 / 70368744177664) = 5272138143613319 / 549755813888"
  using fl_eval_small [of "674833682382504823 / 70368744177664" 39 5272138143613319] by simp

lemma fl_val_64: "fl (5272138143613319 / 164761652210333721804067379677705164262163299172352) = 5986044194731711 / 187072209578355573530071658587684226515959365500928"
  using fl_eval_small [of "5272138143613319 / 164761652210333721804067379677705164262163299172352" 167 5986044194731711] by simp

lemma e_ALI_A:
  "e_ALI (4925793302062079 / 140737488355328) 274 299699699481304781882622373227978031104 = 5986044194731711 / 187072209578355573530071658587684226515959365500928"
  by (simp add: e_ALI_def int_float_def int_div_def fl_val_62 fl_val_63 fl_val_64 del: One_nat_def)

lemma fl_val_65: "fl 1310723 = 1310723"
  using fl_eval_small [of "1310723" 32 5629512419115008] by simp

lemma fl_val_66: "fl (6456350574258714373117 / 140737488355328) = 6157255720385279 / 134217728"
  using fl_eval_small [of "6456350574258714373117 / 140737488355328" 27 6157255720385279] by simp

lemma fl_val_67: "fl (6157255720385279 / 40225012746663506299821137616627237368692211712) = 3495508260262519 / 22835963083295358096932575511191922182123945984"
  using fl_eval_small [of "6157255720385279 / 40225012746663506299821137616627237368692211712" 155 6991016520525038] by simp

lemma e_DEEP_A:
  "e_DEEP (4925793302062079 / 140737488355328) 2 18 299699699481304781882622373227978031104 = 3495508260262519 / 22835963083295358096932575511191922182123945984"
  by (simp add: e_DEEP_def int_float_def int_div_def H_18 DEEP_divisor_2_18 fl_val_65 fl_val_66 fl_val_67 del: One_nat_def)

lemma fl_val_68: "fl 5242880 = 5242880"
  using fl_eval_small [of "5242880" 30 5629499534213120] by simp

lemma fl_val_69: "fl (5 / 285815906029991895563719151714304) = 3195898143037439 / 182687704666362864775460604089535377456991567872"
  using fl_eval_small [of "5 / 285815906029991895563719151714304" 158 6391796286074878] by simp

lemma e_PLONK_4_18:
  "e_PLONK 4 18 299699699481304781882622373227978031104 = 3195898143037439 / 182687704666362864775460604089535377456991567872"
  by (simp add: e_PLONK_def int_float_def int_div_def H_18 fl_val_68 fl_val_69 del: One_nat_def)

lemma fl_val_70: "fl 15728640 = 15728640"
  using fl_eval_small [of "15728640" 29 8444249301319680] by simp

lemma fl_val_71: "fl (5 / 95271968676663965187906383904768) = 4793847214556159 / 91343852333181432387730302044767688728495783936"
  using fl_eval_small [of "5 / 95271968676663965187906383904768" 156 4793847214556159] by simp

lemma e_PLOOKUP_4_18:
  "e_PLOOKUP 4 18 299699699481304781882622373227978031104 = 4793847214556159 / 91343852333181432387730302044767688728495783936"
  by (simp add: e_PLOOKUP_def int_float_def int_div_def H_18 fl_val_70 fl_val_71 del: One_nat_def)

lemma fl_val_72: "fl (6390287041141039 / 1267650600228229401496703205376) = 6390287041141039 / 1267650600228229401496703205376"
  using fl_eval_small [of "6390287041141039 / 1267650600228229401496703205376" 100 6390287041141039] by simp

lemma e_FRI_A:
  "e_FRI (286465564298947 / 316912650057057350374175801344) (5244424783945251 / 1267650600228229401496703205376) = 6390287041141039 / 1267650600228229401496703205376"
  by (simp add: e_FRI_def int_float_def int_div_def fl_val_72 del: One_nat_def)

lemma fl_val_73: "fl (943039916843771254622444681845683903 / 187072209578355573530071658587684226515959365500928) = 6390287041141039 / 1267650600228229401496703205376"
  using fl_eval_small [of "943039916843771254622444681845683903 / 187072209578355573530071658587684226515959365500928" 100 6390287041141039] by simp

lemma fl_val_74: "fl (115117177349093174225056433803895 / 22835963083295358096932575511191922182123945984) = 6390287041141039 / 1267650600228229401496703205376"
  using fl_eval_small [of "115117177349093174225056433803895 / 22835963083295358096932575511191922182123945984" 100 6390287041141039] by simp

lemma fl_val_75: "fl (920937418792745369032283531368447 / 182687704666362864775460604089535377456991567872) = 6390287041141039 / 1267650600228229401496703205376"
  using fl_eval_small [of "920937418792745369032283531368447 / 182687704666362864775460604089535377456991567872" 100 6390287041141039] by simp

lemma fl_val_76: "fl (460468709396372687712039908721663 / 91343852333181432387730302044767688728495783936) = 6390287041141039 / 1267650600228229401496703205376"
  using fl_eval_small [of "460468709396372687712039908721663 / 91343852333181432387730302044767688728495783936" 100 6390287041141039] by simp

lemma e_IOP_A:
  "e_IOP (6390287041141039 / 1267650600228229401496703205376) (5986044194731711 / 187072209578355573530071658587684226515959365500928) (3495508260262519 / 22835963083295358096932575511191922182123945984) (3195898143037439 / 182687704666362864775460604089535377456991567872) (4793847214556159 / 91343852333181432387730302044767688728495783936) = 6390287041141039 / 1267650600228229401496703205376"
  by (simp add: e_IOP_def int_float_def int_div_def fl_val_73 fl_val_74 fl_val_75 fl_val_76 del: One_nat_def)

lemma IOP_cell_A:
  "IOP_cell (286465564298947 / 316912650057057350374175801344) (5244424783945251 / 1267650600228229401496703205376) (4925793302062079 / 140737488355328) (5986044194731711 / 187072209578355573530071658587684226515959365500928) (3495508260262519 / 22835963083295358096932575511191922182123945984) 4 2 18 299699699481304781882622373227978031104 = Inr \<lparr>FRI_constant = 286465564298947 / 316912650057057350374175801344, FRI_queries = 5244424783945251 / 1267650600228229401496703205376, ALI = 5986044194731711 / 187072209578355573530071658587684226515959365500928, DEEP = 3495508260262519 / 22835963083295358096932575511191922182123945984, PLONK = 3195898143037439 / 182687704666362864775460604089535377456991567872, PLOOKUP = 4793847214556159 / 91343852333181432387730302044767688728495783936, list_size = 4925793302062079 / 140737488355328, IOP = 6390287041141039 / 1267650600228229401496703205376, log2_IOP = math_log (6390287041141039 / 1267650600228229401496703205376) 2\<rparr>"
  by (simp add: IOP_cell_def int_float_def int_div_def DEEP_divisor_2_18 e_PLONK_4_18 e_PLOOKUP_4_18 e_FRI_A e_IOP_A del: One_nat_def)

lemma provable_A:
  "provable 2 18 4 4160749569 274 50 16 = Inr \<lparr>FRI_constant = 286465564298947 / 316912650057057350374175801344, FRI_queries = 5244424783945251 / 1267650600228229401496703205376, ALI = 5986044194731711 / 187072209578355573530071658587684226515959365500928, DEEP = 3495508260262519 / 22835963083295358096932575511191922182123945984, PLONK = 3195898143037439 / 182687704666362864775460604089535377456991567872, PLOOKUP = 4793847214556159 / 91343852333181432387730302044767688728495783936, list_size = 4925793302062079 / 140737488355328, IOP = 6390287041141039 / 1267650600228229401496703205376, log2_IOP = math_log (6390287041141039 / 1267650600228229401496703205376) 2\<rparr>"
  by (simp add: provable_def int_float_def int_div_def constants_cell_2_18 FRI_cell_A rho_2 F_notebook alpha_A theta_A rho_plus_2_18 m_plus_cell_A e_FRI_constant_A e_FRI_queries_A L_plus_A e_ALI_A e_DEEP_A IOP_cell_A del: One_nat_def)




lemma fl_val_80: "fl (278106368284019834975553700094962919414183375617767113232413626310384666309217 / 130370302485407109521180524058200202307293977194619920040712988758680403184853549195737432064) = 1352078264610885 / 633825300114114700748351602688"
  using fl_eval_small [of "278106368284019834975553700094962919414183375617767113232413626310384666309217 / 130370302485407109521180524058200202307293977194619920040712988758680403184853549195737432064" 101 5408313058443540] by simp

lemma math_pow_val_79: "math_pow (33 / 64) 51 = 1352078264610885 / 633825300114114700748351602688"
  by (simp add: math_pow_def power_divide fl_val_80 del: One_nat_def)

lemma e_FRI_queries_A_51:
  "e_FRI_queries (31 / 64) 51 = 1352078264610885 / 633825300114114700748351602688"
  by (simp add: e_FRI_queries_def int_float_def int_div_def fl_val_14 math_pow_val_79 del: One_nat_def)

lemma math_pow_returns_81: "\<not> math_pow_raises (33 / 64) 51"
  by (rule math_pow_raises_unit) (simp_all add: overflows_def)

lemma FRI_cell_A_51:
  "FRI_cell 2 18 4 4160749569 51 16 = None"
  by (simp add: FRI_cell_def int_float_def int_div_def rho_2 D_2_18 F_notebook theta_A fl_val_16 fl_val_13 fl_val_17 math_pow_returns_54 fl_val_20 math_pow_float_val_21 fl_val_23 math_pow_returns_55 math_sqrt_val_12 fl_val_36 fl_val_14 math_pow_returns_81 del: One_nat_def)

lemma fl_val_82: "fl (1925009393208779 / 633825300114114700748351602688) = 1925009393208779 / 633825300114114700748351602688"
  using fl_eval_small [of "1925009393208779 / 633825300114114700748351602688" 101 7700037572835116] by simp

lemma e_FRI_A_51:
  "e_FRI (286465564298947 / 316912650057057350374175801344) (1352078264610885 / 633825300114114700748351602688) = 1925009393208779 / 633825300114114700748351602688"
  by (simp add: e_FRI_def int_float_def int_div_def fl_val_82 del: One_nat_def)

lemma fl_val_83: "fl (568162489856148223935319413232121535 / 187072209578355573530071658587684226515959365500928) = 1925009393208779 / 633825300114114700748351602688"
  using fl_eval_small [of "568162489856148223935319413232121535 / 187072209578355573530071658587684226515959365500928" 101 7700037572835116] by simp

lemma fl_val_84: "fl (69355772687518097236881962537591 / 22835963083295358096932575511191922182123945984) = 1925009393208779 / 633825300114114700748351602688"
  using fl_eval_small [of "69355772687518097236881962537591 / 22835963083295358096932575511191922182123945984" 101 7700037572835116] by simp

lemma fl_val_85: "fl (554846181500144753126887761238015 / 182687704666362864775460604089535377456991567872) = 1925009393208779 / 633825300114114700748351602688"
  using fl_eval_small [of "554846181500144753126887761238015 / 182687704666362864775460604089535377456991567872" 101 7700037572835116] by simp

lemma fl_val_86: "fl (277423090750072379759342023656447 / 91343852333181432387730302044767688728495783936) = 1925009393208779 / 633825300114114700748351602688"
  using fl_eval_small [of "277423090750072379759342023656447 / 91343852333181432387730302044767688728495783936" 101 7700037572835116] by simp

lemma e_IOP_A_51:
  "e_IOP (1925009393208779 / 633825300114114700748351602688) (5986044194731711 / 187072209578355573530071658587684226515959365500928) (3495508260262519 / 22835963083295358096932575511191922182123945984) (3195898143037439 / 182687704666362864775460604089535377456991567872) (4793847214556159 / 91343852333181432387730302044767688728495783936) = 1925009393208779 / 633825300114114700748351602688"
  by (simp add: e_IOP_def int_float_def int_div_def fl_val_83 fl_val_84 fl_val_85 fl_val_86 del: One_nat_def)

lemma IOP_cell_A_51:
  "IOP_cell (286465564298947 / 316912650057057350374175801344) (1352078264610885 / 633825300114114700748351602688) (4925793302062079 / 140737488355328) (5986044194731711 / 187072209578355573530071658587684226515959365500928) (3495508260262519 / 22835963083295358096932575511191922182123945984) 4 2 18 299699699481304781882622373227978031104 = Inr \<lparr>FRI_constant = 286465564298947 / 316912650057057350374175801344, FRI_queries = 1352078264610885 / 633825300114114700748351602688, ALI = 5986044194731711 / 187072209578355573530071658587684226515959365500928, DEEP = 3495508260262519 / 22835963083295358096932575511191922182123945984, PLONK = 3195898143037439 / 182687704666362864775460604089535377456991567872, PLOOKUP = 4793847214556159 / 91343852333181432387730302044767688728495783936, list_size = 4925793302062079 / 140737488355328, IOP = 1925009393208779 / 633825300114114700748351602688, log2_IOP = math_log (1925009393208779 / 633825300114114700748351602688) 2\<rparr>"
  by (simp add: IOP_cell_def int_float_def int_div_def DEEP_divisor_2_18 e_PLONK_4_18 e_PLOOKUP_4_18 e_FRI_A_51 e_IOP_A_51 del: One_nat_def)

lemma provable_A_51:
  "provable 2 18 4 4160749569 274 51 16 = Inr \<lparr>FRI_constant = 286465564298947 / 316912650057057350374175801344, FRI_queries = 1352078264610885 / 633825300114114700748351602688, ALI = 5986044194731711 / 187072209578355573530071658587684226515959365500928, DEEP = 3495508260262519 / 22835963083295358096932575511191922182123945984, PLONK = 3195898143037439 / 182687704666362864775460604089535377456991567872, PLOOKUP = 4793847214556159 / 91343852333181432387730302044767688728495783936, list_size = 4925793302062079 / 140737488355328, IOP = 1925009393208779 / 633825300114114700748351602688, log2_IOP = math_log (1925009393208779 / 633825300114114700748351602688) 2\<rparr>"
  by (simp add: provable_def int_float_def int_div_def constants_cell_2_18 FRI_cell_A_51 rho_2 F_notebook alpha_A theta_A rho_plus_2_18 m_plus_cell_A e_FRI_constant_A e_FRI_queries_A_51 L_plus_A e_ALI_A e_DEEP_A IOP_cell_A_51 del: One_nat_def)

lemma fl_val_87: "fl (1 / 20) = 3602879701896397 / 72057594037927936"
  using fl_eval_small [of "1 / 20" 57 7205759403792794] by simp

lemma fl_val_88: "fl (3 / 4) = 3 / 4"
  using fl_eval_small [of "3 / 4" 53 6755399441055744] by simp

lemma fl_val_89: "fl (50440315826549555 / 72057594037927936) = 3152519739159347 / 4503599627370496"
  using fl_eval_small [of "50440315826549555 / 72057594037927936" 53 6305039478318694] by simp

lemma theta_conj_B:
  "theta_conj (1 / 4) (3602879701896397 / 72057594037927936) = 3152519739159347 / 4503599627370496"
  by (simp add: theta_conj_def int_float_def int_div_def fl_val_88 fl_val_89 del: One_nat_def)

lemma fl_val_90: "fl (393215 / 524288) = 393215 / 524288"
  using fl_eval_small [of "393215 / 524288" 53 6755382261186560] by simp

lemma fl_val_91: "fl (225171391433933 / 4503599627370496) = 225171391433933 / 4503599627370496"
  using fl_eval_small [of "225171391433933 / 4503599627370496" 57 7205484525885856] by simp

lemma epsilon_plus_B:
  "epsilon_plus 2 18 (3602879701896397 / 72057594037927936) = 225171391433933 / 4503599627370496"
  by (simp add: epsilon_plus_def int_float_def int_div_def rho_plus_2_18 rho_2 theta_conj_B fl_val_90 fl_val_91 del: One_nat_def)

lemma fl_val_92: "fl (3602879701896397 / 288230376151711744) = 3602879701896397 / 288230376151711744"
  using fl_eval_small [of "3602879701896397 / 288230376151711744" 59 7205759403792794] by simp

lemma math_pow_val_93: "math_pow (3602879701896397 / 288230376151711744) 1 = 3602879701896397 / 288230376151711744"
  by (simp add: math_pow_def power_divide fl_val_92 del: One_nat_def)

lemma fl_val_94: "fl (288230376151711744 / 3602879701896397) = 80"
  using fl_eval_small [of "288230376151711744 / 3602879701896397" 46 5629499534213120] by simp

lemma fl_val_95: "fl 22240 = 22240"
  using fl_eval_small [of "22240" 38 6113284650434560] by simp

lemma math_pow_val_96: "math_pow 1048576 1 = 1048576"
  by (simp add: math_pow_def power_divide fl_val_3 del: One_nat_def)

lemma fl_val_97: "fl 23320330240 = 23320330240"
  using fl_eval_small [of "23320330240" 18 6113284650434560] by simp

lemma fl_val_98: "fl (695 / 8931747063437246736366223491072) = 3470545639704719 / 44601490397061246283071436545296723011960832"
  using fl_eval_small [of "695 / 8931747063437246736366223491072" 146 6941091279409438] by simp

lemma e_proximity_gap_conj_B:
  "e_proximity_gap_conj (3602879701896397 / 72057594037927936) 1 1 274 2 18 299699699481304781882622373227978031104 = 3470545639704719 / 44601490397061246283071436545296723011960832"
  by (simp add: e_proximity_gap_conj_def int_float_def int_div_def rho_2 D_2_18 L_274 fl_val_92 math_pow_val_93 fl_val_94 fl_val_38 fl_val_95 math_pow_val_96 fl_val_97 fl_val_98 del: One_nat_def)

lemma fl_val_99: "fl (1926152830036119045 / 89202980794122492566142873090593446023921664) = 3762017246164295 / 174224571863520493293247799005065324265472"
  using fl_eval_small [of "1926152830036119045 / 89202980794122492566142873090593446023921664" 138 7524034492328590] by simp

lemma fl_val_100: "fl (15417132495736388775 / 713623846352979940529142984724747568191373312) = 940987090804223 / 43556142965880123323311949751266331066368"
  using fl_eval_small [of "15417132495736388775 / 713623846352979940529142984724747568191373312" 138 7527896726433784] by simp

lemma e_FRI_constant_conj_B:
  "e_FRI_constant_conj (3602879701896397 / 72057594037927936) 1 1 274 16 2 18 299699699481304781882622373227978031104 = 940987090804223 / 43556142965880123323311949751266331066368"
  by (simp add: e_FRI_constant_conj_def int_float_def int_div_def L_274 e_proximity_gap_conj_B folding_error_A fl_val_38 fl_val_13 fl_val_39 fl_val_99 fl_val_100 del: One_nat_def)

lemma fl_val_101: "fl (1351079888211149 / 4503599627370496) = 1351079888211149 / 4503599627370496"
  using fl_eval_small [of "1351079888211149 / 4503599627370496" 54 5404319552844596] by simp

lemma fl_val_103: "fl (3420199682488000934289482861546253402308170743659266361303798496968099486780821206643508914363460688182538379468922955097356967763824659681517856742878496725537031144964803996287467529457277483683890631034612014159274132893147917211238270825251403627803601053124769247484987067171853756093393574413103537445110228496404657993898175691482614240206479931129183548908959720278639929330994239450631017352055307789631369065699775373285741893589999934804310664831586863411293950638913456804652309053741397924228202853263445740107248202643180372096959442530316599432356402082118854993319220810495303400257380393868429840093717451278275764758024283542567204450470947631846376617007171405526130966097532951354542950129888087249325048349357463667069189674886609505001 / 476418619515067823588714793638656202201857139291083867959899955667653856265612022291529050965698956954980403301461703015038614868574193962397485499515664041394986281501470694218497988307090612350614568889981811581986638138356992766991125087684991039263797693265785104917948470363624188015370806861100688624248678603221354110605494242806696770917600281683633644108236805349374738136918815731368582599191891954042154031640578510234055103862187476613117399488481460317825611407737894256555037882572203580919569719825554820635703945122525655142867259335210893272327056051927519150227161849803955583483422130016277366149645187225958439976324236745223185422914992006460893085523949518747052097319358193378697931652326752042142239336421790958496682974373076635520836784028919211864805605376) = 2501509390945937 / 348449143727040986586495598010130648530944"
  using fl_eval_small [of "3420199682488000934289482861546253402308170743659266361303798496968099486780821206643508914363460688182538379468922955097356967763824659681517856742878496725537031144964803996287467529457277483683890631034612014159274132893147917211238270825251403627803601053124769247484987067171853756093393574413103537445110228496404657993898175691482614240206479931129183548908959720278639929330994239450631017352055307789631369065699775373285741893589999934804310664831586863411293950638913456804652309053741397924228202853263445740107248202643180372096959442530316599432356402082118854993319220810495303400257380393868429840093717451278275764758024283542567204450470947631846376617007171405526130966097532951354542950129888087249325048349357463667069189674886609505001 / 476418619515067823588714793638656202201857139291083867959899955667653856265612022291529050965698956954980403301461703015038614868574193962397485499515664041394986281501470694218497988307090612350614568889981811581986638138356992766991125087684991039263797693265785104917948470363624188015370806861100688624248678603221354110605494242806696770917600281683633644108236805349374738136918815731368582599191891954042154031640578510234055103862187476613117399488481460317825611407737894256555037882572203580919569719825554820635703945122525655142867259335210893272327056051927519150227161849803955583483422130016277366149645187225958439976324236745223185422914992006460893085523949518747052097319358193378697931652326752042142239336421790958496682974373076635520836784028919211864805605376" 139 5003018781891874] by simp

lemma math_pow_val_102: "math_pow (1351079888211149 / 4503599627370496) 50 = 2501509390945937 / 348449143727040986586495598010130648530944"
  by (simp add: math_pow_def power_divide fl_val_103 del: One_nat_def)

lemma e_FRI_queries_B:
  "e_FRI_queries (3152519739159347 / 4503599627370496) 50 = 2501509390945937 / 348449143727040986586495598010130648530944"
  by (simp add: e_FRI_queries_def int_float_def int_div_def fl_val_101 math_pow_val_102 del: One_nat_def)

lemma fl_val_104: "fl (4722366482869645213696 / 225171391433933) = 1407428572692557 / 67108864"
  using fl_eval_small [of "4722366482869645213696 / 225171391433933" 28 5629714290770228] by simp

lemma fl_val_106: "fl (1407428572692557 / 67108864) = 1407428572692557 / 67108864"
  using fl_eval_small [of "1407428572692557 / 67108864" 28 5629714290770228] by simp

lemma math_pow_val_105: "math_pow (1407428572692557 / 67108864) 1 = 1407428572692557 / 67108864"
  by (simp add: math_pow_def power_divide fl_val_106 del: One_nat_def)

lemma L_plus_conj_B:
  "L_plus_conj 2 18 (3602879701896397 / 72057594037927936) 1 = 20972321"
  by (simp add: L_plus_conj_def int_float_def int_div_def D_2_18 epsilon_plus_B fl_val_104 math_pow_val_105 del: One_nat_def)

lemma fl_val_107: "fl 5746415954 = 5746415954"
  using fl_eval_small [of "5746415954" 20 6025553855381504] by simp

lemma fl_val_108: "fl (2873207977 / 149849849740652390941311186613989015552) = 1710370190116513 / 89202980794122492566142873090593446023921664"
  using fl_eval_small [of "2873207977 / 149849849740652390941311186613989015552" 148 6841480760466052] by simp

lemma e_ALI_int_B:
  "e_ALI_int 20972321 274 299699699481304781882622373227978031104 = 1710370190116513 / 89202980794122492566142873090593446023921664"
  by (simp add: e_ALI_int_def int_float_def int_div_def fl_val_107 fl_val_108 del: One_nat_def)

lemma fl_val_109: "fl 27488903498083 = 27488903498083"
  using fl_eval_small [of "27488903498083" 8 7037159295509248] by simp

lemma fl_val_110: "fl (27488903498083 / 299699699481304781882622373227978031104) = 7990068810946361 / 87112285931760246646623899502532662132736"
  using fl_eval_small [of "27488903498083 / 299699699481304781882622373227978031104" 136 7990068810946361] by simp

lemma e_DEEP_int_B:
  "e_DEEP_int 20972321 2 18 299699699481304781882622373227978031104 = 7990068810946361 / 87112285931760246646623899502532662132736"
  by (simp add: e_DEEP_int_def int_float_def int_div_def H_18 DEEP_divisor_2_18 fl_val_109 fl_val_110 del: One_nat_def)

lemma fl_val_111: "fl (10029406117379721 / 348449143727040986586495598010130648530944) = 1253675764672465 / 43556142965880123323311949751266331066368"
  using fl_eval_small_tie [of "10029406117379721 / 348449143727040986586495598010130648530944" 137 5014703058689860] by simp

lemma e_FRI_B:
  "e_FRI (940987090804223 / 43556142965880123323311949751266331066368) (2501509390945937 / 348449143727040986586495598010130648530944) = 1253675764672465 / 43556142965880123323311949751266331066368"
  by (simp add: e_FRI_def int_float_def int_div_def fl_val_111 del: One_nat_def)

lemma fl_val_112: "fl (2569238336239324833 / 89202980794122492566142873090593446023921664) = 5018043625467431 / 174224571863520493293247799005065324265472"
  using fl_eval_small [of "2569238336239324833 / 89202980794122492566142873090593446023921664" 137 5018043625467431] by simp

lemma fl_val_113: "fl (20998181247360153 / 174224571863520493293247799005065324265472) = 2624772655920019 / 21778071482940061661655974875633165533184"
  using fl_eval_small [of "20998181247360153 / 174224571863520493293247799005065324265472" 135 5249545311840038] by simp

lemma fl_val_114: "fl (22018192095530061780991 / 182687704666362864775460604089535377456991567872) = 1312386518450383 / 10889035741470030830827987437816582766592"
  using fl_eval_small [of "22018192095530061780991 / 182687704666362864775460604089535377456991567872" 135 5249546073801532] by simp

lemma fl_val_115: "fl (11009100841612244993023 / 91343852333181432387730302044767688728495783936) = 5249548359686015 / 43556142965880123323311949751266331066368"
  using fl_eval_small [of "11009100841612244993023 / 91343852333181432387730302044767688728495783936" 135 5249548359686015] by simp

lemma e_IOP_B:
  "e_IOP (1253675764672465 / 43556142965880123323311949751266331066368) (1710370190116513 / 89202980794122492566142873090593446023921664) (7990068810946361 / 87112285931760246646623899502532662132736) (3195898143037439 / 182687704666362864775460604089535377456991567872) (4793847214556159 / 91343852333181432387730302044767688728495783936) = 5249548359686015 / 43556142965880123323311949751266331066368"
  by (simp add: e_IOP_def int_float_def int_div_def fl_val_112 fl_val_113 fl_val_114 fl_val_115 del: One_nat_def)

lemma IOP_cell_B:
  "IOP_cell (940987090804223 / 43556142965880123323311949751266331066368) (2501509390945937 / 348449143727040986586495598010130648530944) 20972321 (1710370190116513 / 89202980794122492566142873090593446023921664) (7990068810946361 / 87112285931760246646623899502532662132736) 4 2 18 299699699481304781882622373227978031104 = Inr \<lparr>FRI_constant = 940987090804223 / 43556142965880123323311949751266331066368, FRI_queries = 2501509390945937 / 348449143727040986586495598010130648530944, ALI = 1710370190116513 / 89202980794122492566142873090593446023921664, DEEP = 7990068810946361 / 87112285931760246646623899502532662132736, PLONK = 3195898143037439 / 182687704666362864775460604089535377456991567872, PLOOKUP = 4793847214556159 / 91343852333181432387730302044767688728495783936, list_size = 20972321, IOP = 5249548359686015 / 43556142965880123323311949751266331066368, log2_IOP = math_log (5249548359686015 / 43556142965880123323311949751266331066368) 2\<rparr>"
  by (simp add: IOP_cell_def int_float_def int_div_def DEEP_divisor_2_18 e_PLONK_4_18 e_PLOOKUP_4_18 e_FRI_B e_IOP_B del: One_nat_def)

lemma math_pow_returns_116: "\<not> math_pow_raises (3602879701896397 / 288230376151711744) 1"
  by (rule math_pow_raises_unit) (simp_all add: overflows_def)

lemma math_pow_returns_117: "\<not> math_pow_raises 1048576 1"
  by (simp add: math_pow_raises_def overflows_def power_divide)

lemma math_pow_returns_118: "\<not> math_pow_raises (1351079888211149 / 4503599627370496) 50"
  by (rule math_pow_raises_unit) (simp_all add: overflows_def)

lemma math_pow_returns_119: "\<not> math_pow_raises (1407428572692557 / 67108864) 1"
  by (simp add: math_pow_raises_def overflows_def power_divide)

lemma conjectured_cell_B:
  "conjectured_cell 2 18 50 (3602879701896397 / 72057594037927936) 1 1 1 = None"
  by (simp add: conjectured_cell_def int_float_def int_div_def rho_2 D_2_18 theta_conj_B rho_plus_2_18 epsilon_plus_B fl_val_90 fl_val_92 math_pow_returns_116 math_pow_val_93 math_pow_returns_117 fl_val_101 math_pow_returns_118 fl_val_104 math_pow_returns_119 del: One_nat_def)

lemma conjectured_B:
  "conjectured 2 18 4 4160749569 274 50 16 (3602879701896397 / 72057594037927936) 1 1 1 = Inr \<lparr>FRI_constant = 940987090804223 / 43556142965880123323311949751266331066368, FRI_queries = 2501509390945937 / 348449143727040986586495598010130648530944, ALI = 1710370190116513 / 89202980794122492566142873090593446023921664, DEEP = 7990068810946361 / 87112285931760246646623899502532662132736, PLONK = 3195898143037439 / 182687704666362864775460604089535377456991567872, PLOOKUP = 4793847214556159 / 91343852333181432387730302044767688728495783936, list_size = 20972321, IOP = 5249548359686015 / 43556142965880123323311949751266331066368, log2_IOP = math_log (5249548359686015 / 43556142965880123323311949751266331066368) 2\<rparr>"
  by (simp add: conjectured_def int_float_def int_div_def provable_A conjectured_cell_B rho_2 F_notebook theta_conj_B e_FRI_constant_conj_B e_FRI_queries_B L_plus_conj_B e_ALI_int_B e_DEEP_int_B IOP_cell_B del: One_nat_def)

lemma fl_val_121: "fl (4620963004675695606401388773430121570342772129472006249945414040181163943009006634954220496906756321640997238137628721940049694148219658040507074625261138086948990484291977736474197444514877644817927464584862747066093801808287977839448364859130083631776691621459597843684102510233204183781311256803339552947495732492574393361861599027406258900686238516429623053769355798239154100489962154403913839119102230501089803863045191099817500219882396144925050251191861310848527063386732028044778417086115844292818115227731317509301901314193254791836463181142303477096442770954734731350299287713875623897461033491382099687874602775882646623202342445562864011267144912126201357874428598614079494841853823644352933322498239171750328054134052201517186389170034549113379119230259456149 / 2145598717320425564049692314408758521201467959509591614848712100045833537017964999649830110999708159603326400856764913754891036432967140605226232287649072045112328241720817255785027482965240273913253209187141185992882004702768248501971641249407611818413720086078330200534828914966518683990043143209284924556419852845240209798736919428617780205589519003163394645573165554806640978791372196437849154346448429484318745240577857476861014024178870258839431754978788639524659152108848443211707969783399661162938909645123240098199496948962480778651462885980379795022247234171292952835013341207128286945605473593283126215602595190422150538281344419614315056319550004559453572568478273196810334533734737073428130807949124323064573729681059436380544561787083025549847382892434448064903050951117925812321386496) = 3001811269135125 / 1393796574908163946345982392040522594123776"
  using fl_eval_small [of "4620963004675695606401388773430121570342772129472006249945414040181163943009006634954220496906756321640997238137628721940049694148219658040507074625261138086948990484291977736474197444514877644817927464584862747066093801808287977839448364859130083631776691621459597843684102510233204183781311256803339552947495732492574393361861599027406258900686238516429623053769355798239154100489962154403913839119102230501089803863045191099817500219882396144925050251191861310848527063386732028044778417086115844292818115227731317509301901314193254791836463181142303477096442770954734731350299287713875623897461033491382099687874602775882646623202342445562864011267144912126201357874428598614079494841853823644352933322498239171750328054134052201517186389170034549113379119230259456149 / 2145598717320425564049692314408758521201467959509591614848712100045833537017964999649830110999708159603326400856764913754891036432967140605226232287649072045112328241720817255785027482965240273913253209187141185992882004702768248501971641249407611818413720086078330200534828914966518683990043143209284924556419852845240209798736919428617780205589519003163394645573165554806640978791372196437849154346448429484318745240577857476861014024178870258839431754978788639524659152108848443211707969783399661162938909645123240098199496948962480778651462885980379795022247234171292952835013341207128286945605473593283126215602595190422150538281344419614315056319550004559453572568478273196810334533734737073428130807949124323064573729681059436380544561787083025549847382892434448064903050951117925812321386496" 141 6003622538270250] by simp

lemma math_pow_val_120: "math_pow (1351079888211149 / 4503599627370496) 51 = 3001811269135125 / 1393796574908163946345982392040522594123776"
  by (simp add: math_pow_def power_divide fl_val_121 del: One_nat_def)

lemma e_FRI_queries_B_51:
  "e_FRI_queries (3152519739159347 / 4503599627370496) 51 = 3001811269135125 / 1393796574908163946345982392040522594123776"
  by (simp add: e_FRI_queries_def int_float_def int_div_def fl_val_101 math_pow_val_120 del: One_nat_def)

lemma fl_val_122: "fl (33113398174870261 / 1393796574908163946345982392040522594123776) = 8278349543717565 / 348449143727040986586495598010130648530944"
  using fl_eval_small [of "33113398174870261 / 1393796574908163946345982392040522594123776" 138 8278349543717565] by simp

lemma e_FRI_B_51:
  "e_FRI (940987090804223 / 43556142965880123323311949751266331066368) (3001811269135125 / 1393796574908163946345982392040522594123776) = 8278349543717565 / 348449143727040986586495598010130648530944"
  by (simp add: e_FRI_def int_float_def int_div_def fl_val_122 del: One_nat_def)

lemma fl_val_123: "fl (2120967853381813153 / 89202980794122492566142873090593446023921664) = 2071257669318177 / 87112285931760246646623899502532662132736"
  using fl_eval_small [of "2120967853381813153 / 89202980794122492566142873090593446023921664" 138 8285030677272708] by simp

lemma fl_val_124: "fl (5030663240132269 / 43556142965880123323311949751266331066368) = 5030663240132269 / 43556142965880123323311949751266331066368"
  using fl_eval_small [of "5030663240132269 / 43556142965880123323311949751266331066368" 135 5030663240132269] by simp

lemma fl_val_125: "fl (21100134146637879433215 / 182687704666362864775460604089535377456991567872) = 5030664002093763 / 43556142965880123323311949751266331066368"
  using fl_eval_small [of "21100134146637879433215 / 182687704666362864775460604089535377456991567872" 135 5030664002093763] by simp

lemma fl_val_126: "fl (10550071867166153819135 / 91343852333181432387730302044767688728495783936) = 2515333143989123 / 21778071482940061661655974875633165533184"
  using fl_eval_small [of "10550071867166153819135 / 91343852333181432387730302044767688728495783936" 135 5030666287978246] by simp

lemma e_IOP_B_51:
  "e_IOP (8278349543717565 / 348449143727040986586495598010130648530944) (1710370190116513 / 89202980794122492566142873090593446023921664) (7990068810946361 / 87112285931760246646623899502532662132736) (3195898143037439 / 182687704666362864775460604089535377456991567872) (4793847214556159 / 91343852333181432387730302044767688728495783936) = 2515333143989123 / 21778071482940061661655974875633165533184"
  by (simp add: e_IOP_def int_float_def int_div_def fl_val_123 fl_val_124 fl_val_125 fl_val_126 del: One_nat_def)

lemma IOP_cell_B_51:
  "IOP_cell (940987090804223 / 43556142965880123323311949751266331066368) (3001811269135125 / 1393796574908163946345982392040522594123776) 20972321 (1710370190116513 / 89202980794122492566142873090593446023921664) (7990068810946361 / 87112285931760246646623899502532662132736) 4 2 18 299699699481304781882622373227978031104 = Inr \<lparr>FRI_constant = 940987090804223 / 43556142965880123323311949751266331066368, FRI_queries = 3001811269135125 / 1393796574908163946345982392040522594123776, ALI = 1710370190116513 / 89202980794122492566142873090593446023921664, DEEP = 7990068810946361 / 87112285931760246646623899502532662132736, PLONK = 3195898143037439 / 182687704666362864775460604089535377456991567872, PLOOKUP = 4793847214556159 / 91343852333181432387730302044767688728495783936, list_size = 20972321, IOP = 2515333143989123 / 21778071482940061661655974875633165533184, log2_IOP = math_log (2515333143989123 / 21778071482940061661655974875633165533184) 2\<rparr>"
  by (simp add: IOP_cell_def int_float_def int_div_def DEEP_divisor_2_18 e_PLONK_4_18 e_PLOOKUP_4_18 e_FRI_B_51 e_IOP_B_51 del: One_nat_def)

lemma math_pow_returns_127: "\<not> math_pow_raises (1351079888211149 / 4503599627370496) 51"
  by (rule math_pow_raises_unit) (simp_all add: overflows_def)

lemma conjectured_cell_B_51:
  "conjectured_cell 2 18 51 (3602879701896397 / 72057594037927936) 1 1 1 = None"
  by (simp add: conjectured_cell_def int_float_def int_div_def rho_2 D_2_18 theta_conj_B rho_plus_2_18 epsilon_plus_B fl_val_90 fl_val_92 math_pow_returns_116 math_pow_val_93 math_pow_returns_117 fl_val_101 math_pow_returns_127 fl_val_104 math_pow_returns_119 del: One_nat_def)

lemma conjectured_B_51:
  "conjectured 2 18 4 4160749569 274 51 16 (3602879701896397 / 72057594037927936) 1 1 1 = Inr \<lparr>FRI_constant = 940987090804223 / 43556142965880123323311949751266331066368, FRI_queries = 3001811269135125 / 1393796574908163946345982392040522594123776, ALI = 1710370190116513 / 89202980794122492566142873090593446023921664, DEEP = 7990068810946361 / 87112285931760246646623899502532662132736, PLONK = 3195898143037439 / 182687704666362864775460604089535377456991567872, PLOOKUP = 4793847214556159 / 91343852333181432387730302044767688728495783936, list_size = 20972321, IOP = 2515333143989123 / 21778071482940061661655974875633165533184, log2_IOP = math_log (2515333143989123 / 21778071482940061661655974875633165533184) 2\<rparr>"
  by (simp add: conjectured_def int_float_def int_div_def provable_A_51 conjectured_cell_B_51 rho_2 F_notebook theta_conj_B e_FRI_constant_conj_B e_FRI_queries_B_51 L_plus_conj_B e_ALI_int_B e_DEEP_int_B IOP_cell_B_51 del: One_nat_def)

lemma H_20:
  "H 20 = 1048576"
  by (simp add: H_def int_float_def int_div_def del: One_nat_def)

lemma fl_val_128: "fl 4194304 = 4194304"
  using fl_eval_small [of "4194304" 30 4503599627370496] by simp

lemma D_2_20:
  "D 2 20 = 4194304"
  by (simp add: D_def int_float_def int_div_def H_20 rho_2 fl_val_3 fl_val_128 del: One_nat_def)

lemma constants_cell_2_20:
  "constants_cell 2 20 4 4160749569 = None"
  by (simp add: constants_cell_def overflows_def int_float_def int_div_def H_20 rho_2 F_returns del: One_nat_def)

lemma fl_val_129: "fl 1048578 = 1048578"
  using fl_eval_small [of "1048578" 32 4503608217305088] by simp

lemma fl_val_130: "fl (524289 / 2097152) = 524289 / 2097152"
  using fl_eval_small [of "524289 / 2097152" 54 4503608217305088] by simp

lemma rho_plus_2_20:
  "rho_plus 2 20 = 524289 / 2097152"
  by (simp add: rho_plus_def int_float_def int_div_def H_20 D_2_20 fl_val_129 fl_val_130 del: One_nat_def)

lemma fl_val_131: "fl (5 / 8) = 5 / 8"
  using fl_eval_small [of "5 / 8" 53 5629499534213120] by simp

lemma alpha_UDR_2:
  "alpha_UDR (1 / 4) = 5 / 8"
  by (simp add: alpha_UDR_def int_float_def int_div_def fl_val_88 fl_val_23 fl_val_131 del: One_nat_def)

lemma theta_UDR_2:
  "theta_UDR (1 / 4) = 3 / 8"
  by (simp add: theta_UDR_def int_float_def int_div_def alpha_UDR_2 fl_val_23 del: One_nat_def)

lemma math_pow_returns_132: "\<not> math_pow_raises (5 / 8) 150"
  by (rule math_pow_raises_unit) (simp_all add: overflows_def)

lemma FRI_cell_UDR_C:
  "FRI_cell_UDR 2 4 4160749569 150 = None"
  by (simp add: FRI_cell_UDR_def int_float_def int_div_def rho_2 F_notebook theta_UDR_2 fl_val_131 math_pow_returns_132 del: One_nat_def)

lemma fl_val_133: "fl (1 / 71453976507497973890929787928576) = 5113437028859903 / 365375409332725729550921208179070754913983135744"
  using fl_eval_small [of "1 / 71453976507497973890929787928576" 158 5113437028859903] by simp

lemma e_proximity_gap_UDR_C:
  "e_proximity_gap_UDR 2 20 299699699481304781882622373227978031104 = 5113437028859903 / 365375409332725729550921208179070754913983135744"
  by (simp add: e_proximity_gap_UDR_def int_float_def int_div_def D_2_20 fl_val_133 del: One_nat_def)

lemma fl_val_134: "fl 279 = 279"
  using fl_eval_small [of "279" 44 4908219906392064] by simp

lemma fl_val_135: "fl (1426648931051912937 / 365375409332725729550921208179070754913983135744) = 5572847386921535 / 1427247692705959881058285969449495136382746624"
  using fl_eval_small [of "1426648931051912937 / 365375409332725729550921208179070754913983135744" 150 5572847386921535] by simp

lemma e_FRI_constant_UDR_C:
  "e_FRI_constant_UDR 274 2 20 299699699481304781882622373227978031104 = 5572847386921535 / 1427247692705959881058285969449495136382746624"
  by (simp add: e_FRI_constant_UDR_def int_float_def int_div_def L_274 e_proximity_gap_UDR_C fl_val_134 fl_val_135 del: One_nat_def)

lemma fl_val_137: "fl (700649232162408535461864791644958065640130970938257885878534141944895541342930300743319094181060791015625 / 2907354897182427562197295231552018137414565442749272241125960796722557152453591693304764202855054262243050086425064711734138406514458624) = 5503284107318959 / 22835963083295358096932575511191922182123945984"
  using fl_eval_small [of "700649232162408535461864791644958065640130970938257885878534141944895541342930300743319094181060791015625 / 2907354897182427562197295231552018137414565442749272241125960796722557152453591693304764202855054262243050086425064711734138406514458624" 154 5503284107318959] by simp

lemma math_pow_val_136: "math_pow (5 / 8) 150 = 5503284107318959 / 22835963083295358096932575511191922182123945984"
  by (simp add: math_pow_def power_divide fl_val_137 del: One_nat_def)

lemma e_FRI_queries_C:
  "e_FRI_queries (3 / 8) 150 = 5503284107318959 / 22835963083295358096932575511191922182123945984"
  by (simp add: e_FRI_queries_def int_float_def int_div_def fl_val_131 math_pow_val_136 del: One_nat_def)

lemma math_sqrt_val_138: "math_sqrt (524289 / 2097152) = 2199025352703 / 4398046511104"
  using math_sqrt_eval [of 4503603922335744 53 "524289 / 2097152"] by (simp add: power2_eq_square)

lemma fl_val_139: "fl (2199021158401 / 4398046511104) = 2199021158401 / 4398046511104"
  using fl_eval_small [of "2199021158401 / 4398046511104" 54 9007190664810496] by simp

lemma first_bound_2_20:
  "fl (1 - math_sqrt (524289 / 2097152)) = 2199021158401 / 4398046511104"
  by (simp add: int_float_def int_div_def math_sqrt_val_138 fl_val_139 del: One_nat_def)

lemma fl_val_140: "fl (2748779069440 / 2199025352703) = 10995105792015 / 8796093022208"
  using fl_eval_small [of "2748779069440 / 2199025352703" 52 5629494165511680] by simp

lemma fl_val_141: "fl (2199012769807 / 8796093022208) = 2199012769807 / 8796093022208"
  using fl_eval_small [of "2199012769807 / 8796093022208" 55 9007156305129472] by simp

lemma fl_val_142: "fl (2199012769807 / 4398046511104) = 2199012769807 / 4398046511104"
  using fl_eval_small [of "2199012769807 / 4398046511104" 54 9007156305129472] by simp

lemma m_plus_divisor_UDR_C:
  "m_plus_divisor (5 / 8) (524289 / 2097152) = 2199012769807 / 4398046511104"
  by (simp add: m_plus_divisor_def int_float_def int_div_def math_sqrt_val_138 fl_val_140 fl_val_141 fl_val_142 del: One_nat_def)

lemma fl_val_143: "fl (4398046511104 / 2199012769807) = 2199033741347 / 1099511627776"
  using fl_eval_small [of "4398046511104 / 2199012769807" 51 4503621102278656] by simp

lemma m_plus_UDR_C:
  "m_plus (5 / 8) (524289 / 2097152) = 3"
  by (simp add: m_plus_def int_float_def int_div_def m_plus_divisor_UDR_C fl_val_143 del: One_nat_def)

lemma fl_val_144: "fl (1 / 6) = 6004799503160661 / 36028797018963968"
  using fl_eval_small [of "1 / 6" 55 6004799503160661] by simp

lemma fl_val_145: "fl (42033596522124629 / 36028797018963968) = 5254199565265579 / 4503599627370496"
  using fl_eval_small [of "42033596522124629 / 36028797018963968" 52 5254199565265579] by simp

lemma fl_val_146: "fl (11554118052180089128340510037 / 19807040628566084398385987584) = 5131059156307 / 8796093022208"
  using fl_eval_small [of "11554118052180089128340510037 / 19807040628566084398385987584" 53 5254204576058368] by simp

lemma fl_val_147: "fl (3665033865901 / 8796093022208) = 3665033865901 / 8796093022208"
  using fl_eval_small [of "3665033865901 / 8796093022208" 54 7505989357365248] by simp

lemma johnson_bound_UDR_C:
  "johnson_bound (3 / 8) (524289 / 2097152) 3 = Inr True"
  by (simp add: johnson_bound_def int_float_def int_div_def math_sqrt_val_138 fl_val_144 fl_val_145 fl_val_146 fl_val_147 del: One_nat_def)

lemma m_plus_cell_UDR_C:
  "m_plus_cell (5 / 8) (3 / 8) (524289 / 2097152) = Inr 3"
  by (simp add: m_plus_cell_def int_float_def int_div_def m_plus_divisor_UDR_C m_plus_UDR_C johnson_bound_UDR_C math_sqrt_val_138 fl_val_139 del: One_nat_def)

lemma fl_val_148: "fl 299699699481304781882622373227973836800 = 299699699481304781882622373227978031104"
  using fl_eval_large [of 75 "299699699481304781882622373227973836800" 7932984991964928] by simp

lemma DEEP_divisor_2_20:
  "DEEP_divisor 2 20 299699699481304781882622373227978031104 = 299699699481304781882622373227978031104"
  by (simp add: DEEP_divisor_def int_float_def int_div_def H_20 D_2_20 fl_val_3 fl_val_61 fl_val_148 del: One_nat_def)

lemma fl_val_149: "fl (137 / 149849849740652390941311186613989015552) = 5472975569951615 / 5986310706507378352962293074805895248510699696029696"
  using fl_eval_small [of "137 / 149849849740652390941311186613989015552" 172 5472975569951615] by simp

lemma e_ALI_int_UDR_C:
  "e_ALI_int 1 274 299699699481304781882622373227978031104 = 5472975569951615 / 5986310706507378352962293074805895248510699696029696"
  by (simp add: e_ALI_int_def int_float_def int_div_def fl_val_62 fl_val_149 del: One_nat_def)

lemma fl_val_150: "fl 5242883 = 5242883"
  using fl_eval_small [of "5242883" 30 5629502755438592] by simp

lemma fl_val_151: "fl (5242883 / 299699699481304781882622373227978031104) = 6391799943490051 / 365375409332725729550921208179070754913983135744"
  using fl_eval_small [of "5242883 / 299699699481304781882622373227978031104" 158 6391799943490051] by simp

lemma e_DEEP_int_UDR_C:
  "e_DEEP_int 1 2 20 299699699481304781882622373227978031104 = 6391799943490051 / 365375409332725729550921208179070754913983135744"
  by (simp add: e_DEEP_int_def int_float_def int_div_def H_20 DEEP_divisor_2_20 fl_val_150 fl_val_151 del: One_nat_def)

lemma fl_val_152: "fl 20971520 = 20971520"
  using fl_eval_small [of "20971520" 28 5629499534213120] by simp

lemma fl_val_153: "fl (5 / 71453976507497973890929787928576) = 3195898143037439 / 45671926166590716193865151022383844364247891968"
  using fl_eval_small [of "5 / 71453976507497973890929787928576" 156 6391796286074878] by simp

lemma e_PLONK_4_20:
  "e_PLONK 4 20 299699699481304781882622373227978031104 = 3195898143037439 / 45671926166590716193865151022383844364247891968"
  by (simp add: e_PLONK_def int_float_def int_div_def H_20 fl_val_152 fl_val_153 del: One_nat_def)

lemma fl_val_154: "fl 62914560 = 62914560"
  using fl_eval_small [of "62914560" 27 8444249301319680] by simp

lemma fl_val_155: "fl (5 / 23817992169165991296976595976192) = 4793847214556159 / 22835963083295358096932575511191922182123945984"
  using fl_eval_small [of "5 / 23817992169165991296976595976192" 154 4793847214556159] by simp

lemma e_PLOOKUP_4_20:
  "e_PLOOKUP 4 20 299699699481304781882622373227978031104 = 4793847214556159 / 22835963083295358096932575511191922182123945984"
  by (simp add: e_PLOOKUP_def int_float_def int_div_def H_20 fl_val_154 fl_val_155 del: One_nat_def)

lemma fl_val_156: "fl (94668842298063519 / 22835963083295358096932575511191922182123945984) = 2958401321814485 / 713623846352979940529142984724747568191373312"
  using fl_eval_small [of "94668842298063519 / 22835963083295358096932575511191922182123945984" 150 5916802643628970] by simp

lemma e_FRI_C:
  "e_FRI (5572847386921535 / 1427247692705959881058285969449495136382746624) (5503284107318959 / 22835963083295358096932575511191922182123945984) = 2958401321814485 / 713623846352979940529142984724747568191373312"
  by (simp add: e_FRI_def int_float_def int_div_def fl_val_156 del: One_nat_def)

lemma fl_val_157: "fl (24816874468359133338495 / 5986310706507378352962293074805895248510699696029696) = 5916803948488029 / 1427247692705959881058285969449495136382746624"
  using fl_eval_small [of "24816874468359133338495 / 5986310706507378352962293074805895248510699696029696" 150 5916803948488029] by simp

lemma fl_val_158: "fl (1521093610756425475 / 365375409332725729550921208179070754913983135744) = 5941771917017287 / 1427247692705959881058285969449495136382746624"
  using fl_eval_small [of "1521093610756425475 / 365375409332725729550921208179070754913983135744" 150 5941771917017287] by simp

lemma fl_val_159: "fl (193332599487590623 / 45671926166590716193865151022383844364247891968) = 6041643733987207 / 1427247692705959881058285969449495136382746624"
  using fl_eval_small [of "193332599487590623 / 45671926166590716193865151022383844364247891968" 150 6041643733987207] by simp

lemma fl_val_160: "fl (101460146958351471 / 22835963083295358096932575511191922182123945984) = 6341259184896967 / 1427247692705959881058285969449495136382746624"
  using fl_eval_small [of "101460146958351471 / 22835963083295358096932575511191922182123945984" 150 6341259184896967] by simp

lemma e_IOP_C:
  "e_IOP (2958401321814485 / 713623846352979940529142984724747568191373312) (5472975569951615 / 5986310706507378352962293074805895248510699696029696) (6391799943490051 / 365375409332725729550921208179070754913983135744) (3195898143037439 / 45671926166590716193865151022383844364247891968) (4793847214556159 / 22835963083295358096932575511191922182123945984) = 6341259184896967 / 1427247692705959881058285969449495136382746624"
  by (simp add: e_IOP_def int_float_def int_div_def fl_val_157 fl_val_158 fl_val_159 fl_val_160 del: One_nat_def)

lemma IOP_cell_C:
  "IOP_cell (5572847386921535 / 1427247692705959881058285969449495136382746624) (5503284107318959 / 22835963083295358096932575511191922182123945984) 1 (5472975569951615 / 5986310706507378352962293074805895248510699696029696) (6391799943490051 / 365375409332725729550921208179070754913983135744) 4 2 20 299699699481304781882622373227978031104 = Inr \<lparr>FRI_constant = 5572847386921535 / 1427247692705959881058285969449495136382746624, FRI_queries = 5503284107318959 / 22835963083295358096932575511191922182123945984, ALI = 5472975569951615 / 5986310706507378352962293074805895248510699696029696, DEEP = 6391799943490051 / 365375409332725729550921208179070754913983135744, PLONK = 3195898143037439 / 45671926166590716193865151022383844364247891968, PLOOKUP = 4793847214556159 / 22835963083295358096932575511191922182123945984, list_size = 1, IOP = 6341259184896967 / 1427247692705959881058285969449495136382746624, log2_IOP = math_log (6341259184896967 / 1427247692705959881058285969449495136382746624) 2\<rparr>"
  by (simp add: IOP_cell_def int_float_def int_div_def DEEP_divisor_2_20 e_PLONK_4_20 e_PLOOKUP_4_20 e_FRI_C e_IOP_C del: One_nat_def)

lemma unique_decoding_C:
  "unique_decoding 2 20 4 4160749569 274 150 = Inr \<lparr>FRI_constant = 5572847386921535 / 1427247692705959881058285969449495136382746624, FRI_queries = 5503284107318959 / 22835963083295358096932575511191922182123945984, ALI = 5472975569951615 / 5986310706507378352962293074805895248510699696029696, DEEP = 6391799943490051 / 365375409332725729550921208179070754913983135744, PLONK = 3195898143037439 / 45671926166590716193865151022383844364247891968, PLOOKUP = 4793847214556159 / 22835963083295358096932575511191922182123945984, list_size = 1, IOP = 6341259184896967 / 1427247692705959881058285969449495136382746624, log2_IOP = math_log (6341259184896967 / 1427247692705959881058285969449495136382746624) 2\<rparr>"
  by (simp add: unique_decoding_def L_plus_UDR_def int_float_def int_div_def constants_cell_2_20 FRI_cell_UDR_C rho_2 F_notebook alpha_UDR_2 theta_UDR_2 rho_plus_2_20 m_plus_cell_UDR_C e_FRI_constant_UDR_C e_FRI_queries_C e_ALI_int_UDR_C e_DEEP_int_UDR_C IOP_cell_C del: One_nat_def)

lemma math_pow_returns_161: "\<not> math_pow_raises (5 / 8) 151"
  by (rule math_pow_raises_unit) (simp_all add: overflows_def)

lemma FRI_cell_UDR_C_151:
  "FRI_cell_UDR 2 4 4160749569 151 = None"
  by (simp add: FRI_cell_UDR_def int_float_def int_div_def rho_2 F_notebook theta_UDR_2 fl_val_131 math_pow_returns_161 del: One_nat_def)

lemma fl_val_163: "fl (3503246160812042677309323958224790328200654854691289429392670709724477706714651503716595470905303955078125 / 23258839177459420497578361852416145099316523541994177929007686373780457219628733546438113622840434097944400691400517693873107252115668992) = 6879105134148699 / 45671926166590716193865151022383844364247891968"
  using fl_eval_small [of "3503246160812042677309323958224790328200654854691289429392670709724477706714651503716595470905303955078125 / 23258839177459420497578361852416145099316523541994177929007686373780457219628733546438113622840434097944400691400517693873107252115668992" 155 6879105134148699] by simp

lemma math_pow_val_162: "math_pow (5 / 8) 151 = 6879105134148699 / 45671926166590716193865151022383844364247891968"
  by (simp add: math_pow_def power_divide fl_val_163 del: One_nat_def)

lemma e_FRI_queries_C_151:
  "e_FRI_queries (3 / 8) 151 = 6879105134148699 / 45671926166590716193865151022383844364247891968"
  by (simp add: e_FRI_queries_def int_float_def int_div_def fl_val_131 math_pow_val_162 del: One_nat_def)

lemma fl_val_164: "fl (185210221515637819 / 45671926166590716193865151022383844364247891968) = 2893909711181841 / 713623846352979940529142984724747568191373312"
  using fl_eval_small [of "185210221515637819 / 45671926166590716193865151022383844364247891968" 150 5787819422363682] by simp

lemma e_FRI_C_151:
  "e_FRI (5572847386921535 / 1427247692705959881058285969449495136382746624) (6879105134148699 / 45671926166590716193865151022383844364247891968) = 2893909711181841 / 713623846352979940529142984724747568191373312"
  by (simp add: e_FRI_def int_float_def int_div_def fl_val_164 del: One_nat_def)

lemma fl_val_165: "fl (24275879627473250818943 / 5986310706507378352962293074805895248510699696029696) = 5787820727222741 / 1427247692705959881058285969449495136382746624"
  using fl_eval_small [of "24275879627473250818943 / 5986310706507378352962293074805895248510699696029696" 150 5787820727222741] by simp

lemma fl_val_166: "fl (1488073906112511747 / 365375409332725729550921208179070754913983135744) = 5812788695751999 / 1427247692705959881058285969449495136382746624"
  using fl_eval_small [of "1488073906112511747 / 365375409332725729550921208179070754913983135744" 150 5812788695751999] by simp

lemma fl_val_167: "fl (189205136407101407 / 45671926166590716193865151022383844364247891968) = 5912660512721919 / 1427247692705959881058285969449495136382746624"
  using fl_eval_small [of "189205136407101407 / 45671926166590716193865151022383844364247891968" 150 5912660512721919] by simp

lemma fl_val_168: "fl (99396415418106863 / 22835963083295358096932575511191922182123945984) = 6212275963631679 / 1427247692705959881058285969449495136382746624"
  using fl_eval_small [of "99396415418106863 / 22835963083295358096932575511191922182123945984" 150 6212275963631679] by simp

lemma e_IOP_C_151:
  "e_IOP (2893909711181841 / 713623846352979940529142984724747568191373312) (5472975569951615 / 5986310706507378352962293074805895248510699696029696) (6391799943490051 / 365375409332725729550921208179070754913983135744) (3195898143037439 / 45671926166590716193865151022383844364247891968) (4793847214556159 / 22835963083295358096932575511191922182123945984) = 6212275963631679 / 1427247692705959881058285969449495136382746624"
  by (simp add: e_IOP_def int_float_def int_div_def fl_val_165 fl_val_166 fl_val_167 fl_val_168 del: One_nat_def)

lemma IOP_cell_C_151:
  "IOP_cell (5572847386921535 / 1427247692705959881058285969449495136382746624) (6879105134148699 / 45671926166590716193865151022383844364247891968) 1 (5472975569951615 / 5986310706507378352962293074805895248510699696029696) (6391799943490051 / 365375409332725729550921208179070754913983135744) 4 2 20 299699699481304781882622373227978031104 = Inr \<lparr>FRI_constant = 5572847386921535 / 1427247692705959881058285969449495136382746624, FRI_queries = 6879105134148699 / 45671926166590716193865151022383844364247891968, ALI = 5472975569951615 / 5986310706507378352962293074805895248510699696029696, DEEP = 6391799943490051 / 365375409332725729550921208179070754913983135744, PLONK = 3195898143037439 / 45671926166590716193865151022383844364247891968, PLOOKUP = 4793847214556159 / 22835963083295358096932575511191922182123945984, list_size = 1, IOP = 6212275963631679 / 1427247692705959881058285969449495136382746624, log2_IOP = math_log (6212275963631679 / 1427247692705959881058285969449495136382746624) 2\<rparr>"
  by (simp add: IOP_cell_def int_float_def int_div_def DEEP_divisor_2_20 e_PLONK_4_20 e_PLOOKUP_4_20 e_FRI_C_151 e_IOP_C_151 del: One_nat_def)

lemma unique_decoding_C_151:
  "unique_decoding 2 20 4 4160749569 274 151 = Inr \<lparr>FRI_constant = 5572847386921535 / 1427247692705959881058285969449495136382746624, FRI_queries = 6879105134148699 / 45671926166590716193865151022383844364247891968, ALI = 5472975569951615 / 5986310706507378352962293074805895248510699696029696, DEEP = 6391799943490051 / 365375409332725729550921208179070754913983135744, PLONK = 3195898143037439 / 45671926166590716193865151022383844364247891968, PLOOKUP = 4793847214556159 / 22835963083295358096932575511191922182123945984, list_size = 1, IOP = 6212275963631679 / 1427247692705959881058285969449495136382746624, log2_IOP = math_log (6212275963631679 / 1427247692705959881058285969449495136382746624) 2\<rparr>"
  by (simp add: unique_decoding_def L_plus_UDR_def int_float_def int_div_def constants_cell_2_20 FRI_cell_UDR_C_151 rho_2 F_notebook alpha_UDR_2 theta_UDR_2 rho_plus_2_20 m_plus_cell_UDR_C e_FRI_constant_UDR_C e_FRI_queries_C_151 e_ALI_int_UDR_C e_DEEP_int_UDR_C IOP_cell_C_151 del: One_nat_def)

lemma fl_val_169: "fl (1 / 285815906029991895563719151714304) = 5113437028859903 / 1461501637330902918203684832716283019655932542976"
  using fl_eval_small [of "1 / 285815906029991895563719151714304" 160 5113437028859903] by simp

lemma e_proximity_gap_UDR_C_18:
  "e_proximity_gap_UDR 2 18 299699699481304781882622373227978031104 = 5113437028859903 / 1461501637330902918203684832716283019655932542976"
  by (simp add: e_proximity_gap_UDR_def int_float_def int_div_def D_2_18 fl_val_169 del: One_nat_def)

lemma fl_val_170: "fl (1426648931051912937 / 1461501637330902918203684832716283019655932542976) = 5572847386921535 / 5708990770823839524233143877797980545530986496"
  using fl_eval_small [of "1426648931051912937 / 1461501637330902918203684832716283019655932542976" 152 5572847386921535] by simp

lemma e_FRI_constant_UDR_C_18:
  "e_FRI_constant_UDR 274 2 18 299699699481304781882622373227978031104 = 5572847386921535 / 5708990770823839524233143877797980545530986496"
  by (simp add: e_FRI_constant_UDR_def int_float_def int_div_def L_274 e_proximity_gap_UDR_C_18 fl_val_134 fl_val_170 del: One_nat_def)

lemma fl_val_171: "fl (171798691840 / 137439477759) = 5629478059499519 / 4503599627370496"
  using fl_eval_small [of "171798691840 / 137439477759" 52 5629478059499519] by simp

lemma fl_val_172: "fl (1125878432129023 / 4503599627370496) = 1125878432129023 / 4503599627370496"
  using fl_eval_small [of "1125878432129023 / 4503599627370496" 55 9007027457032184] by simp

lemma fl_val_173: "fl (1125878432129023 / 2251799813685248) = 1125878432129023 / 2251799813685248"
  using fl_eval_small [of "1125878432129023 / 2251799813685248" 54 9007027457032184] by simp

lemma m_plus_divisor_UDR_C_18:
  "m_plus_divisor (5 / 8) (131073 / 524288) = 1125878432129023 / 2251799813685248"
  by (simp add: m_plus_divisor_def int_float_def int_div_def math_sqrt_val_44 fl_val_171 fl_val_172 fl_val_173 del: One_nat_def)

lemma fl_val_174: "fl (2251799813685248 / 1125878432129023) = 4503685527863313 / 2251799813685248"
  using fl_eval_small [of "2251799813685248 / 1125878432129023" 51 4503685527863313] by simp

lemma m_plus_UDR_C_18:
  "m_plus (5 / 8) (131073 / 524288) = 3"
  by (simp add: m_plus_def int_float_def int_div_def m_plus_divisor_UDR_C_18 fl_val_174 del: One_nat_def)

lemma fl_val_175: "fl (722134444291666013898757461 / 1237940039285380274899124224) = 320692114771 / 549755813888"
  using fl_eval_small [of "722134444291666013898757461 / 1237940039285380274899124224" 53 5254219608408064] by simp

lemma fl_val_176: "fl (229063699117 / 549755813888) = 229063699117 / 549755813888"
  using fl_eval_small [of "229063699117 / 549755813888" 54 7505959292665856] by simp

lemma johnson_bound_UDR_C_18:
  "johnson_bound (3 / 8) (131073 / 524288) 3 = Inr True"
  by (simp add: johnson_bound_def int_float_def int_div_def math_sqrt_val_44 fl_val_144 fl_val_145 fl_val_175 fl_val_176 del: One_nat_def)

lemma m_plus_cell_UDR_C_18:
  "m_plus_cell (5 / 8) (3 / 8) (131073 / 524288) = Inr 3"
  by (simp add: m_plus_cell_def int_float_def int_div_def m_plus_divisor_UDR_C_18 m_plus_UDR_C_18 johnson_bound_UDR_C_18 math_sqrt_val_44 fl_val_45 del: One_nat_def)

lemma fl_val_177: "fl (1310723 / 299699699481304781882622373227978031104) = 6391810915735567 / 1461501637330902918203684832716283019655932542976"
  using fl_eval_small [of "1310723 / 299699699481304781882622373227978031104" 160 6391810915735567] by simp

lemma e_DEEP_int_UDR_C_18:
  "e_DEEP_int 1 2 18 299699699481304781882622373227978031104 = 6391810915735567 / 1461501637330902918203684832716283019655932542976"
  by (simp add: e_DEEP_int_def int_float_def int_div_def H_18 DEEP_divisor_2_18 fl_val_65 fl_val_177 del: One_nat_def)

lemma fl_val_178: "fl (27794673655005099 / 22835963083295358096932575511191922182123945984) = 6948668413751275 / 5708990770823839524233143877797980545530986496"
  using fl_eval_small [of "27794673655005099 / 22835963083295358096932575511191922182123945984" 152 6948668413751275] by simp

lemma e_FRI_C_18:
  "e_FRI (5572847386921535 / 5708990770823839524233143877797980545530986496) (5503284107318959 / 22835963083295358096932575511191922182123945984) = 6948668413751275 / 5708990770823839524233143877797980545530986496"
  by (simp add: e_FRI_def int_float_def int_div_def fl_val_178 del: One_nat_def)

lemma fl_val_179: "fl (7286212403593226886015 / 5986310706507378352962293074805895248510699696029696) = 3474336816593755 / 2854495385411919762116571938898990272765493248"
  using fl_eval_small [of "7286212403593226886015 / 5986310706507378352962293074805895248510699696029696" 152 6948673633187510] by simp

lemma fl_val_180: "fl (1785252261011738127 / 1461501637330902918203684832716283019655932542976) = 3486820822288551 / 2854495385411919762116571938898990272765493248"
  using fl_eval_small [of "1785252261011738127 / 1461501637330902918203684832716283019655932542976" 152 6973641644577102] by simp

lemma fl_val_181: "fl (226352430769504703 / 182687704666362864775460604089535377456991567872) = 3536756730773511 / 2854495385411919762116571938898990272765493248"
  using fl_eval_small [of "226352430769504703 / 182687704666362864775460604089535377456991567872" 152 7073513461547022] by simp

lemma fl_val_182: "fl (117970062599308511 / 91343852333181432387730302044767688728495783936) = 3686564456228391 / 2854495385411919762116571938898990272765493248"
  using fl_eval_small [of "117970062599308511 / 91343852333181432387730302044767688728495783936" 152 7373128912456782] by simp

lemma e_IOP_C_18:
  "e_IOP (6948668413751275 / 5708990770823839524233143877797980545530986496) (5472975569951615 / 5986310706507378352962293074805895248510699696029696) (6391810915735567 / 1461501637330902918203684832716283019655932542976) (3195898143037439 / 182687704666362864775460604089535377456991567872) (4793847214556159 / 91343852333181432387730302044767688728495783936) = 3686564456228391 / 2854495385411919762116571938898990272765493248"
  by (simp add: e_IOP_def int_float_def int_div_def fl_val_179 fl_val_180 fl_val_181 fl_val_182 del: One_nat_def)

lemma IOP_cell_C_18:
  "IOP_cell (5572847386921535 / 5708990770823839524233143877797980545530986496) (5503284107318959 / 22835963083295358096932575511191922182123945984) 1 (5472975569951615 / 5986310706507378352962293074805895248510699696029696) (6391810915735567 / 1461501637330902918203684832716283019655932542976) 4 2 18 299699699481304781882622373227978031104 = Inr \<lparr>FRI_constant = 5572847386921535 / 5708990770823839524233143877797980545530986496, FRI_queries = 5503284107318959 / 22835963083295358096932575511191922182123945984, ALI = 5472975569951615 / 5986310706507378352962293074805895248510699696029696, DEEP = 6391810915735567 / 1461501637330902918203684832716283019655932542976, PLONK = 3195898143037439 / 182687704666362864775460604089535377456991567872, PLOOKUP = 4793847214556159 / 91343852333181432387730302044767688728495783936, list_size = 1, IOP = 3686564456228391 / 2854495385411919762116571938898990272765493248, log2_IOP = math_log (3686564456228391 / 2854495385411919762116571938898990272765493248) 2\<rparr>"
  by (simp add: IOP_cell_def int_float_def int_div_def DEEP_divisor_2_18 e_PLONK_4_18 e_PLOOKUP_4_18 e_FRI_C_18 e_IOP_C_18 del: One_nat_def)

lemma unique_decoding_C_18:
  "unique_decoding 2 18 4 4160749569 274 150 = Inr \<lparr>FRI_constant = 5572847386921535 / 5708990770823839524233143877797980545530986496, FRI_queries = 5503284107318959 / 22835963083295358096932575511191922182123945984, ALI = 5472975569951615 / 5986310706507378352962293074805895248510699696029696, DEEP = 6391810915735567 / 1461501637330902918203684832716283019655932542976, PLONK = 3195898143037439 / 182687704666362864775460604089535377456991567872, PLOOKUP = 4793847214556159 / 91343852333181432387730302044767688728495783936, list_size = 1, IOP = 3686564456228391 / 2854495385411919762116571938898990272765493248, log2_IOP = math_log (3686564456228391 / 2854495385411919762116571938898990272765493248) 2\<rparr>"
  by (simp add: unique_decoding_def L_plus_UDR_def int_float_def int_div_def constants_cell_2_18 FRI_cell_UDR_C rho_2 F_notebook alpha_UDR_2 theta_UDR_2 rho_plus_2_18 m_plus_cell_UDR_C_18 e_FRI_constant_UDR_C_18 e_FRI_queries_C e_ALI_int_UDR_C e_DEEP_int_UDR_C_18 IOP_cell_C_18 del: One_nat_def)

lemma math_pow_returns_183: "\<not> math_pow_raises (5 / 8) 1614"
  by (rule math_pow_raises_unit) (simp_all add: overflows_def)

lemma FRI_cell_UDR_C_1614:
  "FRI_cell_UDR 2 4 4160749569 1614 = None"
  by (simp add: FRI_cell_UDR_def int_float_def int_div_def rho_2 F_notebook theta_UDR_2 fl_val_131 math_pow_returns_183 del: One_nat_def)

lemma math_pow_val_184: "math_pow (5 / 8) 1614 = 0"
  by (rule math_pow_underflow [where a = 3 and b = 2 and c = 538]) (simp_all add: power_divide)

lemma e_FRI_queries_C_1614:
  "e_FRI_queries (3 / 8) 1614 = 0"
  by (simp add: e_FRI_queries_def int_float_def int_div_def fl_val_131 math_pow_val_184 del: One_nat_def)

lemma fl_val_185: "fl (5572847386921535 / 1427247692705959881058285969449495136382746624) = 5572847386921535 / 1427247692705959881058285969449495136382746624"
  using fl_eval_small [of "5572847386921535 / 1427247692705959881058285969449495136382746624" 150 5572847386921535] by simp

lemma e_FRI_C_1614:
  "e_FRI (5572847386921535 / 1427247692705959881058285969449495136382746624) 0 = 5572847386921535 / 1427247692705959881058285969449495136382746624"
  by (simp add: e_FRI_def int_float_def int_div_def fl_val_185 del: One_nat_def)

lemma fl_val_186: "fl (23374221559330111888255 / 5986310706507378352962293074805895248510699696029696) = 2786424345890297 / 713623846352979940529142984724747568191373312"
  using fl_eval_small [of "23374221559330111888255 / 5986310706507378352962293074805895248510699696029696" 150 5572848691780594] by simp

lemma fl_val_187: "fl (1433041065039322115 / 365375409332725729550921208179070754913983135744) = 1399454165077463 / 356811923176489970264571492362373784095686656"
  using fl_eval_small [of "1433041065039322115 / 365375409332725729550921208179070754913983135744" 150 5597816660309852] by simp

lemma fl_val_188: "fl (182326031272952703 / 45671926166590716193865151022383844364247891968) = 1424422119319943 / 356811923176489970264571492362373784095686656"
  using fl_eval_small [of "182326031272952703 / 45671926166590716193865151022383844364247891968" 150 5697688477279772] by simp

lemma fl_val_189: "fl (95956862851032511 / 22835963083295358096932575511191922182123945984) = 1499325982047383 / 356811923176489970264571492362373784095686656"
  using fl_eval_small [of "95956862851032511 / 22835963083295358096932575511191922182123945984" 150 5997303928189532] by simp

lemma e_IOP_C_1614:
  "e_IOP (5572847386921535 / 1427247692705959881058285969449495136382746624) (5472975569951615 / 5986310706507378352962293074805895248510699696029696) (6391799943490051 / 365375409332725729550921208179070754913983135744) (3195898143037439 / 45671926166590716193865151022383844364247891968) (4793847214556159 / 22835963083295358096932575511191922182123945984) = 1499325982047383 / 356811923176489970264571492362373784095686656"
  by (simp add: e_IOP_def int_float_def int_div_def fl_val_186 fl_val_187 fl_val_188 fl_val_189 del: One_nat_def)

lemma IOP_cell_C_1614:
  "IOP_cell (5572847386921535 / 1427247692705959881058285969449495136382746624) 0 1 (5472975569951615 / 5986310706507378352962293074805895248510699696029696) (6391799943490051 / 365375409332725729550921208179070754913983135744) 4 2 20 299699699481304781882622373227978031104 = Inr \<lparr>FRI_constant = 5572847386921535 / 1427247692705959881058285969449495136382746624, FRI_queries = 0, ALI = 5472975569951615 / 5986310706507378352962293074805895248510699696029696, DEEP = 6391799943490051 / 365375409332725729550921208179070754913983135744, PLONK = 3195898143037439 / 45671926166590716193865151022383844364247891968, PLOOKUP = 4793847214556159 / 22835963083295358096932575511191922182123945984, list_size = 1, IOP = 1499325982047383 / 356811923176489970264571492362373784095686656, log2_IOP = math_log (1499325982047383 / 356811923176489970264571492362373784095686656) 2\<rparr>"
  by (simp add: IOP_cell_def int_float_def int_div_def DEEP_divisor_2_20 e_PLONK_4_20 e_PLOOKUP_4_20 e_FRI_C_1614 e_IOP_C_1614 del: One_nat_def)

lemma unique_decoding_C_1614:
  "unique_decoding 2 20 4 4160749569 274 1614 = Inr \<lparr>FRI_constant = 5572847386921535 / 1427247692705959881058285969449495136382746624, FRI_queries = 0, ALI = 5472975569951615 / 5986310706507378352962293074805895248510699696029696, DEEP = 6391799943490051 / 365375409332725729550921208179070754913983135744, PLONK = 3195898143037439 / 45671926166590716193865151022383844364247891968, PLOOKUP = 4793847214556159 / 22835963083295358096932575511191922182123945984, list_size = 1, IOP = 1499325982047383 / 356811923176489970264571492362373784095686656, log2_IOP = math_log (1499325982047383 / 356811923176489970264571492362373784095686656) 2\<rparr>"
  by (simp add: unique_decoding_def L_plus_UDR_def int_float_def int_div_def constants_cell_2_20 FRI_cell_UDR_C_1614 rho_2 F_notebook alpha_UDR_2 theta_UDR_2 rho_plus_2_20 m_plus_cell_UDR_C e_FRI_constant_UDR_C e_FRI_queries_C_1614 e_ALI_int_UDR_C e_DEEP_int_UDR_C IOP_cell_C_1614 del: One_nat_def)

lemma math_pow_returns_190: "\<not> math_pow_raises (5 / 8) 1615"
  by (rule math_pow_raises_unit) (simp_all add: overflows_def)

lemma FRI_cell_UDR_C_1615:
  "FRI_cell_UDR 2 4 4160749569 1615 = None"
  by (simp add: FRI_cell_UDR_def int_float_def int_div_def rho_2 F_notebook theta_UDR_2 fl_val_131 math_pow_returns_190 del: One_nat_def)

lemma math_pow_val_191: "math_pow (5 / 8) 1615 = 0"
  by (rule math_pow_underflow [where a = 3 and b = 2 and c = 538]) (simp_all add: power_divide)

lemma e_FRI_queries_C_1615:
  "e_FRI_queries (3 / 8) 1615 = 0"
  by (simp add: e_FRI_queries_def int_float_def int_div_def fl_val_131 math_pow_val_191 del: One_nat_def)

lemma unique_decoding_C_1615:
  "unique_decoding 2 20 4 4160749569 274 1615 = Inr \<lparr>FRI_constant = 5572847386921535 / 1427247692705959881058285969449495136382746624, FRI_queries = 0, ALI = 5472975569951615 / 5986310706507378352962293074805895248510699696029696, DEEP = 6391799943490051 / 365375409332725729550921208179070754913983135744, PLONK = 3195898143037439 / 45671926166590716193865151022383844364247891968, PLOOKUP = 4793847214556159 / 22835963083295358096932575511191922182123945984, list_size = 1, IOP = 1499325982047383 / 356811923176489970264571492362373784095686656, log2_IOP = math_log (1499325982047383 / 356811923176489970264571492362373784095686656) 2\<rparr>"
  by (simp add: unique_decoding_def L_plus_UDR_def int_float_def int_div_def constants_cell_2_20 FRI_cell_UDR_C_1615 rho_2 F_notebook alpha_UDR_2 theta_UDR_2 rho_plus_2_20 m_plus_cell_UDR_C e_FRI_constant_UDR_C e_FRI_queries_C_1615 e_ALI_int_UDR_C e_DEEP_int_UDR_C IOP_cell_C_1614 del: One_nat_def)

lemma fl_val_192: "fl (1 / 2097152) = 1 / 2097152"
  using fl_eval_small [of "1 / 2097152" 73 4503599627370496] by simp

lemma fl_val_193: "fl (2097153 / 2097152) = 2097153 / 2097152"
  using fl_eval_small [of "2097153 / 2097152" 52 4503601774854144] by simp

lemma fl_val_194: "fl (2097153 / 4194304) = 2097153 / 4194304"
  using fl_eval_small [of "2097153 / 4194304" 53 4503601774854144] by simp

lemma alpha_M:
  "alpha 1048576 (1 / 4) = 2097153 / 4194304"
  by (simp add: alpha_def int_float_def int_div_def fl_val_192 fl_val_193 math_sqrt_val_12 fl_val_194 del: One_nat_def)

lemma fl_val_195: "fl (2097151 / 4194304) = 2097151 / 4194304"
  using fl_eval_small [of "2097151 / 4194304" 54 9007194959773696] by simp

lemma theta_M:
  "theta 1048576 (1 / 4) = 2097151 / 4194304"
  by (simp add: theta_def int_float_def int_div_def alpha_M fl_val_195 del: One_nat_def)

lemma m_plus_cell_M:
  "m_plus_cell (2097153 / 4194304) (2097151 / 4194304) (131073 / 524288) = Inl (AssertionError [])"
  by (simp add: m_plus_cell_def int_float_def int_div_def math_sqrt_val_44 fl_val_45 del: One_nat_def)

lemma fl_val_196: "fl (2097153 / 2) = 2097153 / 2"
  using fl_eval_small [of "2097153 / 2" 32 4503601774854144] by simp

lemma math_pow_returns_197: "\<not> math_pow_raises (2097153 / 2) 7"
  by (simp add: math_pow_raises_def overflows_def power_divide)

lemma math_pow_returns_198: "\<not> math_pow_raises (2097153 / 4194304) 50"
  by (rule math_pow_raises_unit) (simp_all add: overflows_def)

lemma FRI_cell_M:
  "FRI_cell 2 18 4 4160749569 50 1048576 = None"
  by (simp add: FRI_cell_def int_float_def int_div_def rho_2 D_2_18 F_notebook theta_M fl_val_3 fl_val_13 fl_val_196 math_pow_returns_197 fl_val_20 math_pow_float_val_21 fl_val_23 math_pow_returns_55 math_sqrt_val_12 fl_val_36 fl_val_194 math_pow_returns_198 del: One_nat_def)

lemma provable_M:
  "provable 2 18 4 4160749569 274 50 1048576 = Inl (AssertionError [])"
  by (simp add: provable_def int_float_def int_div_def constants_cell_2_18 FRI_cell_M rho_2 alpha_M theta_M rho_plus_2_18 m_plus_cell_M del: One_nat_def)



















lemma rho_3:
  "rho 3 = 1 / 8"
  by (simp add: rho_def int_float_def int_div_def fl_val_22 del: One_nat_def)

lemma H_19:
  "H 19 = 524288"
  by (simp add: H_def int_float_def int_div_def del: One_nat_def)



lemma constants_cell_3_19:
  "constants_cell 3 19 4 4160749569 = None"
  by (simp add: constants_cell_def overflows_def int_float_def int_div_def H_19 rho_3 F_returns del: One_nat_def)






























lemma rho_1:
  "rho 1 = 1 / 2"
  by (simp add: rho_def int_float_def int_div_def fl_val_13 del: One_nat_def)

lemma H_1:
  "H 1 = 2"
  by (simp add: H_def int_float_def int_div_def del: One_nat_def)

lemma fl_val_232: "fl 2 = 2"
  using fl_eval_small [of "2" 51 4503599627370496] by simp

lemma fl_val_233: "fl 4 = 4"
  using fl_eval_small [of "4" 50 4503599627370496] by simp

lemma D_1_1:
  "D 1 1 = 4"
  by (simp add: D_def int_float_def int_div_def H_1 rho_1 fl_val_232 fl_val_233 del: One_nat_def)

lemma constants_cell_1_1:
  "constants_cell 1 1 4 4160749569 = None"
  by (simp add: constants_cell_def overflows_def int_float_def int_div_def H_1 rho_1 F_returns del: One_nat_def)

lemma fl_val_234: "fl 1 = 1"
  using fl_eval_small [of "1" 52 4503599627370496] by simp

lemma rho_plus_1_1:
  "rho_plus 1 1 = 1"
  by (simp add: rho_plus_def int_float_def int_div_def H_1 D_1_1 fl_val_233 fl_val_234 del: One_nat_def)

lemma alpha_UDR_1:
  "alpha_UDR (1 / 2) = 3 / 4"
  by (simp add: alpha_UDR_def int_float_def int_div_def fl_val_13 fl_val_1 fl_val_88 del: One_nat_def)

lemma theta_UDR_1:
  "theta_UDR (1 / 2) = 1 / 4"
  by (simp add: theta_UDR_def int_float_def int_div_def alpha_UDR_1 fl_val_1 del: One_nat_def)

lemma math_pow_returns_235: "\<not> math_pow_raises (3 / 4) 150"
  by (rule math_pow_raises_unit) (simp_all add: overflows_def)

lemma FRI_cell_UDR_W:
  "FRI_cell_UDR 1 4 4160749569 150 = None"
  by (simp add: FRI_cell_UDR_def int_float_def int_div_def rho_1 F_notebook theta_UDR_1 fl_val_88 math_pow_returns_235 del: One_nat_def)

lemma math_sqrt_val_236: "math_sqrt 1 = 1"
  using math_sqrt_square [of "1" "1"] by (simp add: fl_val_234)

lemma first_bound_1_1:
  "fl (1 - math_sqrt 1) = 0"
  by (simp add: int_float_def int_div_def math_sqrt_val_236 del: One_nat_def)

lemma m_plus_cell_UDR_W:
  "m_plus_cell (3 / 4) (1 / 4) 1 = Inl (AssertionError [])"
  by (simp add: m_plus_cell_def int_float_def int_div_def math_sqrt_val_236 del: One_nat_def)

lemma unique_decoding_W:
  "unique_decoding 1 1 4 4160749569 274 150 = Inl (AssertionError [])"
  by (simp add: unique_decoding_def int_float_def int_div_def constants_cell_1_1 FRI_cell_UDR_W rho_1 alpha_UDR_1 theta_UDR_1 rho_plus_1_1 m_plus_cell_UDR_W del: One_nat_def)

subsection \<open>Logarithms of the error terms\<close>

lemma np_log2_FRI_constant_A:
  "\<bar>np_log2 (286465564298947 / 316912650057057350374175801344) - (- 49.975)\<bar> \<le> 0.0005"
proof (rule np_log2_within [where d' = "49 / 100000"])
  show "\<bar>log 2 (286465564298947 / 316912650057057350374175801344) - (- 49.975)\<bar> \<le> 49 / 100000"
    by (rule log2_within [where w = 64 and n = 20 and N = 50 and a = 18773807221895790592 and b = 18773807221895790592,
          OF order_refl order_refl])
       (simp_all add: log2_lower_numeral log2_upper_numeral Let_def power_divide)
qed simp_all

lemma np_log2_FRI_queries_A:
  "\<bar>np_log2 (5244424783945251 / 1267650600228229401496703205376) - (- 47.780)\<bar> \<le> 0.0005"
proof (rule np_log2_within [where d' = "49 / 100000"])
  show "\<bar>log 2 (5244424783945251 / 1267650600228229401496703205376) - (- 47.780)\<bar> \<le> 49 / 100000"
    by (rule log2_within [where w = 64 and n = 20 and N = 48 and a = 21481163915039748096 and b = 21481163915039748096,
          OF order_refl order_refl])
       (simp_all add: log2_lower_numeral log2_upper_numeral Let_def power_divide)
qed simp_all

lemma np_log2_ALI_A:
  "\<bar>np_log2 (5986044194731711 / 187072209578355573530071658587684226515959365500928) - (- 114.589)\<bar> \<le> 0.0005"
proof (rule np_log2_within [where d' = "49 / 100000"])
  show "\<bar>log 2 (5986044194731711 / 187072209578355573530071658587684226515959365500928) - (- 114.589)\<bar> \<le> 49 / 100000"
    by (rule log2_within [where w = 64 and n = 20 and N = 115 and a = 24518837021621088256 and b = 24518837021621088256,
          OF order_refl order_refl])
       (simp_all add: log2_lower_numeral log2_upper_numeral Let_def power_divide)
qed simp_all

lemma np_log2_DEEP_A:
  "\<bar>np_log2 (3495508260262519 / 22835963083295358096932575511191922182123945984) - (- 102.366)\<bar> \<le> 0.0005"
proof (rule np_log2_within [where d' = "49 / 100000"])
  show "\<bar>log 2 (3495508260262519 / 22835963083295358096932575511191922182123945984) - (- 102.366)\<bar> \<le> 49 / 100000"
    by (rule log2_within [where w = 64 and n = 20 and N = 103 and a = 28635203668070555648 and b = 28635203668070555648,
          OF order_refl order_refl])
       (simp_all add: log2_lower_numeral log2_upper_numeral Let_def power_divide)
qed simp_all

lemma np_log2_PLONK_A:
  "\<bar>np_log2 (3195898143037439 / 182687704666362864775460604089535377456991567872) - (- 105.495)\<bar> \<le> 0.0005"
proof (rule np_log2_within [where d' = "49 / 100000"])
  show "\<bar>log 2 (3195898143037439 / 182687704666362864775460604089535377456991567872) - (- 105.495)\<bar> \<le> 49 / 100000"
    by (rule log2_within [where w = 64 and n = 20 and N = 106 and a = 26180797587762700288 and b = 26180797587762700288,
          OF order_refl order_refl])
       (simp_all add: log2_lower_numeral log2_upper_numeral Let_def power_divide)
qed simp_all

lemma np_log2_PLOOKUP_A:
  "\<bar>np_log2 (4793847214556159 / 91343852333181432387730302044767688728495783936) - (- 103.910)\<bar> \<le> 0.0005"
proof (rule np_log2_within [where d' = "49 / 100000"])
  show "\<bar>log 2 (4793847214556159 / 91343852333181432387730302044767688728495783936) - (- 103.910)\<bar> \<le> 49 / 100000"
    by (rule log2_within [where w = 64 and n = 20 and N = 104 and a = 19635598190822027264 and b = 19635598190822027264,
          OF order_refl order_refl])
       (simp_all add: log2_lower_numeral log2_upper_numeral Let_def power_divide)
qed simp_all

lemma math_log_IOP_A:
  "\<bar>math_log (6390287041141039 / 1267650600228229401496703205376) 2 - (- 47.495)\<bar> \<le> 0.01"
proof (rule math_log_2_within [where d' = "49 / 5000"])
  show "\<bar>log 2 (6390287041141039 / 1267650600228229401496703205376) - (- 47.495)\<bar> \<le> 49 / 5000"
    by (rule log2_within [where w = 64 and n = 20 and N = 48 and a = 26174615720513695744 and b = 26174615720513695744,
          OF order_refl order_refl])
       (simp_all add: log2_lower_numeral log2_upper_numeral Let_def power_divide)
qed simp_all

lemma np_log2_FRI_constant_B:
  "\<bar>np_log2 (940987090804223 / 43556142965880123323311949751266331066368) - (- 85.259)\<bar> \<le> 0.0005"
proof (rule np_log2_within [where d' = "49 / 100000"])
  show "\<bar>log 2 (940987090804223 / 43556142965880123323311949751266331066368) - (- 85.259)\<bar> \<le> 49 / 100000"
    by (rule log2_within [where w = 64 and n = 20 and N = 86 and a = 30834264991472779264 and b = 30834264991472779264,
          OF order_refl order_refl])
       (simp_all add: log2_lower_numeral log2_upper_numeral Let_def power_divide)
qed simp_all

lemma np_log2_FRI_queries_B:
  "\<bar>np_log2 (2501509390945937 / 348449143727040986586495598010130648530944) - (- 86.848)\<bar> \<le> 0.0005"
proof (rule np_log2_within [where d' = "49 / 100000"])
  show "\<bar>log 2 (2501509390945937 / 348449143727040986586495598010130648530944) - (- 86.848)\<bar> \<le> 49 / 100000"
    by (rule log2_within [where w = 64 and n = 20 and N = 87 and a = 20492364930629115904 and b = 20492364930629115904,
          OF order_refl order_refl])
       (simp_all add: log2_lower_numeral log2_upper_numeral Let_def power_divide)
qed simp_all

lemma np_log2_ALI_B:
  "\<bar>np_log2 (1710370190116513 / 89202980794122492566142873090593446023921664) - (- 95.397)\<bar> \<le> 0.0005"
proof (rule np_log2_within [where d' = "49 / 100000"])
  show "\<bar>log 2 (1710370190116513 / 89202980794122492566142873090593446023921664) - (- 95.397)\<bar> \<le> 49 / 100000"
    by (rule log2_within [where w = 64 and n = 20 and N = 96 and a = 28022705194868948992 and b = 28022705194868948992,
          OF order_refl order_refl])
       (simp_all add: log2_lower_numeral log2_upper_numeral Let_def power_divide)
qed simp_all

lemma np_log2_DEEP_B:
  "\<bar>np_log2 (7990068810946361 / 87112285931760246646623899502532662132736) - (- 83.173)\<bar> \<le> 0.0005"
proof (rule np_log2_within [where d' = "49 / 100000"])
  show "\<bar>log 2 (7990068810946361 / 87112285931760246646623899502532662132736) - (- 83.173)\<bar> \<le> 49 / 100000"
    by (rule log2_within [where w = 64 and n = 20 and N = 84 and a = 32727321849636294656 and b = 32727321849636294656,
          OF order_refl order_refl])
       (simp_all add: log2_lower_numeral log2_upper_numeral Let_def power_divide)
qed simp_all

lemma math_log_IOP_B:
  "\<bar>math_log (5249548359686015 / 43556142965880123323311949751266331066368) 2 - (- 82.779)\<bar> \<le> 0.0005"
proof (rule math_log_2_within [where d' = "49 / 100000"])
  show "\<bar>log 2 (5249548359686015 / 43556142965880123323311949751266331066368) - (- 82.779)\<bar> \<le> 49 / 100000"
    by (rule log2_within [where w = 64 and n = 20 and N = 83 and a = 21502150081273917440 and b = 21502150081273917440,
          OF order_refl order_refl])
       (simp_all add: log2_lower_numeral log2_upper_numeral Let_def power_divide)
qed simp_all

lemma math_log_IOP_C:
  "\<bar>math_log (6341259184896967 / 1427247692705959881058285969449495136382746624) 2 - (- 97.506)\<bar> \<le> 0.0005"
proof (rule math_log_2_within [where d' = "49 / 100000"])
  show "\<bar>log 2 (6341259184896967 / 1427247692705959881058285969449495136382746624) - (- 97.506)\<bar> \<le> 49 / 100000"
    by (rule log2_within [where w = 64 and n = 20 and N = 98 and a = 25973797621337976832 and b = 25973797621337976832,
          OF order_refl order_refl])
       (simp_all add: log2_lower_numeral log2_upper_numeral Let_def power_divide)
qed simp_all

lemma math_log_IOP_C_18:
  "\<bar>math_log (3686564456228391 / 2854495385411919762116571938898990272765493248) 2 - (- 99.289)\<bar> \<le> 0.0005"
proof (rule math_log_2_within [where d' = "49 / 100000"])
  show "\<bar>log 2 (3686564456228391 / 2854495385411919762116571938898990272765493248) - (- 99.289)\<bar> \<le> 49 / 100000"
    by (rule log2_within [where w = 64 and n = 20 and N = 100 and a = 30200336025422979072 and b = 30200336025422979072,
          OF order_refl order_refl])
       (simp_all add: log2_lower_numeral log2_upper_numeral Let_def power_divide)
qed simp_all

subsection \<open>The field size\<close>

text \<open>
  C3 (as the code has it). The field size is a float, the value that \<^verbatim>\<open>math.pow(p, e)\<close>
  returns, and not the integer \<open>p ^ e\<close>. When \<open>p\<close>, \<open>e\<close> and \<open>p ^ e\<close> are below \<open>2 ^ 53\<close> the
  line raises nothing and \<open>F\<close> is \<open>p ^ e\<close> itself. At the constants of the notebooks,
  \<open>p = 2 ^ 32 - 2 ^ 27 + 1\<close> and \<open>e = 4\<close>, the line raises nothing and \<open>F\<close> is
  299699699481304781882622373227978031104, which is \<open>p ^ 4 - 103871021822316118017\<close> and
  lies within \<open>p ^ 4 / 2 ^ 53\<close> of \<open>p ^ 4\<close>.
\<close>

theorem F_rounded_power:
  "(p < 2 ^ 53 \<and> e < 2 ^ 53 \<and> p ^ e < 2 ^ 53 \<longrightarrow> \<not> F_raises p e \<and> F p e = real (p ^ e))
   \<and> \<not> F_raises (2 ^ 32 - 2 ^ 27 + 1) 4
   \<and> F (2 ^ 32 - 2 ^ 27 + 1) 4 = 299699699481304781882622373227978031104
   \<and> real ((2 ^ 32 - 2 ^ 27 + 1) ^ 4) - F (2 ^ 32 - 2 ^ 27 + 1) 4 = 103871021822316118017
   \<and> \<bar>F (2 ^ 32 - 2 ^ 27 + 1) 4 - real ((2 ^ 32 - 2 ^ 27 + 1) ^ 4)\<bar> * 2 ^ 53
        \<le> real ((2 ^ 32 - 2 ^ 27 + 1) ^ 4)"
proof (intro conjI impI)
  assume a: "p < 2 ^ 53 \<and> e < 2 ^ 53 \<and> p ^ e < 2 ^ 53"
  then have p: "p < 2 ^ 53" and e: "e < 2 ^ 53" and pe: "p ^ e < 2 ^ 53" by simp_all
  have conv: "int_float (int p) = real p"
    using fl_of_nat_exact [OF p] by (simp add: int_float_def)
  have small: "\<not> overflows (real n)" if "n < 2 ^ 53" for n :: nat
  proof -
    have "real n < 2 ^ 53" using that by (metis of_nat_less_iff of_nat_numeral of_nat_power)
    moreover have "(2::real) ^ 53 < 2 ^ 1024 - 2 ^ 970" by simp
    ultimately show ?thesis unfolding overflows_def by simp
  qed
  have "\<not> overflows (real p ^ e)" using small [OF pe] by simp
  then show "\<not> F_raises p e"
    using small [OF p] small [OF e] by (simp add: F_raises_def math_pow_raises_def conv)
  have "fl (real (p ^ e)) = real (p ^ e)" using pe by (rule fl_of_nat_exact)
  then show "F p e = real (p ^ e)" by (simp add: F_def math_pow_def conv)
next
  show "\<not> F_raises (2 ^ 32 - 2 ^ 27 + 1) 4"
    unfolding notebook_prime using F_returns by simp
  show "F (2 ^ 32 - 2 ^ 27 + 1) 4 = 299699699481304781882622373227978031104"
    unfolding notebook_prime by (rule F_notebook)
  show "real ((2 ^ 32 - 2 ^ 27 + 1) ^ 4) - F (2 ^ 32 - 2 ^ 27 + 1) 4 = 103871021822316118017"
    unfolding notebook_prime F_notebook by simp
  show "\<bar>F (2 ^ 32 - 2 ^ 27 + 1) 4 - real ((2 ^ 32 - 2 ^ 27 + 1) ^ 4)\<bar> * 2 ^ 53
        \<le> real ((2 ^ 32 - 2 ^ 27 + 1) ^ 4)"
    unfolding notebook_prime F_notebook by simp
qed

text \<open>
  C3 at the prime of the notebooks and \<open>e = 1\<close>, where the power is below \<open>2 ^ 53\<close>.
\<close>

theorem F_rounded_power_witness:
  "(4160749569::nat) < 2 ^ 53 \<and> (1::nat) < 2 ^ 53 \<and> (4160749569::nat) ^ 1 < 2 ^ 53
   \<and> \<not> F_raises 4160749569 1 \<and> F 4160749569 1 = 4160749569"
proof -
  have h: "(4160749569::nat) < 2 ^ 53 \<and> (1::nat) < 2 ^ 53 \<and> (4160749569::nat) ^ 1 < 2 ^ 53"
    by simp
  have "\<not> F_raises 4160749569 1 \<and> F 4160749569 1 = real ((4160749569::nat) ^ 1)"
    using F_rounded_power [of 4160749569 1] h by blast
  then show ?thesis using h by simp
qed

text \<open>
  C3 (as the specification states it) fails at the constants of the notebooks: for
  \<open>p = 2 ^ 32 - 2 ^ 27 + 1\<close> and \<open>e = 4\<close> the value of \<open>F\<close> is not the integer \<open>p ^ 4\<close>.
\<close>

theorem F_exact_counterexample:
  "F (2 ^ 32 - 2 ^ 27 + 1) 4 = 299699699481304781882622373227978031104
   \<and> F (2 ^ 32 - 2 ^ 27 + 1) 4 \<noteq> real ((2 ^ 32 - 2 ^ 27 + 1) ^ 4)"
  unfolding notebook_prime F_notebook by simp

subsection \<open>The closed form of the Johnson parameter\<close>






subsection \<open>Properties of all runs\<close>

text \<open>
  C5 (as the code has it). When \<open>theta \<ge> 1 - sqrt rho_plus\<close>, as the floats of the first
  assertion evaluate the two sides, the provable computation returns no report: it stops with
  an exception. When the cells before the \<^verbatim>\<open>m_plus\<close> cell have raised nothing, the exception
  is the \<^verbatim>\<open>AssertionError\<close> of the first assertion, with no message; otherwise it is the
  \<^verbatim>\<open>ZeroDivisionError\<close> or the \<^verbatim>\<open>OverflowError\<close> of one of those cells.
\<close>

theorem provable_constraint_enforced:
  assumes "fl (1 - math_sqrt (rho_plus k h)) \<le> theta m (rho k)"
  shows "(\<forall>r. provable k h e p C s m \<noteq> Inr r)
    \<and> (provable k h e p C s m = Inl (AssertionError [])
        \<or> provable k h e p C s m = Inl ZeroDivisionError
        \<or> provable k h e p C s m = Inl OverflowError)
    \<and> (constants_cell k h e p = None \<and> FRI_cell k h e p s m = None \<longrightarrow>
          provable k h e p C s m = Inl (AssertionError []))"
  using provable_first_assertion [OF assms, where e = e and p = p and C = C and s = s] by auto

text \<open>
  C5 (as the code has it) at \<open>m = 2 ^ 20\<close> with the other constants of the first notebook: the
  cells before the \<^verbatim>\<open>m_plus\<close> cell raise nothing and the run stops with the \<^verbatim>\<open>AssertionError\<close>.
\<close>

theorem provable_constraint_enforced_witness:
  "fl (1 - math_sqrt (rho_plus 2 18)) \<le> theta 1048576 (rho 2)
   \<and> constants_cell 2 18 4 4160749569 = None \<and> FRI_cell 2 18 4 4160749569 50 1048576 = None
   \<and> (\<forall>r. provable 2 18 4 4160749569 274 50 1048576 \<noteq> Inr r)
   \<and> provable 2 18 4 4160749569 274 50 1048576 = Inl (AssertionError [])"
proof -
  have first: "fl (1 - math_sqrt (rho_plus 2 18)) \<le> theta 1048576 (rho 2)"
    unfolding rho_2 theta_M rho_plus_2_18 first_bound_2_18 by simp
  have cells: "constants_cell 2 18 4 4160749569 = None"
      "FRI_cell 2 18 4 4160749569 50 1048576 = None"
    by (rule constants_cell_2_18, rule FRI_cell_M)
  show ?thesis
    using provable_constraint_enforced [OF first, where e = 4 and p = 4160749569 and C = 274
        and s = 50] first cells
    by blast
qed

text \<open>
  C5 (as the specification states it) fails at \<open>m = 2 ^ 20\<close> with the other constants of the
  first notebook: there \<open>theta \<ge> 1 - sqrt rho_plus\<close>, and the exception raised is an
  \<^verbatim>\<open>AssertionError\<close> with an empty message, which names neither a regime nor a margin.
\<close>

theorem provable_constraint_counterexample:
  "fl (1 - math_sqrt (rho_plus 2 18)) \<le> theta 1048576 (rho 2)
   \<and> provable 2 18 4 (2 ^ 32 - 2 ^ 27 + 1) 274 50 1048576 = Inl (AssertionError [])"
proof -
  have "fl (1 - math_sqrt (rho_plus 2 18)) \<le> theta 1048576 (rho 2)"
    unfolding rho_2 theta_M rho_plus_2_18 first_bound_2_18 by simp
  then show ?thesis unfolding notebook_prime using provable_M by simp
qed

text \<open>
  C6 (as the code has it). In each of the three computations, with all other constants fixed
  and \<open>0 < theta < 1\<close>, a run with more queries, \<open>s \<le> s'\<close>, has an FRI queries term that is
  not larger and a \<open>- log2 e_IOP\<close> that is not smaller, whenever both runs return a report.
\<close>

theorem queries_monotone:
  assumes "s \<le> s'"
  shows "(0 < theta m (rho k) \<and> theta m (rho k) < 1
          \<and> provable k h e p C s m = Inr ra \<and> provable k h e p C s' m = Inr ra'
        \<longrightarrow> FRI_queries ra' \<le> FRI_queries ra \<and> - log2_IOP ra \<le> - log2_IOP ra')
    \<and> (0 < theta_conj (rho k) epsilon \<and> theta_conj (rho k) epsilon < 1
          \<and> conjectured k h e p C s m epsilon ca cb C_rho = Inr rb
          \<and> conjectured k h e p C s' m epsilon ca cb C_rho = Inr rb'
        \<longrightarrow> FRI_queries rb' \<le> FRI_queries rb \<and> - log2_IOP rb \<le> - log2_IOP rb')
    \<and> (0 < theta_UDR (rho k) \<and> theta_UDR (rho k) < 1
          \<and> unique_decoding k h e p C s = Inr rc \<and> unique_decoding k h e p C s' = Inr rc'
        \<longrightarrow> FRI_queries rc' \<le> FRI_queries rc \<and> - log2_IOP rc \<le> - log2_IOP rc')"
proof (intro conjI impI)
  assume a: "0 < theta m (rho k) \<and> theta m (rho k) < 1
      \<and> provable k h e p C s m = Inr ra \<and> provable k h e p C s' m = Inr ra'"
  then have th: "0 < theta m (rho k)" "theta m (rho k) < 1" by simp_all
  from a obtain mp where
      mp: "m_plus_cell (alpha m (rho k)) (theta m (rho k)) (rho_plus k h) = Inr mp"
    and r: "IOP_cell (e_FRI_constant C m k h (F p e)) (e_FRI_queries (theta m (rho k)) s)
           (L_plus mp (rho_plus k h)) (e_ALI (L_plus mp (rho_plus k h)) C (F p e))
           (e_DEEP (L_plus mp (rho_plus k h)) k h (F p e)) e k h (F p e) = Inr ra"
    by (auto elim: provable_InrD)
  from a obtain mp' where
      mp': "m_plus_cell (alpha m (rho k)) (theta m (rho k)) (rho_plus k h) = Inr mp'"
    and r': "IOP_cell (e_FRI_constant C m k h (F p e)) (e_FRI_queries (theta m (rho k)) s')
           (L_plus mp' (rho_plus k h)) (e_ALI (L_plus mp' (rho_plus k h)) C (F p e))
           (e_DEEP (L_plus mp' (rho_plus k h)) k h (F p e)) e k h (F p e) = Inr ra'"
    by (auto elim: provable_InrD)
  have eq: "mp' = mp" using mp mp' by simp
  have both: "FRI_queries ra' \<le> FRI_queries ra \<and> - log2_IOP ra \<le> - log2_IOP ra'"
    using r r' [unfolded eq] e_FRI_queries_mono [OF th assms]
    by (rule IOP_cell_queries_mono)
  show "FRI_queries ra' \<le> FRI_queries ra" using both by simp
  show "- log2_IOP ra \<le> - log2_IOP ra'" using both by simp
next
  assume a: "0 < theta_conj (rho k) epsilon \<and> theta_conj (rho k) epsilon < 1
      \<and> conjectured k h e p C s m epsilon ca cb C_rho = Inr rb
      \<and> conjectured k h e p C s' m epsilon ca cb C_rho = Inr rb'"
  then have th: "0 < theta_conj (rho k) epsilon" "theta_conj (rho k) epsilon < 1" by simp_all
  from a have r: "IOP_cell (e_FRI_constant_conj epsilon ca cb C m k h (F p e))
           (e_FRI_queries (theta_conj (rho k) epsilon) s)
           (real_of_int (L_plus_conj k h epsilon C_rho))
           (e_ALI_int (L_plus_conj k h epsilon C_rho) C (F p e))
           (e_DEEP_int (L_plus_conj k h epsilon C_rho) k h (F p e)) e k h (F p e) = Inr rb"
    by (auto elim: conjectured_InrD)
  from a have r': "IOP_cell (e_FRI_constant_conj epsilon ca cb C m k h (F p e))
           (e_FRI_queries (theta_conj (rho k) epsilon) s')
           (real_of_int (L_plus_conj k h epsilon C_rho))
           (e_ALI_int (L_plus_conj k h epsilon C_rho) C (F p e))
           (e_DEEP_int (L_plus_conj k h epsilon C_rho) k h (F p e)) e k h (F p e) = Inr rb'"
    by (auto elim: conjectured_InrD)
  have both: "FRI_queries rb' \<le> FRI_queries rb \<and> - log2_IOP rb \<le> - log2_IOP rb'"
    using r r' e_FRI_queries_mono [OF th assms]
    by (rule IOP_cell_queries_mono)
  show "FRI_queries rb' \<le> FRI_queries rb" using both by simp
  show "- log2_IOP rb \<le> - log2_IOP rb'" using both by simp
next
  assume a: "0 < theta_UDR (rho k) \<and> theta_UDR (rho k) < 1
      \<and> unique_decoding k h e p C s = Inr rc \<and> unique_decoding k h e p C s' = Inr rc'"
  then have th: "0 < theta_UDR (rho k)" "theta_UDR (rho k) < 1" by simp_all
  from a have r: "IOP_cell (e_FRI_constant_UDR C k h (F p e))
           (e_FRI_queries (theta_UDR (rho k)) s)
           (real_of_int L_plus_UDR) (e_ALI_int L_plus_UDR C (F p e))
           (e_DEEP_int L_plus_UDR k h (F p e)) e k h (F p e) = Inr rc"
    by (auto elim: unique_decoding_InrD)
  from a have r': "IOP_cell (e_FRI_constant_UDR C k h (F p e))
           (e_FRI_queries (theta_UDR (rho k)) s')
           (real_of_int L_plus_UDR) (e_ALI_int L_plus_UDR C (F p e))
           (e_DEEP_int L_plus_UDR k h (F p e)) e k h (F p e) = Inr rc'"
    by (auto elim: unique_decoding_InrD)
  have both: "FRI_queries rc' \<le> FRI_queries rc \<and> - log2_IOP rc \<le> - log2_IOP rc'"
    using r r' e_FRI_queries_mono [OF th assms]
    by (rule IOP_cell_queries_mono)
  show "FRI_queries rc' \<le> FRI_queries rc" using both by simp
  show "- log2_IOP rc \<le> - log2_IOP rc'" using both by simp
qed

text \<open>
  C6 at the constants of the notebooks: 51 queries against 50 in both parts of the first
  notebook, 151 against 150 in the unique-decoding notebook.
\<close>

theorem queries_monotone_witness:
  "\<exists>r1 r1' r2 r2' r3 r3'.
      provable 2 18 4 4160749569 274 50 16 = Inr r1
    \<and> provable 2 18 4 4160749569 274 51 16 = Inr r1'
    \<and> conjectured 2 18 4 4160749569 274 50 16 (fl 0.05) 1 1 1 = Inr r2
    \<and> conjectured 2 18 4 4160749569 274 51 16 (fl 0.05) 1 1 1 = Inr r2'
    \<and> unique_decoding 2 20 4 4160749569 274 150 = Inr r3
    \<and> unique_decoding 2 20 4 4160749569 274 151 = Inr r3'
    \<and> 0 < theta 16 (rho 2) \<and> theta 16 (rho 2) < 1
    \<and> 0 < theta_conj (rho 2) (fl 0.05) \<and> theta_conj (rho 2) (fl 0.05) < 1
    \<and> 0 < theta_UDR (rho 2) \<and> theta_UDR (rho 2) < 1
    \<and> FRI_queries r1' \<le> FRI_queries r1 \<and> - log2_IOP r1 \<le> - log2_IOP r1'
    \<and> FRI_queries r2' \<le> FRI_queries r2 \<and> - log2_IOP r2 \<le> - log2_IOP r2'
    \<and> FRI_queries r3' \<le> FRI_queries r3 \<and> - log2_IOP r3 \<le> - log2_IOP r3'"
proof -
  have eps: "fl 0.05 = 3602879701896397 / 72057594037927936" using fl_val_87 by simp
  obtain r1 r1' where 1: "provable 2 18 4 4160749569 274 50 16 = Inr r1"
      "provable 2 18 4 4160749569 274 51 16 = Inr r1'"
    using provable_A provable_A_51 by simp
  obtain r2 r2' where 2: "conjectured 2 18 4 4160749569 274 50 16 (fl 0.05) 1 1 1 = Inr r2"
      "conjectured 2 18 4 4160749569 274 51 16 (fl 0.05) 1 1 1 = Inr r2'"
    unfolding eps using conjectured_B conjectured_B_51 by simp
  obtain r3 r3' where 3: "unique_decoding 2 20 4 4160749569 274 150 = Inr r3"
      "unique_decoding 2 20 4 4160749569 274 151 = Inr r3'"
    using unique_decoding_C unique_decoding_C_151 by simp
  have th: "0 < theta 16 (rho 2)" "theta 16 (rho 2) < 1"
      "0 < theta_conj (rho 2) (fl 0.05)" "theta_conj (rho 2) (fl 0.05) < 1"
      "0 < theta_UDR (rho 2)" "theta_UDR (rho 2) < 1"
    unfolding eps rho_2 theta_A theta_conj_B theta_UDR_2 by simp_all
  have a: "FRI_queries r1' \<le> FRI_queries r1 \<and> - log2_IOP r1 \<le> - log2_IOP r1'"
    using queries_monotone [where s = 50 and s' = 51 and m = 16 and k = 2 and h = 18 and e = 4
        and p = 4160749569 and C = 274 and ra = r1 and ra' = r1'] th 1 by simp
  have b: "FRI_queries r2' \<le> FRI_queries r2 \<and> - log2_IOP r2 \<le> - log2_IOP r2'"
    using queries_monotone [where s = 50 and s' = 51 and m = 16 and k = 2 and h = 18 and e = 4
        and p = 4160749569 and C = 274 and epsilon = "fl 0.05" and ca = 1 and cb = 1
        and C_rho = 1 and rb = r2 and rb' = r2'] th 2 by simp
  have c: "FRI_queries r3' \<le> FRI_queries r3 \<and> - log2_IOP r3 \<le> - log2_IOP r3'"
    using queries_monotone [where s = 150 and s' = 151 and k = 2 and h = 20 and e = 4
        and p = 4160749569 and C = 274 and rc = r3 and rc' = r3'] th 3 by simp
  show ?thesis using 1 2 3 th a b c by blast
qed

text \<open>
  C6 (as the specification states it) fails in the floats of the unique-decoding notebook:
  with its constants and \<open>0 < theta < 1\<close>, the runs with 1614 and with 1615 queries both
  return a report, the FRI queries term \<open>(5 / 8) ^ s\<close> has underflowed to 0 in both, and the
  two reports are the same, \<open>log2 e_IOP\<close> included.
\<close>

theorem queries_monotone_counterexample:
  "0 < theta_UDR (rho 2) \<and> theta_UDR (rho 2) < 1
   \<and> \<not> isl (unique_decoding 2 20 4 (2 ^ 32 - 2 ^ 27 + 1) 274 1614)
   \<and> FRI_queries (projr (unique_decoding 2 20 4 (2 ^ 32 - 2 ^ 27 + 1) 274 1614)) = 0
   \<and> FRI_queries (projr (unique_decoding 2 20 4 (2 ^ 32 - 2 ^ 27 + 1) 274 1615)) = 0
   \<and> unique_decoding 2 20 4 (2 ^ 32 - 2 ^ 27 + 1) 274 1615
       = unique_decoding 2 20 4 (2 ^ 32 - 2 ^ 27 + 1) 274 1614"
  unfolding notebook_prime unique_decoding_C_1614 unique_decoding_C_1615 rho_2 theta_UDR_2
  by simp

text \<open>
  C7. Every report of the unique-decoding notebook has list size 1, and its FRI constant term
  is the float product of \<open>L + 1\<close> and the float quotient \<open>D / F\<close>: the proximity gap is
  \<open>D / F\<close> and there is no folding term. The line that computes \<open>F\<close> has raised nothing, and
  \<open>F\<close> is not zero.
\<close>

theorem UDR_list_size_and_FRI_constant:
  assumes "unique_decoding k h e p C s = Inr r"
  shows "list_size r = 1 \<and> \<not> F_raises p e \<and> F p e \<noteq> 0
    \<and> FRI_constant r = fl (int_float (L C + 1) * fl (D k h / F p e))"
proof -
  from assms obtain mp where cc: "constants_cell k h e p = None"
    and fc: "FRI_cell_UDR k e p s = None"
    and r: "IOP_cell (e_FRI_constant_UDR C k h (F p e))
           (e_FRI_queries (theta_UDR (rho k)) s)
           (real_of_int L_plus_UDR) (e_ALI_int L_plus_UDR C (F p e))
           (e_DEEP_int L_plus_UDR k h (F p e)) e k h (F p e) = Inr r"
    by (rule unique_decoding_InrD)
  have "list_size r = 1" using IOP_cell_InrD(10) [OF r] by (simp add: L_plus_UDR_def)
  moreover have "FRI_constant r = fl (int_float (L C + 1) * fl (D k h / F p e))"
    using IOP_cell_InrD(4) [OF r] by (simp add: e_FRI_constant_UDR_def e_proximity_gap_UDR_def)
  ultimately show ?thesis
    using constants_cell_NoneD(3) [OF cc] FRI_cell_UDR_NoneD(1) [OF fc] by simp
qed

text \<open>
  C7 at the constants of the unique-decoding notebook.
\<close>

theorem UDR_list_size_and_FRI_constant_witness:
  "\<exists>r. unique_decoding 2 20 4 4160749569 274 150 = Inr r \<and> list_size r = 1
    \<and> \<not> F_raises 4160749569 4 \<and> F 4160749569 4 \<noteq> 0
    \<and> FRI_constant r = fl (int_float (L 274 + 1) * fl (D 2 20 / F 4160749569 4))"
proof -
  obtain r where r: "unique_decoding 2 20 4 4160749569 274 150 = Inr r"
    using unique_decoding_C by simp
  show ?thesis using UDR_list_size_and_FRI_constant [OF r] r by blast
qed

text \<open>
  C9. Reports of the three computations run with the same \<open>h\<close>, \<open>e\<close> and \<open>p\<close> (every other
  constant arbitrary, and free to differ between the runs) have the same PLONK term, the float
  quotient of \<open>e * 5 * 2 ^ h\<close> by \<open>F\<close>, and the same PLOOKUP term, the float quotient of
  \<open>e * 15 * 2 ^ h\<close> by \<open>F\<close>, where the line that computes \<open>F\<close> has raised nothing.
\<close>

theorem PLONK_PLOOKUP_regime_independent:
  assumes "provable k1 h e p C1 s1 m1 = Inr r1"
    and "conjectured k2 h e p C2 s2 m2 epsilon c_1 c_2 C_rho = Inr r2"
    and "unique_decoding k3 h e p C3 s3 = Inr r3"
  shows "\<not> F_raises p e
    \<and> PLONK r1 = fl (int_float (int e * 5 * 2 ^ h) / F p e)
    \<and> PLONK r2 = PLONK r1 \<and> PLONK r3 = PLONK r1
    \<and> PLOOKUP r1 = fl (int_float (int e * 15 * 2 ^ h) / F p e)
    \<and> PLOOKUP r2 = PLOOKUP r1 \<and> PLOOKUP r3 = PLOOKUP r1"
proof -
  from assms(1) obtain mp where cc: "constants_cell k1 h e p = None" and
      r1: "IOP_cell (e_FRI_constant C1 m1 k1 h (F p e)) (e_FRI_queries (theta m1 (rho k1)) s1)
           (L_plus mp (rho_plus k1 h)) (e_ALI (L_plus mp (rho_plus k1 h)) C1 (F p e))
           (e_DEEP (L_plus mp (rho_plus k1 h)) k1 h (F p e)) e k1 h (F p e) = Inr r1"
    by (auto elim: provable_InrD)
  from assms(2) have
      r2: "IOP_cell (e_FRI_constant_conj epsilon c_1 c_2 C2 m2 k2 h (F p e))
           (e_FRI_queries (theta_conj (rho k2) epsilon) s2)
           (real_of_int (L_plus_conj k2 h epsilon C_rho))
           (e_ALI_int (L_plus_conj k2 h epsilon C_rho) C2 (F p e))
           (e_DEEP_int (L_plus_conj k2 h epsilon C_rho) k2 h (F p e)) e k2 h (F p e) = Inr r2"
    by (auto elim: conjectured_InrD)
  from assms(3) have
      r3: "IOP_cell (e_FRI_constant_UDR C3 k3 h (F p e)) (e_FRI_queries (theta_UDR (rho k3)) s3)
           (real_of_int L_plus_UDR) (e_ALI_int L_plus_UDR C3 (F p e))
           (e_DEEP_int L_plus_UDR k3 h (F p e)) e k3 h (F p e) = Inr r3"
    by (auto elim: unique_decoding_InrD)
  show ?thesis
    using IOP_cell_InrD(8,9) [OF r1] IOP_cell_InrD(8,9) [OF r2] IOP_cell_InrD(8,9) [OF r3]
      constants_cell_NoneD(3) [OF cc]
    by (simp add: e_PLONK_def e_PLOOKUP_def H_def)
qed

text \<open>
  C9 at \<open>h = 18\<close>, \<open>e = 4\<close> and the prime of the notebooks, for the three computations.
\<close>

theorem PLONK_PLOOKUP_regime_independent_witness:
  "\<exists>r1 r2 r3. provable 2 18 4 4160749569 274 50 16 = Inr r1
    \<and> conjectured 2 18 4 4160749569 274 50 16 (fl 0.05) 1 1 1 = Inr r2
    \<and> unique_decoding 2 18 4 4160749569 274 150 = Inr r3
    \<and> \<not> F_raises 4160749569 4
    \<and> PLONK r1 = fl (int_float (int 4 * 5 * 2 ^ 18) / F 4160749569 4)
    \<and> PLONK r2 = PLONK r1 \<and> PLONK r3 = PLONK r1
    \<and> PLOOKUP r1 = fl (int_float (int 4 * 15 * 2 ^ 18) / F 4160749569 4)
    \<and> PLOOKUP r2 = PLOOKUP r1 \<and> PLOOKUP r3 = PLOOKUP r1"
proof -
  have eps: "fl 0.05 = 3602879701896397 / 72057594037927936" using fl_val_87 by simp
  obtain r1 where 1: "provable 2 18 4 4160749569 274 50 16 = Inr r1"
    using provable_A by simp
  obtain r2 where 2: "conjectured 2 18 4 4160749569 274 50 16 (fl 0.05) 1 1 1 = Inr r2"
    unfolding eps using conjectured_B by simp
  obtain r3 where 3: "unique_decoding 2 18 4 4160749569 274 150 = Inr r3"
    using unique_decoding_C_18 by simp
  show ?thesis using PLONK_PLOOKUP_regime_independent [OF 1 2 3] 1 2 3 by blast
qed

text \<open>
  C10. A run of the unique-decoding notebook that returns a report has passed both assertions
  of the \<^verbatim>\<open>m_plus\<close> cell, although its list size is 1 and the report is the one of the last
  cell run with \<^verbatim>\<open>L_plus = 1\<close>, which reads nothing of \<^verbatim>\<open>m_plus\<close>. A run in which the first
  assertion fails (after the cells before the \<^verbatim>\<open>m_plus\<close> cell have raised nothing) stops with
  an \<^verbatim>\<open>AssertionError\<close>, and a run in which the second assertion fails returns no report. At
  the constants of the notebook (\<open>rho = 1 / 4\<close>, \<open>theta = (1 - rho) / 2\<close>, \<open>h = 20\<close>) both
  assertions hold, \<open>m_plus\<close> is 3 and the run returns a report.
\<close>

theorem UDR_johnson_assertions:
  "(\<forall>r. unique_decoding k h e p C s = Inr r \<longrightarrow>
        theta_UDR (rho k) < fl (1 - math_sqrt (rho_plus k h))
      \<and> johnson_bound (theta_UDR (rho k)) (rho_plus k h)
            (m_plus (alpha_UDR (rho k)) (rho_plus k h)) = Inr True
      \<and> list_size r = 1
      \<and> \<not> F_raises p e
      \<and> IOP_cell (e_FRI_constant_UDR C k h (F p e)) (e_FRI_queries (theta_UDR (rho k)) s)
           1 (e_ALI_int 1 C (F p e)) (e_DEEP_int 1 k h (F p e)) e k h (F p e) = Inr r)
   \<and> (constants_cell k h e p = None \<and> FRI_cell_UDR k e p s = None
        \<and> fl (1 - math_sqrt (rho_plus k h)) \<le> theta_UDR (rho k) \<longrightarrow>
        unique_decoding k h e p C s = Inl (AssertionError []))
   \<and> (johnson_bound (theta_UDR (rho k)) (rho_plus k h)
            (m_plus (alpha_UDR (rho k)) (rho_plus k h)) = Inr False \<longrightarrow>
        (\<forall>r. unique_decoding k h e p C s \<noteq> Inr r))
   \<and> rho 2 = 1 / 4 \<and> theta_UDR (rho 2) = (1 - rho 2) / 2
   \<and> theta_UDR (rho 2) < fl (1 - math_sqrt (rho_plus 2 20))
   \<and> m_plus (alpha_UDR (rho 2)) (rho_plus 2 20) = 3
   \<and> johnson_bound (theta_UDR (rho 2)) (rho_plus 2 20) 3 = Inr True
   \<and> (\<exists>r. unique_decoding 2 20 4 (2 ^ 32 - 2 ^ 27 + 1) 274 150 = Inr r)"
proof -
  have enforced: "theta_UDR (rho k) < fl (1 - math_sqrt (rho_plus k h))
      \<and> johnson_bound (theta_UDR (rho k)) (rho_plus k h)
            (m_plus (alpha_UDR (rho k)) (rho_plus k h)) = Inr True
      \<and> list_size r = 1
      \<and> \<not> F_raises p e
      \<and> IOP_cell (e_FRI_constant_UDR C k h (F p e)) (e_FRI_queries (theta_UDR (rho k)) s)
           1 (e_ALI_int 1 C (F p e)) (e_DEEP_int 1 k h (F p e)) e k h (F p e) = Inr r"
    if "unique_decoding k h e p C s = Inr r" for r
  proof -
    from that obtain mp where cc: "constants_cell k h e p = None"
      and mp: "m_plus_cell (alpha_UDR (rho k)) (theta_UDR (rho k)) (rho_plus k h) = Inr mp"
      and r: "IOP_cell (e_FRI_constant_UDR C k h (F p e)) (e_FRI_queries (theta_UDR (rho k)) s)
           (real_of_int L_plus_UDR) (e_ALI_int L_plus_UDR C (F p e))
           (e_DEEP_int L_plus_UDR k h (F p e)) e k h (F p e) = Inr r"
      by (rule unique_decoding_InrD)
    have "list_size r = 1" using IOP_cell_InrD(10) [OF r] by (simp add: L_plus_UDR_def)
    then show ?thesis
      using m_plus_cell_InrD [OF mp] r constants_cell_NoneD(3) [OF cc]
      by (auto simp add: L_plus_UDR_def)
  qed
  have first: "unique_decoding k h e p C s = Inl (AssertionError [])"
    if "constants_cell k h e p = None \<and> FRI_cell_UDR k e p s = None
        \<and> fl (1 - math_sqrt (rho_plus k h)) \<le> theta_UDR (rho k)"
    using that m_plus_cell_first_assertion [where rp = "rho_plus k h"
        and th = "theta_UDR (rho k)" and al = "alpha_UDR (rho k)", OF rho_plus_nonneg]
    by (simp add: unique_decoding_def)
  have second: "unique_decoding k h e p C s \<noteq> Inr r"
    if "johnson_bound (theta_UDR (rho k)) (rho_plus k h)
            (m_plus (alpha_UDR (rho k)) (rho_plus k h)) = Inr False" for r
  proof
    assume "unique_decoding k h e p C s = Inr r"
    then obtain mp where
        "m_plus_cell (alpha_UDR (rho k)) (theta_UDR (rho k)) (rho_plus k h) = Inr mp"
      by (rule unique_decoding_InrD)
    then show False using m_plus_cell_second_assertion [OF that] by simp
  qed
  have notebook: "theta_UDR (rho 2) < fl (1 - math_sqrt (rho_plus 2 20))"
      "3 = m_plus (alpha_UDR (rho 2)) (rho_plus 2 20)"
      "johnson_bound (theta_UDR (rho 2)) (rho_plus 2 20) 3 = Inr True"
    using m_plus_cell_InrD [OF m_plus_cell_UDR_C]
    unfolding rho_2 alpha_UDR_2 theta_UDR_2 rho_plus_2_20 by simp_all
  have th: "theta_UDR (rho 2) = (1 - rho 2) / 2"
    unfolding rho_2 theta_UDR_2 by simp
  have run: "\<exists>r. unique_decoding 2 20 4 (2 ^ 32 - 2 ^ 27 + 1) 274 150 = Inr r"
    unfolding notebook_prime unique_decoding_C by simp
  show ?thesis
  proof (intro conjI)
    show "\<forall>r. unique_decoding k h e p C s = Inr r \<longrightarrow>
        theta_UDR (rho k) < fl (1 - math_sqrt (rho_plus k h))
      \<and> johnson_bound (theta_UDR (rho k)) (rho_plus k h)
            (m_plus (alpha_UDR (rho k)) (rho_plus k h)) = Inr True
      \<and> list_size r = 1
      \<and> \<not> F_raises p e
      \<and> IOP_cell (e_FRI_constant_UDR C k h (F p e)) (e_FRI_queries (theta_UDR (rho k)) s)
           1 (e_ALI_int 1 C (F p e)) (e_DEEP_int 1 k h (F p e)) e k h (F p e) = Inr r"
      using enforced by blast
    show "constants_cell k h e p = None \<and> FRI_cell_UDR k e p s = None
        \<and> fl (1 - math_sqrt (rho_plus k h)) \<le> theta_UDR (rho k) \<longrightarrow>
        unique_decoding k h e p C s = Inl (AssertionError [])"
      using first by blast
    show "johnson_bound (theta_UDR (rho k)) (rho_plus k h)
            (m_plus (alpha_UDR (rho k)) (rho_plus k h)) = Inr False \<longrightarrow>
        (\<forall>r. unique_decoding k h e p C s \<noteq> Inr r)"
      using second by blast
    show "rho 2 = 1 / 4" by (rule rho_2)
    show "theta_UDR (rho 2) = (1 - rho 2) / 2" by (rule th)
    show "theta_UDR (rho 2) < fl (1 - math_sqrt (rho_plus 2 20))" by (rule notebook(1))
    show "m_plus (alpha_UDR (rho 2)) (rho_plus 2 20) = 3" using notebook(2) by simp
    show "johnson_bound (theta_UDR (rho 2)) (rho_plus 2 20) 3 = Inr True" by (rule notebook(3))
    show "\<exists>r. unique_decoding 2 20 4 (2 ^ 32 - 2 ^ 27 + 1) 274 150 = Inr r" by (rule run)
  qed
qed

text \<open>
  C10 at two inputs: at \<open>k = 1\<close> and \<open>h = 1\<close> the cells before the \<^verbatim>\<open>m_plus\<close> cell raise
  nothing, the first assertion fails and the run stops with the \<^verbatim>\<open>AssertionError\<close>; at the
  constants of the notebook the run returns a report and both assertions hold.
\<close>

theorem UDR_johnson_assertions_witness:
  "constants_cell 1 1 4 4160749569 = None \<and> FRI_cell_UDR 1 4 4160749569 150 = None
   \<and> fl (1 - math_sqrt (rho_plus 1 1)) \<le> theta_UDR (rho 1)
   \<and> unique_decoding 1 1 4 4160749569 274 150 = Inl (AssertionError [])
   \<and> (\<exists>r. unique_decoding 2 20 4 4160749569 274 150 = Inr r
        \<and> theta_UDR (rho 2) < fl (1 - math_sqrt (rho_plus 2 20))
        \<and> johnson_bound (theta_UDR (rho 2)) (rho_plus 2 20)
             (m_plus (alpha_UDR (rho 2)) (rho_plus 2 20)) = Inr True
        \<and> list_size r = 1)"
proof -
  have fails: "constants_cell 1 1 4 4160749569 = None \<and> FRI_cell_UDR 1 4 4160749569 150 = None
      \<and> fl (1 - math_sqrt (rho_plus 1 1)) \<le> theta_UDR (rho 1)"
    unfolding rho_1 theta_UDR_1 rho_plus_1_1 first_bound_1_1
    using constants_cell_1_1 FRI_cell_UDR_W by simp
  have 1: "unique_decoding 1 1 4 4160749569 274 150 = Inl (AssertionError [])"
    using UDR_johnson_assertions [of 1 1 4 4160749569 274 150] fails by blast
  obtain r where r: "unique_decoding 2 20 4 4160749569 274 150 = Inr r"
    using unique_decoding_C by simp
  have 2: "theta_UDR (rho 2) < fl (1 - math_sqrt (rho_plus 2 20))
        \<and> johnson_bound (theta_UDR (rho 2)) (rho_plus 2 20)
             (m_plus (alpha_UDR (rho 2)) (rho_plus 2 20)) = Inr True
        \<and> list_size r = 1"
    using UDR_johnson_assertions [of 2 20 4 4160749569 274 150] r by blast
  show ?thesis using fails 1 r 2 by blast
qed

subsection \<open>The three scenarios\<close>

lemma abs_apart:
  fixes x a b d e :: real
  assumes "\<bar>x - a\<bar> \<le> d" and "d + e < b - a"
  shows "\<not> \<bar>x - b\<bar> \<le> e"
  using assms by linarith

lemma abs_neg_diff: "\<bar>- a - b\<bar> = \<bar>a - (- b)\<bar>" for a b :: real
  by simp

lemma epsilon_notebook: "fl 0.05 = 3602879701896397 / 72057594037927936"
  using fl_val_87 by simp

text \<open>
  C1. The provable part of the first notebook at its constants, \<open>k = 2\<close>, \<open>h = 18\<close>, \<open>e = 4\<close>,
  \<open>p = 2 ^ 32 - 2 ^ 27 + 1\<close>, \<open>C = 274\<close> (so \<open>L = 278\<close>), \<open>s = 50\<close> and \<open>m = 16\<close>, returns a
  report. Its cell output \<^verbatim>\<open>math.log(e_IOP, 2)\<close> gives \<open>- log2 e_IOP\<close> within 0.01 of 47.495,
  and the \<^verbatim>\<open>np.log2\<close> of its six rows are within 0.0005 of -49.975 (FRI constant), -47.780
  (FRI queries), -114.589 (ALI), -102.366 (DEEP), -105.495 (PLONK) and -103.910 (PLOOKUP).
\<close>

theorem scenario_A_provable:
  "L 274 = 278
   \<and> (\<exists>r. provable 2 18 4 (2 ^ 32 - 2 ^ 27 + 1) 274 50 16 = Inr r
      \<and> \<bar>- log2_IOP r - 47.495\<bar> \<le> 0.01
      \<and> \<bar>np_log2 (FRI_constant r) - (- 49.975)\<bar> \<le> 0.0005
      \<and> \<bar>np_log2 (FRI_queries r) - (- 47.780)\<bar> \<le> 0.0005
      \<and> \<bar>np_log2 (ALI r) - (- 114.589)\<bar> \<le> 0.0005
      \<and> \<bar>np_log2 (DEEP r) - (- 102.366)\<bar> \<le> 0.0005
      \<and> \<bar>np_log2 (PLONK r) - (- 105.495)\<bar> \<le> 0.0005
      \<and> \<bar>np_log2 (PLOOKUP r) - (- 103.910)\<bar> \<le> 0.0005)"
proof -
  have total: "\<bar>- math_log (6390287041141039 / 1267650600228229401496703205376) 2 - 47.495\<bar> \<le> 0.01"
    unfolding abs_neg_diff by (rule math_log_IOP_A)
  show ?thesis
    unfolding notebook_prime provable_A
    using L_274 total np_log2_FRI_constant_A np_log2_FRI_queries_A np_log2_ALI_A np_log2_DEEP_A
      np_log2_PLONK_A np_log2_PLOOKUP_A
    by simp
qed

text \<open>
  C8. The conjectured part of the first notebook at the constants of the provable part
  (\<open>m = 16\<close> is read again for the folding error), with \<open>epsilon\<close> the float \<^verbatim>\<open>0.05\<close> and
  \<open>c_1 = c_2 = C_rho = 1\<close>, returns a report. Its cell output gives \<open>- log2 e_IOP\<close> within
  0.0005 of 82.779, the \<^verbatim>\<open>np.log2\<close> of its rows are within 0.0005 of -85.259 (FRI constant),
  -86.848 (FRI queries), -95.397 (ALI) and -83.173 (DEEP), and its PLONK and PLOOKUP rows are
  those of the provable part.
\<close>

theorem scenario_B_conjectured:
  "\<exists>r a. conjectured 2 18 4 (2 ^ 32 - 2 ^ 27 + 1) 274 50 16 (fl 0.05) 1 1 1 = Inr r
      \<and> provable 2 18 4 (2 ^ 32 - 2 ^ 27 + 1) 274 50 16 = Inr a
      \<and> \<bar>- log2_IOP r - 82.779\<bar> \<le> 0.0005
      \<and> \<bar>np_log2 (FRI_constant r) - (- 85.259)\<bar> \<le> 0.0005
      \<and> \<bar>np_log2 (FRI_queries r) - (- 86.848)\<bar> \<le> 0.0005
      \<and> \<bar>np_log2 (ALI r) - (- 95.397)\<bar> \<le> 0.0005
      \<and> \<bar>np_log2 (DEEP r) - (- 83.173)\<bar> \<le> 0.0005
      \<and> PLONK r = PLONK a \<and> PLOOKUP r = PLOOKUP a"
proof -
  have total: "\<bar>- math_log (5249548359686015 / 43556142965880123323311949751266331066368) 2 - 82.779\<bar> \<le> 0.0005"
    unfolding abs_neg_diff by (rule math_log_IOP_B)
  show ?thesis
    unfolding notebook_prime epsilon_notebook conjectured_B provable_A
    using total np_log2_FRI_constant_B np_log2_FRI_queries_B np_log2_ALI_B np_log2_DEEP_B
    by simp
qed

text \<open>
  C4 (as the code has it). The unique-decoding notebook at its constants, \<open>k = 2\<close>, \<open>h = 20\<close>,
  \<open>e = 4\<close>, \<open>p = 2 ^ 32 - 2 ^ 27 + 1\<close>, \<open>C = 274\<close> and \<open>s = 150\<close>, returns a report whose cell
  output gives \<open>- log2 e_IOP\<close> within 0.0005 of 97.506. The value 99.289 is the one of the
  same computation at \<open>h = 18\<close>.
\<close>

theorem scenario_C_unique_decoding:
  "(\<exists>r. unique_decoding 2 20 4 (2 ^ 32 - 2 ^ 27 + 1) 274 150 = Inr r
      \<and> \<bar>- log2_IOP r - 97.506\<bar> \<le> 0.0005)
   \<and> (\<exists>r. unique_decoding 2 18 4 (2 ^ 32 - 2 ^ 27 + 1) 274 150 = Inr r
      \<and> \<bar>- log2_IOP r - 99.289\<bar> \<le> 0.0005)"
proof -
  have 1: "\<bar>- math_log (6341259184896967 / 1427247692705959881058285969449495136382746624) 2 - 97.506\<bar> \<le> 0.0005"
    unfolding abs_neg_diff by (rule math_log_IOP_C)
  have 2: "\<bar>- math_log (3686564456228391 / 2854495385411919762116571938898990272765493248) 2 - 99.289\<bar> \<le> 0.0005"
    unfolding abs_neg_diff by (rule math_log_IOP_C_18)
  show ?thesis
    unfolding notebook_prime unique_decoding_C unique_decoding_C_18 using 1 2 by simp
qed

text \<open>
  C4 (as the specification states it) fails: at \<open>h = 20\<close> the run returns a report, and its
  \<open>- log2 e_IOP\<close> is within 0.0005 of 97.506, so it is not within 0.01 of 99.289.
\<close>

theorem scenario_C_counterexample:
  "\<not> isl (unique_decoding 2 20 4 (2 ^ 32 - 2 ^ 27 + 1) 274 150)
   \<and> \<bar>- log2_IOP (projr (unique_decoding 2 20 4 (2 ^ 32 - 2 ^ 27 + 1) 274 150)) - 97.506\<bar> \<le> 0.0005
   \<and> \<not> \<bar>- log2_IOP (projr (unique_decoding 2 20 4 (2 ^ 32 - 2 ^ 27 + 1) 274 150)) - 99.289\<bar> \<le> 0.01"
proof -
  have 1: "\<bar>- math_log (6341259184896967 / 1427247692705959881058285969449495136382746624) 2 - 97.506\<bar> \<le> 0.0005"
    unfolding abs_neg_diff by (rule math_log_IOP_C)
  then have 2: "\<not> \<bar>- math_log (6341259184896967 / 1427247692705959881058285969449495136382746624) 2 - 99.289\<bar> \<le> 0.01"
    by (rule abs_apart) simp
  show ?thesis
    unfolding notebook_prime unique_decoding_C using 1 2 by simp
qed

end
